theory Spec2Isabelle
  imports Complex_Main
begin

section \<open>Values, failures and the numpy operations the module relies on\<close>

text \<open>
  The module \<^verbatim>\<open>unctytwod.py\<close> computes with numpy arrays of double precision numbers.
  The embedding takes the numbers to be the reals: rounding is outside the model, and so
  is the difference between numpy's \<^verbatim>\<open>inf\<close>/\<^verbatim>\<open>nan\<close> for a division by zero and HOL's
  \<open>x / 0 = 0\<close>; statements whose truth depends on a denominator carry the hypothesis
  that it is not zero. A one-dimensional array is a \<open>real list\<close>, a two-dimensional one a
  list of rows, an \<open>[N,2,2]\<close> stack a list of \<open>mat2\<close>. \<^verbatim>\<open>np.copy\<close> is the identity on
  values.

  A method that mutates its instance takes the instance and returns an \<open>outcome\<close>: the
  instance after a normal return, or the exception raised together with the instance as
  the exception leaves it. A function that only computes returns \<open>error + value\<close>.
\<close>

datatype error = ValueError | IndexError | AttributeError | TypeError

datatype 's outcome = Returned 's | Raised error 's

fun state_of :: "'s outcome \<Rightarrow> 's" where
  "state_of (Returned s) = s"
| "state_of (Raised e s) = s"

fun obind :: "'s outcome \<Rightarrow> ('s \<Rightarrow> 's outcome) \<Rightarrow> 's outcome" where
  "obind (Returned s) f = f s"
| "obind (Raised e s) f = Raised e s"

datatype mat2 = Mat2 (m00: real) (m01: real) (m10: real) (m11: real)

definition matmul2 :: "mat2 \<Rightarrow> mat2 \<Rightarrow> mat2" where
  "matmul2 A B = Mat2 (m00 A * m00 B + m01 A * m10 B) (m00 A * m01 B + m01 A * m11 B)
                      (m10 A * m00 B + m11 A * m10 B) (m10 A * m01 B + m11 A * m11 B)"

definition transpose2 :: "mat2 \<Rightarrow> mat2" where
  "transpose2 A = Mat2 (m00 A) (m10 A) (m01 A) (m11 A)"

definition symmetric2 :: "mat2 \<Rightarrow> bool" where
  "symmetric2 A = (m01 A = m10 A)"

text \<open>
  \<^verbatim>\<open>np.matmul\<close> on two stacks of 2x2 matrices multiplies plane by plane and broadcasts a
  stack of one plane; any other pair of lengths is a \<^verbatim>\<open>ValueError\<close>.
\<close>

definition matmul_stack :: "mat2 list \<Rightarrow> mat2 list \<Rightarrow> error + mat2 list" where
  "matmul_stack A B =
     (if length A = length B then Inr (map2 matmul2 A B)
      else if length A = 1 then Inr (map (matmul2 (hd A)) B)
      else if length B = 1 then Inr (map (\<lambda>a. matmul2 a (hd B)) A)
      else Inl ValueError)"

text \<open>
  An elementwise operation on two one-dimensional arrays pairs the entries, broadcasting an
  array of one entry; any other pair of lengths is a \<^verbatim>\<open>ValueError\<close>.
\<close>

definition np_broadcast :: "real list \<Rightarrow> real list \<Rightarrow> error + (real \<times> real) list" where
  "np_broadcast xs ys =
     (if length xs = length ys then Inr (zip xs ys)
      else if length xs = 1 then Inr (map (\<lambda>b. (hd xs, b)) ys)
      else if length ys = 1 then Inr (map (\<lambda>a. (a, hd ys)) xs)
      else Inl ValueError)"

text \<open>
  \<^verbatim>\<open>numpy.polynomial.polynomial.polyval\<close> is Horner's rule; \<^verbatim>\<open>polyval2d(x, y, c)\<close>
  is \<open>\<Sum>i j. c[i,j] * x^i * y^j\<close> at every point, refuses \<open>x\<close> and \<open>y\<close> of different
  shapes with a \<^verbatim>\<open>ValueError\<close>, and indexes \<^verbatim>\<open>c[-1]\<close>, an \<^verbatim>\<open>IndexError\<close> when an
  axis of \<open>c\<close> is empty.
\<close>

definition polyval :: "real \<Rightarrow> real list \<Rightarrow> real" where
  "polyval x c = foldr (\<lambda>a acc. a + acc * x) c 0"

definition polyval2d_pt :: "real list list \<Rightarrow> real \<times> real \<Rightarrow> real" where
  "polyval2d_pt c pt = polyval (fst pt) (map (polyval (snd pt)) c)"

definition polyval2d :: "real list \<Rightarrow> real list \<Rightarrow> real list list \<Rightarrow> error + real list" where
  "polyval2d xs ys c =
     (if length xs \<noteq> length ys then Inl ValueError
      else if c = [] \<or> list_ex (\<lambda>row. row = []) c then Inl IndexError
      else Inr (map (polyval2d_pt c) (zip xs ys)))"

text \<open>
  \<^verbatim>\<open>polyder(c, 1, 1, axis)\<close>: along the axis, entry \<open>k\<close> of the result is \<open>(k+1) * c[k+1]\<close>;
  an axis of length at most one gives \<^verbatim>\<open>c[:1] * 0\<close>.
\<close>

definition polyder1 :: "real list \<Rightarrow> real list" where
  "polyder1 c = (if length c \<le> 1 then map (\<lambda>v. 0) (take 1 c)
                 else map (\<lambda>k. real (k + 1) * c ! (k + 1)) [0..<length c - 1])"

definition polyder_axis0 :: "real list list \<Rightarrow> real list list" where
  "polyder_axis0 c = (if length c \<le> 1 then map (map (\<lambda>v. 0)) (take 1 c)
                      else map (\<lambda>k. map (\<lambda>v. real (k + 1) * v) (c ! (k + 1))) [0..<length c - 1])"

definition polyder_axis1 :: "real list list \<Rightarrow> real list list" where
  "polyder_axis1 c = map polyder1 c"

text \<open>\<^verbatim>\<open>np.pad(c, [[0,1],[0,0]])\<close> appends a row of zeros, \<^verbatim>\<open>[[0,0],[0,1]]\<close> a column.\<close>

definition pad_row :: "real list list \<Rightarrow> real list list" where
  "pad_row c = c @ [replicate (case c of [] \<Rightarrow> 0 | r # _ \<Rightarrow> length r) 0]"

definition pad_col :: "real list list \<Rightarrow> real list list" where
  "pad_col c = map (\<lambda>r. r @ [0]) c"

text \<open>Python's \<^verbatim>\<open>int()\<close> of a float truncates towards zero.\<close>

definition pyint :: "real \<Rightarrow> int" where
  "pyint r = (if 0 \<le> r then \<lfloor>r\<rfloor> else \<lceil>r\<rceil>)"

text \<open>\<^verbatim>\<open>np.min\<close> and \<^verbatim>\<open>np.max\<close> raise a \<^verbatim>\<open>ValueError\<close> on an empty array.\<close>

definition np_min :: "real list \<Rightarrow> error + real" where
  "np_min xs = (case xs of [] \<Rightarrow> Inl ValueError | a # as \<Rightarrow> Inr (fold min as a))"

definition np_max :: "real list \<Rightarrow> error + real" where
  "np_max xs = (case xs of [] \<Rightarrow> Inl ValueError | a # as \<Rightarrow> Inr (fold max as a))"

section \<open>Polycoeffs: flat coefficients and the triangular array\<close>

record Polycoeffs =
  Polycoeffs_p :: "real list"
  Polycoeffs_p2d :: "real list list"
  Polycoeffs_deg :: int
  Polycoeffs_i :: "nat list"
  Polycoeffs_j :: "nat list"

definition degfromcoeffs :: "real \<Rightarrow> real" where
  "degfromcoeffs m = (- 3 + sqrt (9 + 8 * (m - 1))) / 2"

text \<open>
  The loop of \<^verbatim>\<open>ijfromdeg\<close> over \<^verbatim>\<open>range(deg+1)\<close>: \<open>ijloop n\<close> is the pair of arrays
  after the first \<open>n\<close> passes.
\<close>

primrec ijloop :: "nat \<Rightarrow> nat list \<times> nat list" where
  "ijloop 0 = ([], [])"
| "ijloop (Suc iterm) =
     (let count = [0..<iterm + 1]
      in (fst (ijloop iterm) @ rev count, snd (ijloop iterm) @ count))"

definition ijfromdeg :: "int \<Rightarrow> nat list \<times> nat list" where
  "ijfromdeg deg = ijloop (nat (deg + 1))"

definition assigndeg :: "Polycoeffs \<Rightarrow> Polycoeffs" where
  "assigndeg s =
     (let degr = degfromcoeffs (real (length (Polycoeffs_p s)))
      in if \<bar>degr - real_of_int (pyint degr)\<bar> > 1 / 1000
         then s\<lparr>Polycoeffs_deg := - 1\<rparr>
         else s\<lparr>Polycoeffs_deg := pyint degr\<rparr>)"

definition assignij :: "Polycoeffs \<Rightarrow> Polycoeffs" where
  "assignij s = s\<lparr>Polycoeffs_i := fst (ijfromdeg (Polycoeffs_deg s)),
                  Polycoeffs_j := snd (ijfromdeg (Polycoeffs_deg s))\<rparr>"

definition initcoeffs2d :: "Polycoeffs \<Rightarrow> Polycoeffs" where
  "initcoeffs2d s =
     s\<lparr>Polycoeffs_p2d := replicate (nat (Polycoeffs_deg s + 1))
                             (replicate (nat (Polycoeffs_deg s + 1)) 0)\<rparr>"

text \<open>
  The indexed assignment \<^verbatim>\<open>a[i[l], j[l]] = p[l]\<close> with \<^verbatim>\<open>l = arange(size(p))\<close>: entry
  by entry in the order of \<open>l\<close>; an index beyond \<open>i\<close>, \<open>j\<close> or the array is an
  \<^verbatim>\<open>IndexError\<close>, raised before anything is written.
\<close>

definition put2d :: "real list list \<Rightarrow> nat \<Rightarrow> nat \<Rightarrow> real \<Rightarrow> real list list" where
  "put2d a r c v = a[r := (a ! r)[c := v]]"

definition fill2d :: "real list list \<Rightarrow> nat list \<Rightarrow> nat list \<Rightarrow> real list \<Rightarrow> real list list" where
  "fill2d a is js p = fold (\<lambda>k b. put2d b (is ! k) (js ! k) (p ! k)) [0..<length p] a"

definition fill2d_ok :: "real list list \<Rightarrow> nat list \<Rightarrow> nat list \<Rightarrow> real list \<Rightarrow> bool" where
  "fill2d_ok a is js p =
     (length p \<le> length is \<and> length p \<le> length js \<and>
      list_all (\<lambda>k. is ! k < length a \<and> js ! k < length (a ! (is ! k))) [0..<length p])"

definition updatecoeffs2d :: "Polycoeffs \<Rightarrow> Polycoeffs outcome" where
  "updatecoeffs2d s =
     (if Polycoeffs_deg s < 1 then Returned s
      else if \<not> fill2d_ok (Polycoeffs_p2d s) (Polycoeffs_i s) (Polycoeffs_j s) (Polycoeffs_p s)
      then Raised IndexError s
      else Returned (s\<lparr>Polycoeffs_p2d :=
             fill2d (Polycoeffs_p2d s) (Polycoeffs_i s) (Polycoeffs_j s) (Polycoeffs_p s)\<rparr>))"

definition updatecoeffs :: "Polycoeffs \<Rightarrow> real list \<Rightarrow> Polycoeffs outcome" where
  "updatecoeffs s p =
     (if length p < 1 then Returned s else updatecoeffs2d (s\<lparr>Polycoeffs_p := p\<rparr>))"

definition Polycoeffs_init :: "real list \<Rightarrow> Polycoeffs outcome" where
  "Polycoeffs_init p =
     updatecoeffs2d (initcoeffs2d (assignij (assigndeg
       \<lparr>Polycoeffs_p = p, Polycoeffs_p2d = [], Polycoeffs_deg = - 1,
        Polycoeffs_i = [], Polycoeffs_j = []\<rparr>)))"

text \<open>Reading the triangular array back at the index pairs of \<^verbatim>\<open>ijfromdeg\<close>.\<close>

definition readback :: "real list list \<Rightarrow> nat list \<times> nat list \<Rightarrow> real list" where
  "readback a ij = map (\<lambda>k. a ! (fst ij ! k) ! (snd ij ! k)) [0..<length (fst ij)]"

section \<open>Parvec: the tangent point and the two coefficient vectors\<close>

text \<open>
  \<^verbatim>\<open>Parvec.__init__\<close> sets \<^verbatim>\<open>hasxy0\<close>, \<^verbatim>\<open>inds1d_6term\<close>, \<^verbatim>\<open>parsx\<close>, \<^verbatim>\<open>parsy\<close> and
  \<^verbatim>\<open>tangentpoint\<close> and no attribute \<^verbatim>\<open>Verbose\<close>: the read of \<^verbatim>\<open>self.Verbose\<close> on the
  path that rejects the coefficient count raises an \<^verbatim>\<open>AttributeError\<close>.
\<close>

record Parvec =
  Parvec_hasxy0 :: bool
  Parvec_inds1d_6term :: "nat list"
  Parvec_parsx :: "real list"
  Parvec_parsy :: "real list"
  Parvec_tangentpoint :: "real list"

definition Parvec_ingestpars :: "Parvec \<Rightarrow> real list \<Rightarrow> Parvec outcome" where
  "Parvec_ingestpars s pars =
     (if length pars < 2 then Returned s
      else
        let s1 = s\<lparr>Parvec_tangentpoint := take 2 pars\<rparr> in
        if length pars < 3 then Returned s1
        else
          let parsxy = drop 2 pars;
              nxy = length parsxy
          in if nxy mod 2 > 0 then Returned s1
             else
               let imid = nxy div 2;
                   parsx = take imid parsxy;
                   parsy = drop imid parsxy;
                   s2 = s1\<lparr>Parvec_inds1d_6term := [0, 2, 3, 1, imid + 2, imid + 3]\<rparr>;
                   degx = degfromcoeffs (real (length parsx))
               in if degx - real_of_int (pyint degx) > 0 then
                    let degx1 = degfromcoeffs (real (length parsx + 1))
                    in if degx1 - real_of_int (pyint degx1) > 0 then Raised AttributeError s2
                       else Returned (s2\<lparr>Parvec_hasxy0 := False,
                                         Parvec_parsx := 0 # parsx,
                                         Parvec_parsy := 0 # parsy\<rparr>)
                  else Returned (s2\<lparr>Parvec_parsx := parsx, Parvec_parsy := parsy\<rparr>))"

definition Parvec_init :: "real list \<Rightarrow> Parvec outcome" where
  "Parvec_init pars =
     Parvec_ingestpars
       \<lparr>Parvec_hasxy0 = True, Parvec_inds1d_6term = [], Parvec_parsx = [],
        Parvec_parsy = [], Parvec_tangentpoint = []\<rparr> pars"

text \<open>
  The lengths the spec calls valid: \<open>(d+1)(d+2)/2\<close> coefficients for a degree \<open>d\<close>.
\<close>

definition polylen :: "nat \<Rightarrow> nat" where
  "polylen d = (d + 1) * (d + 2) div 2"

definition is_polylen :: "nat \<Rightarrow> bool" where
  "is_polylen m = list_ex (\<lambda>d. m = polylen d) [0..<Suc m]"

section \<open>The gnomonic transforms Tan2equ and Equ2tan\<close>

text \<open>
  Both classes keep the positions \<open>x\<close>, \<open>y\<close>, the covariances, the tangent point
  \<open>pars\<close>, the unit switch with its conversion factor, the Jacobian and the transformed
  quantities. After \<^verbatim>\<open>__init__\<close> the Jacobian is what \<^verbatim>\<open>evaluatejac\<close> returned: an
  \<open>[N,2,2]\<close> stack, or the empty array when there are no positions (the empty list).
  The switch \<^verbatim>\<open>Verbose\<close>, the plot labels and the unused limits are left out.
\<close>

record Tan2equ =
  Tan2equ_x :: "real list"
  Tan2equ_y :: "real list"
  Tan2equ_covxy :: "mat2 list"
  Tan2equ_pars :: "real list"
  Tan2equ_degrees :: bool
  Tan2equ_conv2rad :: real
  Tan2equ_jac :: "mat2 list"
  Tan2equ_xtran :: "real list"
  Tan2equ_ytran :: "real list"
  Tan2equ_covtran :: "mat2 list"

record Equ2tan =
  Equ2tan_x :: "real list"
  Equ2tan_y :: "real list"
  Equ2tan_covxy :: "mat2 list"
  Equ2tan_pars :: "real list"
  Equ2tan_degrees :: bool
  Equ2tan_conv2rad :: real
  Equ2tan_jac :: "mat2 list"
  Equ2tan_xtran :: "real list"
  Equ2tan_ytran :: "real list"
  Equ2tan_covtran :: "mat2 list"

definition setconversion :: "bool \<Rightarrow> real" where
  "setconversion degrees = (if degrees then pi / 180 else 1)"

text \<open>The body of \<^verbatim>\<open>Tan2equ.evaluatejac\<close> at one point.\<close>

definition Tan2equ_jac_pt :: "real \<Rightarrow> real \<Rightarrow> real \<Rightarrow> real \<times> real \<Rightarrow> mat2" where
  "Tan2equ_jac_pt conv2rad p0 p1 pt =
     (let xi = fst pt * conv2rad;
          eta = snd pt * conv2rad;
          alpha0 = p0 * conv2rad;
          delta0 = p1 * conv2rad;
          denom00 = (cos delta0 - eta * sin delta0)
                    * (1 + (xi / (cos delta0 - eta * sin delta0))\<^sup>2);
          J_ax = 1 / denom00;
          denom01 = xi\<^sup>2 + (cos delta0)\<^sup>2 - 2 * eta * cos delta0 * sin delta0
                    + eta\<^sup>2 * (sin delta0)\<^sup>2;
          J_ay = xi * sin delta0 / denom01;
          denom10 = (1 + xi\<^sup>2 + eta\<^sup>2)
                    * sqrt (xi\<^sup>2 + (cos delta0 - eta * sin delta0)\<^sup>2);
          J_dx = 0 - xi * (eta * cos delta0 + sin delta0) / denom10;
          J_dy = ((1 + xi\<^sup>2) * cos delta0 - eta * sin delta0) / denom10
      in Mat2 J_ax J_ay J_dx J_dy)"

text \<open>
  The four terms combine \<open>x\<close> and \<open>y\<close> elementwise and are then written into planes
  \<open>[:,r,c]\<close> of \<^verbatim>\<open>np.zeros((x.size, 2, 2))\<close>; the write fails with a \<^verbatim>\<open>ValueError\<close>
  unless the combined length is that of \<open>x\<close>. \<^verbatim>\<open>self.pars[0]\<close> and \<^verbatim>\<open>self.pars[1]\<close> are
  read first.
\<close>

definition Tan2equ_evaluatejac :: "Tan2equ \<Rightarrow> real list \<Rightarrow> real list \<Rightarrow> error + mat2 list" where
  "Tan2equ_evaluatejac s x y =
     (if length x < 1 \<or> length y < 1 then Inr []
      else if length (Tan2equ_pars s) < 2 then Inl IndexError
      else case np_broadcast x y of
             Inl e \<Rightarrow> Inl e
           | Inr pts \<Rightarrow>
               if length pts \<noteq> length x then Inl ValueError
               else Inr (map (Tan2equ_jac_pt (Tan2equ_conv2rad s)
                               (Tan2equ_pars s ! 0) (Tan2equ_pars s ! 1)) pts))"

definition Tan2equ_setjacobian :: "Tan2equ \<Rightarrow> Tan2equ outcome" where
  "Tan2equ_setjacobian s =
     (case Tan2equ_evaluatejac s (Tan2equ_x s) (Tan2equ_y s) of
        Inl e \<Rightarrow> Raised e s
      | Inr J \<Rightarrow> Returned (s\<lparr>Tan2equ_jac := J\<rparr>))"

definition Tan2equ_updatetransf :: "Tan2equ \<Rightarrow> real list \<Rightarrow> Tan2equ outcome" where
  "Tan2equ_updatetransf s pars =
     (if length pars \<noteq> 2 then Returned s
      else Tan2equ_setjacobian (s\<lparr>Tan2equ_pars := pars\<rparr>))"

text \<open>The body of \<^verbatim>\<open>Tan2equ.propxy\<close> at one point.\<close>

definition Tan2equ_propxy_pt :: "real \<Rightarrow> real \<Rightarrow> real \<Rightarrow> real \<times> real \<Rightarrow> real \<times> real" where
  "Tan2equ_propxy_pt conv2rad p0 p1 pt =
     (let xi = fst pt * conv2rad;
          eta = snd pt * conv2rad;
          alpha0 = p0 * conv2rad;
          delta0 = p1 * conv2rad;
          gamma = cos delta0 - eta * sin delta0;
          alphaf = alpha0 + arctan (xi / gamma);
          deltaf = arctan ((eta * cos delta0 + sin delta0) / sqrt (xi\<^sup>2 + gamma\<^sup>2))
      in (alphaf / conv2rad, deltaf / conv2rad))"

definition Tan2equ_propxy ::
  "Tan2equ \<Rightarrow> real list \<Rightarrow> real list \<Rightarrow> error + real list \<times> real list" where
  "Tan2equ_propxy s x y =
     (if length x < 1 \<or> length y < 1 then Inr ([], [])
      else if length (Tan2equ_pars s) < 2 then Inl IndexError
      else case np_broadcast x y of
             Inl e \<Rightarrow> Inl e
           | Inr pts \<Rightarrow>
               let out = map (Tan2equ_propxy_pt (Tan2equ_conv2rad s)
                               (Tan2equ_pars s ! 0) (Tan2equ_pars s ! 1)) pts
               in Inr (map fst out, map snd out))"

definition Tan2equ_tranpos :: "Tan2equ \<Rightarrow> Tan2equ outcome" where
  "Tan2equ_tranpos s =
     (case Tan2equ_propxy s (Tan2equ_x s) (Tan2equ_y s) of
        Inl e \<Rightarrow> Raised e s
      | Inr xy \<Rightarrow> Returned (s\<lparr>Tan2equ_xtran := fst xy, Tan2equ_ytran := snd xy\<rparr>))"

text \<open>
  \<^verbatim>\<open>propcov\<close> takes the covariances as an \<open>[M,2,2]\<close> stack. \<^verbatim>\<open>np.transpose\<close> with
  three axes raises a \<^verbatim>\<open>ValueError\<close> on the empty array that \<^verbatim>\<open>evaluatejac\<close> returns for
  no positions. The guard of \<^verbatim>\<open>Tan2equ.propcov\<close> reads \<^verbatim>\<open>self.x\<close> and the argument
  \<open>y\<close>, as the source does.
\<close>

definition propagate_stack :: "mat2 list \<Rightarrow> mat2 list \<Rightarrow> error + mat2 list" where
  "propagate_stack J C =
     (if J = [] then Inl ValueError
      else case matmul_stack C (map transpose2 J) of
             Inl e \<Rightarrow> Inl e
           | Inr CJt \<Rightarrow> matmul_stack J CJt)"

definition Tan2equ_propcov ::
  "Tan2equ \<Rightarrow> mat2 list \<Rightarrow> real list \<Rightarrow> real list \<Rightarrow> error + mat2 list" where
  "Tan2equ_propcov s C x y =
     (if length (Tan2equ_x s) < 1 \<or> length y < 1 then Inr []
      else case Tan2equ_evaluatejac s x y of
             Inl e \<Rightarrow> Inl e
           | Inr J \<Rightarrow> propagate_stack J C)"

text \<open>The body of \<^verbatim>\<open>Equ2tan.evaluatejac\<close> at one point.\<close>

definition Equ2tan_jac_pt :: "real \<Rightarrow> real \<Rightarrow> real \<Rightarrow> real \<times> real \<Rightarrow> mat2" where
  "Equ2tan_jac_pt conv2rad p0 p1 pt =
     (let alpha = fst pt * conv2rad;
          delta = snd pt * conv2rad;
          alpha0 = p0 * conv2rad;
          delta0 = p1 * conv2rad;
          denom = (cos (alpha - alpha0) * cos delta * cos delta0
                   + sin delta * sin delta0)\<^sup>2;
          J_xia = cos delta * (cos delta * cos delta0
                   + cos (alpha - alpha0) * sin delta * sin delta0) / denom;
          J_xid = 0 - sin (alpha - alpha0) * sin delta0 / denom;
          J_etaa = 0.5 * sin (alpha - alpha0) * sin (2 * delta) / denom;
          J_etad = cos (alpha - alpha0) / denom
      in Mat2 J_xia J_xid J_etaa J_etad)"

definition Equ2tan_evaluatejac :: "Equ2tan \<Rightarrow> real list \<Rightarrow> real list \<Rightarrow> error + mat2 list" where
  "Equ2tan_evaluatejac s x y =
     (if length x < 1 \<or> length y < 1 then Inr []
      else if length (Equ2tan_pars s) < 2 then Inl IndexError
      else case np_broadcast x y of
             Inl e \<Rightarrow> Inl e
           | Inr pts \<Rightarrow>
               if length pts \<noteq> length x then Inl ValueError
               else Inr (map (Equ2tan_jac_pt (Equ2tan_conv2rad s)
                               (Equ2tan_pars s ! 0) (Equ2tan_pars s ! 1)) pts))"

definition Equ2tan_setjacobian :: "Equ2tan \<Rightarrow> Equ2tan outcome" where
  "Equ2tan_setjacobian s =
     (case Equ2tan_evaluatejac s (Equ2tan_x s) (Equ2tan_y s) of
        Inl e \<Rightarrow> Raised e s
      | Inr J \<Rightarrow> Returned (s\<lparr>Equ2tan_jac := J\<rparr>))"

definition Equ2tan_updatetransf :: "Equ2tan \<Rightarrow> real list \<Rightarrow> Equ2tan outcome" where
  "Equ2tan_updatetransf s pars =
     (if length pars \<noteq> 2 then Returned s
      else Equ2tan_setjacobian (s\<lparr>Equ2tan_pars := pars\<rparr>))"

text \<open>The body of \<^verbatim>\<open>Equ2tan.propxy\<close> at one point.\<close>

definition Equ2tan_propxy_pt :: "real \<Rightarrow> real \<Rightarrow> real \<Rightarrow> real \<times> real \<Rightarrow> real \<times> real" where
  "Equ2tan_propxy_pt conv2rad p0 p1 pt =
     (let alpha = fst pt * conv2rad;
          delta = snd pt * conv2rad;
          alpha0 = p0 * conv2rad;
          delta0 = p1 * conv2rad;
          denom = cos (alpha - alpha0) * cos delta * cos delta0 + sin delta * sin delta0;
          xi = cos delta * sin (alpha - alpha0) / denom;
          eta = (cos delta0 * sin delta - cos (alpha - alpha0) * cos delta * sin delta0) / denom
      in (xi / conv2rad, eta / conv2rad))"

definition Equ2tan_propxy ::
  "Equ2tan \<Rightarrow> real list \<Rightarrow> real list \<Rightarrow> error + real list \<times> real list" where
  "Equ2tan_propxy s x y =
     (if length x < 1 \<or> length y < 1 then Inr ([], [])
      else if length (Equ2tan_pars s) < 2 then Inl IndexError
      else case np_broadcast x y of
             Inl e \<Rightarrow> Inl e
           | Inr pts \<Rightarrow>
               let out = map (Equ2tan_propxy_pt (Equ2tan_conv2rad s)
                               (Equ2tan_pars s ! 0) (Equ2tan_pars s ! 1)) pts
               in Inr (map fst out, map snd out))"

definition Equ2tan_propcov ::
  "Equ2tan \<Rightarrow> mat2 list \<Rightarrow> real list \<Rightarrow> real list \<Rightarrow> error + mat2 list" where
  "Equ2tan_propcov s C x y =
     (if length x < 1 \<or> length y < 1 then Inr []
      else case Equ2tan_evaluatejac s x y of
             Inl e \<Rightarrow> Inl e
           | Inr J \<Rightarrow> propagate_stack J C)"

text \<open>
  \<^verbatim>\<open>__init__\<close> of either class: the arguments are stored, the conversion factor is set
  and \<^verbatim>\<open>setjacobian\<close> replaces the identity that \<^verbatim>\<open>initjac\<close> wrote.
\<close>

definition Tan2equ_init ::
  "real list \<Rightarrow> real list \<Rightarrow> mat2 list \<Rightarrow> real list \<Rightarrow> bool \<Rightarrow> Tan2equ outcome" where
  "Tan2equ_init xi eta covxieta pars degrees =
     Tan2equ_setjacobian
       \<lparr>Tan2equ_x = xi, Tan2equ_y = eta, Tan2equ_covxy = covxieta, Tan2equ_pars = pars,
        Tan2equ_degrees = degrees, Tan2equ_conv2rad = setconversion degrees,
        Tan2equ_jac = [], Tan2equ_xtran = [], Tan2equ_ytran = [], Tan2equ_covtran = []\<rparr>"

definition Equ2tan_init ::
  "real list \<Rightarrow> real list \<Rightarrow> mat2 list \<Rightarrow> real list \<Rightarrow> bool \<Rightarrow> Equ2tan outcome" where
  "Equ2tan_init x y covxy pars degrees =
     Equ2tan_setjacobian
       \<lparr>Equ2tan_x = x, Equ2tan_y = y, Equ2tan_covxy = covxy, Equ2tan_pars = pars,
        Equ2tan_degrees = degrees, Equ2tan_conv2rad = setconversion degrees,
        Equ2tan_jac = [], Equ2tan_xtran = [], Equ2tan_ytran = [], Equ2tan_covtran = []\<rparr>"

section \<open>Poly: the polynomial transform\<close>

text \<open>
  The instance of \<^verbatim>\<open>Poly\<close> for the kind \<^verbatim>\<open>'Polynomial'\<close> (the default, and the
  fallback for an unknown kind): \<^verbatim>\<open>methval2d\<close> is \<^verbatim>\<open>polyval2d\<close> and \<^verbatim>\<open>methder\<close> is
  \<^verbatim>\<open>polyder\<close>. The four limits are \<open>None\<close> until \<^verbatim>\<open>setdomain\<close> fills them;
  arithmetic on \<open>None\<close> is a \<^verbatim>\<open>TypeError\<close>. The switches \<^verbatim>\<open>degrees\<close> and
  \<^verbatim>\<open>Verbose\<close> and the plot labels are left out.
\<close>

record Poly =
  Poly_x :: "real list"
  Poly_y :: "real list"
  Poly_covxy :: "mat2 list"
  Poly_parsx :: "real list"
  Poly_parsy :: "real list"
  Poly_xmin :: "real option"
  Poly_xmax :: "real option"
  Poly_ymin :: "real option"
  Poly_ymax :: "real option"
  Poly_cxx :: "real list list"
  Poly_cxy :: "real list list"
  Poly_cyx :: "real list list"
  Poly_cyy :: "real list list"
  Poly_jacrescale :: mat2
  Poly_inds1d_6term :: "nat list"
  Poly_pars2x :: Polycoeffs
  Poly_pars2y :: Polycoeffs
  Poly_jacpoly :: "mat2 list"
  Poly_jac :: "mat2 list"
  Poly_xr :: "real list"
  Poly_yr :: "real list"
  Poly_xtran :: "real list"
  Poly_ytran :: "real list"
  Poly_covtran :: "mat2 list"
  Poly_xytran :: "real list list"

text \<open>
  \<^verbatim>\<open>updatedata\<close> without the \<open>xy\<close> argument. The covariances are an \<open>[M,2,2]\<close>
  stack and are stored only when \<open>M\<close> is the number of positions.
\<close>

definition Poly_updatedata :: "Poly \<Rightarrow> real list \<Rightarrow> real list \<Rightarrow> mat2 list \<Rightarrow> Poly" where
  "Poly_updatedata s x y covxy =
     (let s1 = s\<lparr>Poly_x := x, Poly_y := y\<rparr>
      in if length (Poly_x s1) \<noteq> length covxy then s1
         else s1\<lparr>Poly_covxy := covxy\<rparr>)"

text \<open>
  One limit of \<^verbatim>\<open>setdomain\<close>: \<open>pick\<close> is \<^verbatim>\<open>np.min\<close> or \<^verbatim>\<open>np.max\<close> of the data,
  \<open>dflt\<close> the value without data, \<open>other\<close> the limit that the clobbering branch
  combines with the data (for \<^verbatim>\<open>xmax\<close> and \<^verbatim>\<open>ymax\<close> the source names \<^verbatim>\<open>self.xmin\<close>
  and \<^verbatim>\<open>self.ymin\<close> there).
\<close>

definition setlimit ::
  "real option \<Rightarrow> real list \<Rightarrow> bool \<Rightarrow> (real \<Rightarrow> real \<Rightarrow> real) \<Rightarrow> real \<Rightarrow> real option \<Rightarrow> real option" where
  "setlimit cur dat clobber pick dflt other =
     (case cur of
        None \<Rightarrow> (case dat of [] \<Rightarrow> Some dflt | a # as \<Rightarrow> Some (fold pick as a))
      | Some v \<Rightarrow>
          (case dat of
             [] \<Rightarrow> Some v
           | a # as \<Rightarrow> if clobber then map_option (\<lambda>w. pick w (fold pick as a)) other
                        else Some v))"

definition Poly_setdomain :: "Poly \<Rightarrow> bool \<Rightarrow> Poly" where
  "Poly_setdomain s clobber =
     (let s1 = s\<lparr>Poly_xmin := setlimit (Poly_xmin s) (Poly_x s) clobber min (- 1) (Poly_xmin s)\<rparr>;
          s2 = s1\<lparr>Poly_xmax := setlimit (Poly_xmax s1) (Poly_x s1) clobber max 1 (Poly_xmin s1)\<rparr>;
          s3 = s2\<lparr>Poly_ymin := setlimit (Poly_ymin s2) (Poly_y s2) clobber min (- 1) (Poly_ymin s2)\<rparr>
      in s3\<lparr>Poly_ymax := setlimit (Poly_ymax s3) (Poly_y s3) clobber max 1 (Poly_ymin s3)\<rparr>)"

definition Poly_setjacrescale :: "Poly \<Rightarrow> Poly outcome" where
  "Poly_setjacrescale s =
     (case (Poly_xmin s, Poly_xmax s, Poly_ymin s, Poly_ymax s) of
        (Some xmin, Some xmax, Some ymin, Some ymax) \<Rightarrow>
          Returned (s\<lparr>Poly_jacrescale := Mat2 (2 / (xmax - xmin)) 0 0 (2 / (ymax - ymin))\<rparr>)
      | _ \<Rightarrow> Raised TypeError s)"

definition Poly_rescalexy ::
  "Poly \<Rightarrow> real list \<Rightarrow> real list \<Rightarrow> error + real list \<times> real list" where
  "Poly_rescalexy s x y =
     (case (Poly_xmin s, Poly_xmax s, Poly_ymin s, Poly_ymax s) of
        (Some xmin, Some xmax, Some ymin, Some ymax) \<Rightarrow>
          Inr (map (\<lambda>v. (2 * v - (xmax + xmin)) / (xmax - xmin)) x,
               map (\<lambda>v. (2 * v - (ymax + ymin)) / (ymax - ymin)) y)
      | _ \<Rightarrow> Inl TypeError)"

definition Poly_rescalepos :: "Poly \<Rightarrow> Poly outcome" where
  "Poly_rescalepos s =
     (case Poly_rescalexy s (Poly_x s) (Poly_y s) of
        Inl e \<Rightarrow> Raised e s
      | Inr r \<Rightarrow> Returned (s\<lparr>Poly_xr := fst r, Poly_yr := snd r\<rparr>))"

definition Poly_setinds_6term :: "Poly \<Rightarrow> Poly" where
  "Poly_setinds_6term s =
     s\<lparr>Poly_inds1d_6term := [0, 1, 2] @ map (\<lambda>l. l + length (Poly_parsx s)) [0, 1, 2]\<rparr>"

definition Poly_setuppars :: "Poly \<Rightarrow> Poly outcome" where
  "Poly_setuppars s =
     (case Polycoeffs_init (Poly_parsx s) of
        Raised e c \<Rightarrow> Raised e s
      | Returned cx \<Rightarrow>
          (case Polycoeffs_init (Poly_parsy s) of
             Raised e c \<Rightarrow> Raised e (s\<lparr>Poly_pars2x := cx\<rparr>)
           | Returned cy \<Rightarrow> Returned (s\<lparr>Poly_pars2x := cx, Poly_pars2y := cy\<rparr>)))"

definition Poly_propxy ::
  "Poly \<Rightarrow> real list \<Rightarrow> real list \<Rightarrow> error + real list \<times> real list" where
  "Poly_propxy s x y =
     (if length x < 1 \<or> length y < 1 then Inr ([], [])
      else case Poly_rescalexy s x y of
             Inl e \<Rightarrow> Inl e
           | Inr r \<Rightarrow>
               (case polyval2d (fst r) (snd r) (Polycoeffs_p2d (Poly_pars2x s)) of
                  Inl e \<Rightarrow> Inl e
                | Inr xtran \<Rightarrow>
                    (case polyval2d (fst r) (snd r) (Polycoeffs_p2d (Poly_pars2y s)) of
                       Inl e \<Rightarrow> Inl e
                     | Inr ytran \<Rightarrow> Inr (xtran, ytran))))"

definition Poly_tranpos :: "Poly \<Rightarrow> Poly outcome" where
  "Poly_tranpos s =
     (case Poly_propxy s (Poly_x s) (Poly_y s) of
        Inl e \<Rightarrow> Raised e s
      | Inr t \<Rightarrow> Returned (s\<lparr>Poly_xtran := fst t, Poly_ytran := snd t\<rparr>))"

text \<open>
  \<^verbatim>\<open>derivcoeffs\<close> on a two-dimensional array (the triangular arrays always are): the
  derivative along each axis, padded at the highest power.
\<close>

definition Poly_derivcoeffs :: "real list list \<Rightarrow> real list list \<times> real list list" where
  "Poly_derivcoeffs c = (pad_row (polyder_axis0 c), pad_col (polyder_axis1 c))"

definition Poly_setderivcoeffs :: "Poly \<Rightarrow> Poly" where
  "Poly_setderivcoeffs s =
     (let s1 = s\<lparr>Poly_cxx := fst (Poly_derivcoeffs (Polycoeffs_p2d (Poly_pars2x s))),
                 Poly_cxy := snd (Poly_derivcoeffs (Polycoeffs_p2d (Poly_pars2x s)))\<rparr>
      in s1\<lparr>Poly_cyx := fst (Poly_derivcoeffs (Polycoeffs_p2d (Poly_pars2y s1))),
            Poly_cyy := snd (Poly_derivcoeffs (Polycoeffs_p2d (Poly_pars2y s1)))\<rparr>)"

definition Poly_initjacpoly :: "Poly \<Rightarrow> Poly" where
  "Poly_initjacpoly s =
     (if length (Poly_x s) < 1 then s\<lparr>Poly_jacpoly := []\<rparr>
      else s\<lparr>Poly_jacpoly := replicate (length (Poly_x s)) (Mat2 1 0 0 1)\<rparr>)"

definition Poly_evaluatejacpoly ::
  "Poly \<Rightarrow> real list \<Rightarrow> real list \<Rightarrow> error + mat2 list" where
  "Poly_evaluatejacpoly s xr yr =
     (if length xr < 1 \<or> length yr < 1 then Inr []
      else case polyval2d xr yr (Poly_cxx s) of
        Inl e \<Rightarrow> Inl e
      | Inr j00 \<Rightarrow> (case polyval2d xr yr (Poly_cxy s) of
        Inl e \<Rightarrow> Inl e
      | Inr j01 \<Rightarrow> (case polyval2d xr yr (Poly_cyx s) of
        Inl e \<Rightarrow> Inl e
      | Inr j10 \<Rightarrow> (case polyval2d xr yr (Poly_cyy s) of
        Inl e \<Rightarrow> Inl e
      | Inr j11 \<Rightarrow>
          Inr (map (\<lambda>k. Mat2 (j00 ! k) (j01 ! k) (j10 ! k) (j11 ! k)) [0..<length xr])))))"

text \<open>The jacobian \<open>[N,2,2]\<close> has fewer than two entries only when it is empty.\<close>

definition Poly_populatejacpoly :: "Poly \<Rightarrow> Poly outcome" where
  "Poly_populatejacpoly s =
     (if 4 * length (Poly_jacpoly s) < 2 then Returned s
      else let s1 = Poly_setderivcoeffs s
           in case Poly_evaluatejacpoly s1 (Poly_xr s1) (Poly_yr s1) of
                Inl e \<Rightarrow> Raised e s1
              | Inr J \<Rightarrow> Returned (s1\<lparr>Poly_jacpoly := J\<rparr>))"

definition Poly_combinejac :: "Poly \<Rightarrow> Poly" where
  "Poly_combinejac s =
     (if 4 * length (Poly_jacpoly s) < 1 then s
      else s\<lparr>Poly_jac := map (matmul2 (Poly_jacrescale s)) (Poly_jacpoly s)\<rparr>)"

definition Poly_getjacobian :: "Poly \<Rightarrow> Poly outcome" where
  "Poly_getjacobian s =
     obind (Poly_setjacrescale s) (\<lambda>s1.
     obind (Poly_populatejacpoly
              (if 4 * length (Poly_jacpoly s1) < 2 then Poly_initjacpoly s1 else s1)) (\<lambda>s2.
     Returned (Poly_combinejac s2)))"

definition Poly_initxytran :: "Poly \<Rightarrow> Poly" where
  "Poly_initxytran s = s\<lparr>Poly_xytran := replicate (length (Poly_x s)) [0, 0]\<rparr>"

definition Poly_updatejacobian :: "Poly \<Rightarrow> Poly outcome" where
  "Poly_updatejacobian s =
     obind (Poly_rescalepos s) (\<lambda>s1.
     obind (Poly_getjacobian s1) (\<lambda>s2.
     Returned (Poly_initxytran s2)))"

text \<open>
  \<^verbatim>\<open>propcov\<close>: \<^verbatim>\<open>np.matmul\<close> of the 2x2 rescaling jacobian with the empty array that
  \<^verbatim>\<open>evaluatejacpoly\<close> returns for no positions is a \<^verbatim>\<open>ValueError\<close>.
\<close>

definition Poly_propcov ::
  "Poly \<Rightarrow> mat2 list \<Rightarrow> real list \<Rightarrow> real list \<Rightarrow> error + mat2 list" where
  "Poly_propcov s C x y =
     (case Poly_rescalexy s x y of
        Inl e \<Rightarrow> Inl e
      | Inr r \<Rightarrow>
          (case Poly_evaluatejacpoly s (fst r) (snd r) of
             Inl e \<Rightarrow> Inl e
           | Inr Jpoly \<Rightarrow>
               if Jpoly = [] then Inl ValueError
               else propagate_stack (map (matmul2 (Poly_jacrescale s)) Jpoly) C))"

definition Poly_splitpars :: "real list \<Rightarrow> real list \<times> real list" where
  "Poly_splitpars pars =
     (if length pars < 2 then ([], [])
      else (take (length pars div 2) pars, drop (length pars div 2) pars))"

text \<open>An update of one of the two coefficient objects, as a step on the instance.\<close>

definition Poly_update2x :: "Poly \<Rightarrow> real list \<Rightarrow> Poly outcome" where
  "Poly_update2x s p =
     (case updatecoeffs (Poly_pars2x s) p of
        Raised e c \<Rightarrow> Raised e (s\<lparr>Poly_pars2x := c\<rparr>)
      | Returned c \<Rightarrow> Returned (s\<lparr>Poly_pars2x := c\<rparr>))"

definition Poly_update2y :: "Poly \<Rightarrow> real list \<Rightarrow> Poly outcome" where
  "Poly_update2y s p =
     (case updatecoeffs (Poly_pars2y s) p of
        Raised e c \<Rightarrow> Raised e (s\<lparr>Poly_pars2y := c\<rparr>)
      | Returned c \<Rightarrow> Returned (s\<lparr>Poly_pars2y := c\<rparr>))"

definition Poly_updatetransf :: "Poly \<Rightarrow> real list \<Rightarrow> Poly outcome" where
  "Poly_updatetransf s pars =
     (let parsx = fst (Poly_splitpars pars);
          parsy = snd (Poly_splitpars pars)
      in if length parsx < 1 then Returned s
         else
           let s1 = s\<lparr>Poly_parsx := parsx, Poly_parsy := parsy\<rparr>
           in obind (if Polycoeffs_deg (Poly_pars2x s1) < 0 then Poly_setuppars s1
                     else Returned s1) (\<lambda>s2.
              obind (Poly_update2x s2 parsx) (\<lambda>s3.
              obind (Poly_update2y s3 parsy) (\<lambda>s4.
              obind (Poly_populatejacpoly (Poly_setderivcoeffs s4)) (\<lambda>s5.
              Returned (Poly_combinejac s5))))))"

text \<open>
  \<^verbatim>\<open>__init__\<close> with \<^verbatim>\<open>checkparsy=False\<close>. Before \<^verbatim>\<open>setuppars\<close> runs the two coefficient
  objects do not exist; the record holds an unfilled one in their place.
\<close>

definition Poly_init ::
  "real list \<Rightarrow> real list \<Rightarrow> mat2 list \<Rightarrow> real list \<Rightarrow> real list \<Rightarrow>
   real option \<Rightarrow> real option \<Rightarrow> real option \<Rightarrow> real option \<Rightarrow> Poly outcome" where
  "Poly_init x y covxy parsx parsy xmin xmax ymin ymax =
     (let blank = \<lparr>Polycoeffs_p = [], Polycoeffs_p2d = [], Polycoeffs_deg = - 1,
                   Polycoeffs_i = [], Polycoeffs_j = []\<rparr>;
          s0 = \<lparr>Poly_x = [], Poly_y = [], Poly_covxy = [], Poly_parsx = parsx,
                Poly_parsy = parsy, Poly_xmin = xmin, Poly_xmax = xmax, Poly_ymin = ymin,
                Poly_ymax = ymax, Poly_cxx = [], Poly_cxy = [], Poly_cyx = [], Poly_cyy = [],
                Poly_jacrescale = Mat2 1 0 0 1, Poly_inds1d_6term = [],
                Poly_pars2x = blank, Poly_pars2y = blank, Poly_jacpoly = [], Poly_jac = [],
                Poly_xr = [], Poly_yr = [], Poly_xtran = [], Poly_ytran = [],
                Poly_covtran = [], Poly_xytran = []\<rparr>;
          s1 = Poly_setdomain (Poly_updatedata s0 x y covxy) False
      in obind (Poly_setjacrescale s1) (\<lambda>s2.
         obind (Poly_setuppars (Poly_setinds_6term s2)) (\<lambda>s3.
         Poly_updatejacobian s3)))"

section \<open>xy2equ: the chain from the detector plane to the sky\<close>

record xy2equ =
  xy2equ_parsx :: "real list"
  xy2equ_parsy :: "real list"
  xy2equ_tangentpoint :: "real list"
  xy2equ_polyhasxy0 :: bool
  xy2equ_inds1d_6term :: "nat list"
  xy2equ_xy2tp :: Poly
  xy2equ_tp2equ :: Tan2equ

definition xy2equ_updatepars :: "xy2equ \<Rightarrow> real list \<Rightarrow> xy2equ outcome" where
  "xy2equ_updatepars s pars =
     (case Parvec_init pars of
        Raised e pv \<Rightarrow> Raised e s
      | Returned pv \<Rightarrow>
          Returned (s\<lparr>xy2equ_parsx := Parvec_parsx pv, xy2equ_parsy := Parvec_parsy pv,
                      xy2equ_tangentpoint := Parvec_tangentpoint pv,
                      xy2equ_polyhasxy0 := Parvec_hasxy0 pv,
                      xy2equ_inds1d_6term := Parvec_inds1d_6term pv\<rparr>))"

text \<open>A call on one of the two sub-transforms, as a step on the chain.\<close>

definition on_xy2tp :: "xy2equ \<Rightarrow> (Poly \<Rightarrow> Poly outcome) \<Rightarrow> xy2equ outcome" where
  "on_xy2tp s f =
     (case f (xy2equ_xy2tp s) of
        Raised e t \<Rightarrow> Raised e (s\<lparr>xy2equ_xy2tp := t\<rparr>)
      | Returned t \<Rightarrow> Returned (s\<lparr>xy2equ_xy2tp := t\<rparr>))"

definition on_tp2equ :: "xy2equ \<Rightarrow> (Tan2equ \<Rightarrow> Tan2equ outcome) \<Rightarrow> xy2equ outcome" where
  "on_tp2equ s f =
     (case f (xy2equ_tp2equ s) of
        Raised e t \<Rightarrow> Raised e (s\<lparr>xy2equ_tp2equ := t\<rparr>)
      | Returned t \<Rightarrow> Returned (s\<lparr>xy2equ_tp2equ := t\<rparr>))"

definition xy2equ_updatetransf :: "xy2equ \<Rightarrow> real list \<Rightarrow> xy2equ outcome" where
  "xy2equ_updatetransf s pars =
     (if length pars < 1 then Returned s
      else
        obind (xy2equ_updatepars s pars) (\<lambda>s1.
        obind (on_xy2tp s1 (\<lambda>t. Poly_updatetransf t (xy2equ_parsx s1 @ xy2equ_parsy s1))) (\<lambda>s2.
        obind (on_xy2tp s2 Poly_tranpos) (\<lambda>s3.
        on_tp2equ
          (s3\<lparr>xy2equ_tp2equ := (xy2equ_tp2equ s3)
                 \<lparr>Tan2equ_x := Poly_xtran (xy2equ_xy2tp s3),
                  Tan2equ_y := Poly_ytran (xy2equ_xy2tp s3)\<rparr>\<rparr>)
          (\<lambda>t. Tan2equ_updatetransf t (xy2equ_tangentpoint s3))))))"

section \<open>Patternmatrix: the design matrix of the least-squares fit\<close>

text \<open>
  The instance for the kind \<^verbatim>\<open>'Polynomial'\<close>, whose \<^verbatim>\<open>methvander\<close> is
  \<^verbatim>\<open>polyvander2d\<close>: column \<open>(deg+1)*i + j\<close> of the Vandermonde array holds
  \<open>x^i * y^j\<close>, and \<open>x\<close> and \<open>y\<close> of different lengths are a \<^verbatim>\<open>ValueError\<close>.
\<close>

record Patternmatrix =
  Patternmatrix_deg :: nat
  Patternmatrix_x :: "real list"
  Patternmatrix_y :: "real list"
  Patternmatrix_norescale :: bool
  Patternmatrix_xmin :: real
  Patternmatrix_xmax :: real
  Patternmatrix_ymin :: real
  Patternmatrix_ymax :: real
  Patternmatrix_xr :: "real list"
  Patternmatrix_yr :: "real list"
  Patternmatrix_ipow :: "nat list"
  Patternmatrix_jpow :: "nat list"
  Patternmatrix_bpow :: "bool list"
  Patternmatrix_isel :: "nat list"
  Patternmatrix_jsel :: "nat list"
  Patternmatrix_lvander :: "nat list"
  Patternmatrix_vander :: "real list list"
  Patternmatrix_pattern :: "real list list list"

definition polyvander2d :: "real list \<Rightarrow> real list \<Rightarrow> nat \<Rightarrow> error + real list list" where
  "polyvander2d xs ys deg =
     (if length xs \<noteq> length ys then Inl ValueError
      else Inr (map (\<lambda>pt. concat (map (\<lambda>i. map (\<lambda>j. fst pt ^ i * snd pt ^ j) [0..<deg + 1])
                                       [0..<deg + 1]))
                    (zip xs ys)))"

definition Patternmatrix_setlims :: "Patternmatrix \<Rightarrow> error + Patternmatrix" where
  "Patternmatrix_setlims s =
     (if Patternmatrix_norescale s then Inr s
      else case (np_min (Patternmatrix_x s), np_max (Patternmatrix_x s),
                 np_min (Patternmatrix_y s), np_max (Patternmatrix_y s)) of
             (Inr a, Inr b, Inr c, Inr d) \<Rightarrow>
               Inr (s\<lparr>Patternmatrix_xmin := a, Patternmatrix_xmax := b,
                      Patternmatrix_ymin := c, Patternmatrix_ymax := d\<rparr>)
           | _ \<Rightarrow> Inl ValueError)"

definition Patternmatrix_rescalexy :: "Patternmatrix \<Rightarrow> Patternmatrix" where
  "Patternmatrix_rescalexy s =
     s\<lparr>Patternmatrix_xr :=
         map (\<lambda>v. (2 * v - (Patternmatrix_xmax s + Patternmatrix_xmin s))
                  / (Patternmatrix_xmax s - Patternmatrix_xmin s)) (Patternmatrix_x s),
       Patternmatrix_yr :=
         map (\<lambda>v. (2 * v - (Patternmatrix_ymax s + Patternmatrix_ymin s))
                  / (Patternmatrix_ymax s - Patternmatrix_ymin s)) (Patternmatrix_y s)\<rparr>"

text \<open>\<^verbatim>\<open>np.repeat\<close> repeats each entry in place, \<^verbatim>\<open>np.tile\<close> repeats the whole array.\<close>

definition Patternmatrix_buildpowers :: "Patternmatrix \<Rightarrow> Patternmatrix" where
  "Patternmatrix_buildpowers s =
     (let vpow = [0..<Patternmatrix_deg s + 1]
      in s\<lparr>Patternmatrix_ipow := concat (map (replicate (Patternmatrix_deg s + 1)) vpow),
            Patternmatrix_jpow := concat (replicate (Patternmatrix_deg s + 1) vpow)\<rparr>)"

text \<open>Indexing with a boolean array keeps the entries at the positions that hold \<open>True\<close>.\<close>

definition mask :: "'a list \<Rightarrow> bool list \<Rightarrow> 'a list" where
  "mask xs bs = map fst (filter snd (zip xs bs))"

definition Patternmatrix_selectpowers :: "Patternmatrix \<Rightarrow> Patternmatrix" where
  "Patternmatrix_selectpowers s =
     (let bpow = map2 (\<lambda>i j. i + j \<le> Patternmatrix_deg s)
                      (Patternmatrix_ipow s) (Patternmatrix_jpow s)
      in s\<lparr>Patternmatrix_bpow := bpow,
            Patternmatrix_isel := mask (Patternmatrix_ipow s) bpow,
            Patternmatrix_jsel := mask (Patternmatrix_jpow s) bpow,
            Patternmatrix_lvander := mask [0..<length (Patternmatrix_ipow s)] bpow\<rparr>)"

definition Patternmatrix_buildvander :: "Patternmatrix \<Rightarrow> error + Patternmatrix" where
  "Patternmatrix_buildvander s =
     (if length (Patternmatrix_xr s) < 1 then Inr s
      else case polyvander2d (Patternmatrix_xr s) (Patternmatrix_yr s) (Patternmatrix_deg s) of
             Inl e \<Rightarrow> Inl e
           | Inr v \<Rightarrow> Inr (s\<lparr>Patternmatrix_vander := v\<rparr>))"

text \<open>
  \<^verbatim>\<open>buildpattern\<close>: the selected columns of the Vandermonde array fill row 0 in the
  columns \<open>[0, nbases)\<close> and row 1 in the columns from \<open>nbases\<close> on, all else being zero.
  Without points the Vandermonde array is still the empty one-dimensional array and
  \<^verbatim>\<open>self.vander[:, self.lvander]\<close> is an \<^verbatim>\<open>IndexError\<close>.
\<close>

definition Patternmatrix_buildpattern :: "Patternmatrix \<Rightarrow> error + Patternmatrix" where
  "Patternmatrix_buildpattern s =
     (let nbases = length (Patternmatrix_lvander s)
      in if Patternmatrix_vander s = [] then Inl IndexError
         else Inr (s\<lparr>Patternmatrix_pattern :=
                map (\<lambda>v. [map (\<lambda>l. v ! l) (Patternmatrix_lvander s) @ replicate nbases 0,
                          replicate nbases 0 @ map (\<lambda>l. v ! l) (Patternmatrix_lvander s)])
                    (Patternmatrix_vander s)\<rparr>))"

definition Patternmatrix_init ::
  "nat \<Rightarrow> real list \<Rightarrow> real list \<Rightarrow> bool \<Rightarrow> error + Patternmatrix" where
  "Patternmatrix_init deg x y norescale =
     (case Patternmatrix_setlims
             \<lparr>Patternmatrix_deg = deg, Patternmatrix_x = x, Patternmatrix_y = y,
              Patternmatrix_norescale = norescale, Patternmatrix_xmin = - 1,
              Patternmatrix_xmax = 1, Patternmatrix_ymin = - 1, Patternmatrix_ymax = 1,
              Patternmatrix_xr = [], Patternmatrix_yr = [], Patternmatrix_ipow = [],
              Patternmatrix_jpow = [], Patternmatrix_bpow = [], Patternmatrix_isel = [],
              Patternmatrix_jsel = [], Patternmatrix_lvander = [], Patternmatrix_vander = [],
              Patternmatrix_pattern = []\<rparr> of
        Inl e \<Rightarrow> Inl e
      | Inr s1 \<Rightarrow>
          (case Patternmatrix_buildvander
                  (Patternmatrix_selectpowers (Patternmatrix_buildpowers
                     (Patternmatrix_rescalexy s1))) of
             Inl e \<Rightarrow> Inl e
           | Inr s2 \<Rightarrow> Patternmatrix_buildpattern s2))"

text \<open>
  \<^verbatim>\<open>np.matmul\<close> of the \<open>[N,2,2M]\<close> pattern with a flat vector: the dot product of every
  row with the vector, a \<^verbatim>\<open>ValueError\<close> unless the vector has \<open>2M\<close> entries.
\<close>

definition np_dot :: "real list \<Rightarrow> real list \<Rightarrow> real" where
  "np_dot u v = sum_list (map2 (*) u v)"

definition matmul_pattern :: "real list list list \<Rightarrow> real list \<Rightarrow> error + real list list" where
  "matmul_pattern P v =
     (if list_ex (list_ex (\<lambda>row. length row \<noteq> length v)) P then Inl ValueError
      else Inr (map (map (\<lambda>row. np_dot row v)) P))"

text \<open>
  A parameter vector whose coefficient counts fit no polynomial, in the spec's words: the
  entries after the tangent point cannot be split in two, or each half has a count that
  is a valid length neither as it stands nor with a constant term added.
\<close>

definition invalid_counts :: "real list \<Rightarrow> bool" where
  "invalid_counts pars =
     (let nxy = length pars - 2
      in nxy mod 2 > 0 \<or> (\<not> is_polylen (nxy div 2) \<and> \<not> is_polylen (nxy div 2 + 1)))"

section \<open>Worked instances\<close>

text \<open>
  The instances that the constructors build from small inputs; the theorems below
  evaluate the methods on them. \<open>example_poly\<close> is
  \<^verbatim>\<open>Poly([0,1], [0,2], parsx=[1,2,3], parsy=[4,5,6])\<close>: the domain is taken from the
  data, \<open>[0,1] x [0,2]\<close>, and the polynomials are
  \<open>1 + 2 xr + 3 yr\<close> and \<open>4 + 5 xr + 6 yr\<close> in the rescaled coordinates.
\<close>

definition example_poly :: Poly where
  "example_poly =
     \<lparr>Poly_x = [0, 1], Poly_y = [0, 2], Poly_covxy = [], Poly_parsx = [1, 2, 3],
      Poly_parsy = [4, 5, 6], Poly_xmin = Some 0, Poly_xmax = Some 1, Poly_ymin = Some 0,
      Poly_ymax = Some 2, Poly_cxx = [[2, 0], [0, 0]], Poly_cxy = [[3, 0], [0, 0]],
      Poly_cyx = [[5, 0], [0, 0]], Poly_cyy = [[6, 0], [0, 0]],
      Poly_jacrescale = Mat2 2 0 0 1, Poly_inds1d_6term = [0, 1, 2, 3, 4, 5],
      Poly_pars2x = \<lparr>Polycoeffs_p = [1, 2, 3], Polycoeffs_p2d = [[1, 3], [2, 0]],
                      Polycoeffs_deg = 1, Polycoeffs_i = [0, 1, 0], Polycoeffs_j = [0, 0, 1]\<rparr>,
      Poly_pars2y = \<lparr>Polycoeffs_p = [4, 5, 6], Polycoeffs_p2d = [[4, 6], [5, 0]],
                      Polycoeffs_deg = 1, Polycoeffs_i = [0, 1, 0], Polycoeffs_j = [0, 0, 1]\<rparr>,
      Poly_jacpoly = [Mat2 2 3 5 6, Mat2 2 3 5 6],
      Poly_jac = [Mat2 4 6 5 6, Mat2 4 6 5 6],
      Poly_xr = [- 1, 1], Poly_yr = [- 1, 1], Poly_xtran = [], Poly_ytran = [],
      Poly_covtran = [], Poly_xytran = [[0, 0], [0, 0]]\<rparr>"

text \<open>
  \<^verbatim>\<open>Tan2equ([0,0], [1,2], pars=[0,0], degrees=False)\<close> and
  \<^verbatim>\<open>Equ2tan([0,pi], [0,0], pars=[0,0], degrees=False)\<close>.
\<close>

definition example_tan2equ :: Tan2equ where
  "example_tan2equ =
     \<lparr>Tan2equ_x = [0, 0], Tan2equ_y = [1, 2], Tan2equ_covxy = [], Tan2equ_pars = [0, 0],
      Tan2equ_degrees = False, Tan2equ_conv2rad = 1,
      Tan2equ_jac = [Mat2 1 0 0 (1 / 2), Mat2 1 0 0 (1 / 5)],
      Tan2equ_xtran = [], Tan2equ_ytran = [], Tan2equ_covtran = []\<rparr>"

definition example_equ2tan :: Equ2tan where
  "example_equ2tan =
     \<lparr>Equ2tan_x = [0, pi], Equ2tan_y = [0, 0], Equ2tan_covxy = [], Equ2tan_pars = [0, 0],
      Equ2tan_degrees = False, Equ2tan_conv2rad = 1,
      Equ2tan_jac = [Mat2 1 0 0 1, Mat2 1 0 0 (- 1)],
      Equ2tan_xtran = [], Equ2tan_ytran = [], Equ2tan_covtran = []\<rparr>"


text \<open>
  A chain \<^verbatim>\<open>xy2equ\<close> over \<open>example_poly\<close>, with the attributes its \<^verbatim>\<open>__init__\<close>
  sets for the parameters \<open>[0, 0, 1, 2, 3, 4, 5, 6]\<close>: the gnomonic sub-transform is
  \<^verbatim>\<open>Tan2equ(pars=[0, 0])\<close>, in degrees and without positions. (The \<^verbatim>\<open>__init__\<close> of the
  source passes \<^verbatim>\<open>kind=\<close> to \<^verbatim>\<open>Poly\<close>, whose argument is \<^verbatim>\<open>kindpoly\<close>, and so
  cannot finish; the chain is given as a record.)
\<close>

definition example_chain :: xy2equ where
  "example_chain =
     \<lparr>xy2equ_parsx = [1, 2, 3], xy2equ_parsy = [4, 5, 6], xy2equ_tangentpoint = [0, 0],
      xy2equ_polyhasxy0 = True, xy2equ_inds1d_6term = [0, 2, 3, 1, 5, 6],
      xy2equ_xy2tp = example_poly,
      xy2equ_tp2equ =
        \<lparr>Tan2equ_x = [], Tan2equ_y = [], Tan2equ_covxy = [], Tan2equ_pars = [0, 0],
         Tan2equ_degrees = True, Tan2equ_conv2rad = pi / 180, Tan2equ_jac = [],
         Tan2equ_xtran = [], Tan2equ_ytran = [], Tan2equ_covtran = []\<rparr>\<rparr>"

text \<open>\<open>example_chain\<close> after \<^verbatim>\<open>updatetransf([0, 0, 0, 0, 0, 1, 0, 1])\<close>.\<close>

definition example_chain_updated :: xy2equ where
  "example_chain_updated =
     \<lparr>xy2equ_parsx = [0, 0, 0], xy2equ_parsy = [1, 0, 1], xy2equ_tangentpoint = [0, 0],
      xy2equ_polyhasxy0 = True, xy2equ_inds1d_6term = [0, 2, 3, 1, 5, 6],
      xy2equ_xy2tp = example_poly
        \<lparr>Poly_parsx := [0, 0, 0], Poly_parsy := [1, 0, 1],
         Poly_cxx := [[0, 0], [0, 0]], Poly_cxy := [[0, 0], [0, 0]],
         Poly_cyx := [[0, 0], [0, 0]], Poly_cyy := [[1, 0], [0, 0]],
         Poly_pars2x := \<lparr>Polycoeffs_p = [0, 0, 0], Polycoeffs_p2d = [[0, 0], [0, 0]],
                         Polycoeffs_deg = 1, Polycoeffs_i = [0, 1, 0], Polycoeffs_j = [0, 0, 1]\<rparr>,
         Poly_pars2y := \<lparr>Polycoeffs_p = [1, 0, 1], Polycoeffs_p2d = [[1, 1], [0, 0]],
                         Polycoeffs_deg = 1, Polycoeffs_i = [0, 1, 0], Polycoeffs_j = [0, 0, 1]\<rparr>,
         Poly_jacpoly := [Mat2 0 0 0 1, Mat2 0 0 0 1],
         Poly_jac := [Mat2 0 0 0 1, Mat2 0 0 0 1],
         Poly_xtran := [0, 0], Poly_ytran := [0, 2]\<rparr>,
      xy2equ_tp2equ =
        \<lparr>Tan2equ_x = [0, 0], Tan2equ_y = [0, 2], Tan2equ_covxy = [], Tan2equ_pars = [0, 0],
         Tan2equ_degrees = True, Tan2equ_conv2rad = pi / 180,
         Tan2equ_jac = map (Tan2equ_jac_pt (pi / 180) 0 0) [(0, 0), (0, 2)],
         Tan2equ_xtran = [], Tan2equ_ytran = [], Tan2equ_covtran = []\<rparr>\<rparr>"

section \<open>The notions the claims are stated with\<close>

text \<open>
  The position map of \<^verbatim>\<open>Poly.propxy\<close> at one point, as a function of the unrescaled
  coordinates, and what it means for a 2x2 matrix to be its matrix of partial
  derivatives there.
\<close>

definition Poly_propxy_pt :: "Poly \<Rightarrow> real \<Rightarrow> real \<Rightarrow> real \<times> real" where
  "Poly_propxy_pt s x y =
     (case Poly_propxy s [x] [y] of
        Inr t \<Rightarrow> (hd (fst t), hd (snd t))
      | Inl e \<Rightarrow> (0, 0))"

definition partials :: "(real \<Rightarrow> real \<Rightarrow> real \<times> real) \<Rightarrow> real \<Rightarrow> real \<Rightarrow> mat2 \<Rightarrow> bool" where
  "partials f x y J =
     (((\<lambda>u. fst (f u y)) has_real_derivative m00 J) (at x) \<and>
      ((\<lambda>v. fst (f x v)) has_real_derivative m01 J) (at y) \<and>
      ((\<lambda>u. snd (f u y)) has_real_derivative m10 J) (at x) \<and>
      ((\<lambda>v. snd (f x v)) has_real_derivative m11 J) (at y))"

text \<open>
  The range of the gnomonic projection about the tangent point \<open>(p0, p1)\<close>, for a
  sample \<open>(a, d)\<close> in the units that \<open>conv2rad\<close> converts to radians: the hemisphere
  facing the tangent point, where the common denominator of the forward map (the cosine
  of the angular distance) is positive. \<open>roundtrip_range\<close> is the part of it where, in
  addition, the longitude is within a quarter turn of that of the tangent point and the
  latitude is strictly between the poles.
\<close>

definition gnomonic_range :: "real \<Rightarrow> real \<Rightarrow> real \<Rightarrow> real \<times> real \<Rightarrow> bool" where
  "gnomonic_range conv2rad p0 p1 pt =
     (cos (fst pt * conv2rad - p0 * conv2rad) * cos (snd pt * conv2rad) * cos (p1 * conv2rad)
        + sin (snd pt * conv2rad) * sin (p1 * conv2rad) > 0)"

definition roundtrip_range :: "real \<Rightarrow> real \<Rightarrow> real \<Rightarrow> real \<times> real \<Rightarrow> bool" where
  "roundtrip_range conv2rad p0 p1 pt =
     (gnomonic_range conv2rad p0 p1 pt \<and>
      \<bar>fst pt * conv2rad - p0 * conv2rad\<bar> < pi / 2 \<and> \<bar>snd pt * conv2rad\<bar> < pi / 2)"

text \<open>
  The samples at least one arc minute inside that range, for a tangent point whose
  longitude is within one turn and whose latitude is between the poles: the angular
  distance to the tangent point is at most a quarter turn less one arc minute (its
  cosine is at least the sine of one arc minute), and so are the difference in longitude
  and the latitude. There the cancellation in \<open>\<gamma> = cos \<delta>0 - \<eta> sin \<delta>0\<close> and in the
  denominator of the forward map is bounded.
\<close>

definition arcmin :: real where
  "arcmin = pi / 10800"

definition roundtrip_margin :: "real \<Rightarrow> real \<Rightarrow> real \<Rightarrow> real \<times> real \<Rightarrow> bool" where
  "roundtrip_margin conv2rad p0 p1 pt =
     (\<bar>p0 * conv2rad\<bar> \<le> 2 * pi \<and> \<bar>p1 * conv2rad\<bar> \<le> pi / 2 \<and>
      sin arcmin \<le> cos (fst pt * conv2rad - p0 * conv2rad) * cos (snd pt * conv2rad)
                       * cos (p1 * conv2rad)
                     + sin (snd pt * conv2rad) * sin (p1 * conv2rad) \<and>
      \<bar>fst pt * conv2rad - p0 * conv2rad\<bar> \<le> pi / 2 - arcmin \<and>
      \<bar>snd pt * conv2rad\<bar> \<le> pi / 2 - arcmin)"

text \<open>\<^verbatim>\<open>Equ2tan(pars=[0, 90])\<close> and \<^verbatim>\<open>Tan2equ(pars=[0, 90])\<close>, in degrees, without data.\<close>

definition example_equ2tan_pole :: Equ2tan where
  "example_equ2tan_pole =
     \<lparr>Equ2tan_x = [], Equ2tan_y = [], Equ2tan_covxy = [], Equ2tan_pars = [0, 90],
      Equ2tan_degrees = True, Equ2tan_conv2rad = pi / 180, Equ2tan_jac = [],
      Equ2tan_xtran = [], Equ2tan_ytran = [], Equ2tan_covtran = []\<rparr>"

definition example_tan2equ_pole :: Tan2equ where
  "example_tan2equ_pole =
     \<lparr>Tan2equ_x = [], Tan2equ_y = [], Tan2equ_covxy = [], Tan2equ_pars = [0, 90],
      Tan2equ_degrees = True, Tan2equ_conv2rad = pi / 180, Tan2equ_jac = [],
      Tan2equ_xtran = [], Tan2equ_ytran = [], Tan2equ_covtran = []\<rparr>"

text \<open>
  The power pairs \<open>(i, j)\<close> with \<open>i + j \<le> d\<close> in the order of the columns that
  \<^verbatim>\<open>Patternmatrix\<close> selects: by \<open>i\<close>, then by \<open>j\<close>. A triangular coefficient array
  of degree \<open>d\<close> is a \<open>(d+1) x (d+1)\<close> array that is zero at the other pairs.
\<close>

definition selected_powers :: "nat \<Rightarrow> (nat \<times> nat) list" where
  "selected_powers d =
     filter (\<lambda>p. fst p + snd p \<le> d) (List.product [0..<d + 1] [0..<d + 1])"

definition triangular :: "nat \<Rightarrow> real list list \<Rightarrow> bool" where
  "triangular d A =
     (length A = d + 1 \<and> list_all (\<lambda>row. length row = d + 1) A \<and>
      list_all (\<lambda>p. fst p + snd p \<le> d \<or> A ! fst p ! snd p = 0)
               (List.product [0..<d + 1] [0..<d + 1]))"

text \<open>The basis function of the power pair \<open>p\<close> at the rescaled point \<open>pt\<close>.\<close>

definition basis :: "real \<times> real \<Rightarrow> nat \<times> nat \<Rightarrow> real" where
  "basis pt p = fst pt ^ fst p * snd pt ^ snd p"

text \<open>
  \<^verbatim>\<open>Patternmatrix(1, [0,1,1], [0,2,0])\<close>: the domain taken from the data is that of
  \<open>example_poly\<close>, \<open>[0,1] x [0,2]\<close>.
\<close>

definition example_pattern :: Patternmatrix where
  "example_pattern =
     \<lparr>Patternmatrix_deg = 1, Patternmatrix_x = [0, 1, 1], Patternmatrix_y = [0, 2, 0],
      Patternmatrix_norescale = False, Patternmatrix_xmin = 0, Patternmatrix_xmax = 1,
      Patternmatrix_ymin = 0, Patternmatrix_ymax = 2,
      Patternmatrix_xr = [- 1, 1, 1], Patternmatrix_yr = [- 1, 1, - 1],
      Patternmatrix_ipow = [0, 0, 1, 1], Patternmatrix_jpow = [0, 1, 0, 1],
      Patternmatrix_bpow = [True, True, True, False],
      Patternmatrix_isel = [0, 0, 1], Patternmatrix_jsel = [0, 1, 0],
      Patternmatrix_lvander = [0, 1, 2],
      Patternmatrix_vander = [[1, - 1, - 1, 1], [1, 1, 1, 1], [1, - 1, 1, - 1]],
      Patternmatrix_pattern =
        [[[1, - 1, - 1, 0, 0, 0], [0, 0, 0, 1, - 1, - 1]],
         [[1, 1, 1, 0, 0, 0], [0, 0, 0, 1, 1, 1]],
         [[1, - 1, 1, 0, 0, 0], [0, 0, 0, 1, - 1, 1]]]\<rparr>"

text \<open>
  A coefficient object of degree \<open>d\<close>, as \<^verbatim>\<open>Polycoeffs.__init__\<close> leaves it for
  \<open>(d+1)(d+2)/2\<close> coefficients: the degree, the index arrays of \<^verbatim>\<open>ijfromdeg\<close> and a
  triangular array. \<^verbatim>\<open>updatecoeffs\<close> keeps the degree and the index arrays and writes
  into the array it finds.
\<close>

definition Polycoeffs_degree :: "nat \<Rightarrow> Polycoeffs \<Rightarrow> bool" where
  "Polycoeffs_degree d c =
     (Polycoeffs_deg c = int d \<and> Polycoeffs_i c = fst (ijfromdeg (int d)) \<and>
      Polycoeffs_j c = snd (ijfromdeg (int d)) \<and> triangular d (Polycoeffs_p2d c))"

text \<open>
  The positions, the domain and the rescaled positions of a \<^verbatim>\<open>Poly\<close>; and an instance
  ready for an update at degree \<open>d\<close>: both coefficient objects of degree \<open>d\<close>, as many
  \<open>x\<close> as \<open>y\<close>, the four limits set, and a domain of non-zero width and height.
\<close>

definition Poly_data ::
  "Poly \<Rightarrow> (real list \<times> real list) \<times> (real option \<times> real option \<times> real option \<times> real option)
     \<times> (real list \<times> real list)" where
  "Poly_data t = ((Poly_x t, Poly_y t), (Poly_xmin t, Poly_xmax t, Poly_ymin t, Poly_ymax t),
                  (Poly_xr t, Poly_yr t))"

definition Poly_ready :: "nat \<Rightarrow> Poly \<Rightarrow> bool" where
  "Poly_ready d t =
     (Polycoeffs_degree d (Poly_pars2x t) \<and> Polycoeffs_degree d (Poly_pars2y t) \<and>
      length (Poly_x t) = length (Poly_y t) \<and> length (Poly_xr t) = length (Poly_yr t) \<and>
      (case (Poly_xmin t, Poly_xmax t, Poly_ymin t, Poly_ymax t) of
         (Some xmin, Some xmax, Some ymin, Some ymax) \<Rightarrow> xmin \<noteq> xmax \<and> ymin \<noteq> ymax
       | _ \<Rightarrow> False))"

text \<open>
  \<open>example_chain\<close> after \<^verbatim>\<open>updatetransf([0, 0, 9, 9])\<close>, a vector with one coefficient
  for \<open>x\<close> and one for \<open>y\<close>: the coefficient objects of the polynomial keep their
  degree 1, and only the first entry of each array is written.
\<close>

definition example_chain_stale :: xy2equ where
  "example_chain_stale =
     \<lparr>xy2equ_parsx = [9], xy2equ_parsy = [9], xy2equ_tangentpoint = [0, 0],
      xy2equ_polyhasxy0 = True, xy2equ_inds1d_6term = [0, 2, 3, 1, 3, 4],
      xy2equ_xy2tp = example_poly
        \<lparr>Poly_parsx := [9], Poly_parsy := [9],
         Poly_pars2x := \<lparr>Polycoeffs_p = [9], Polycoeffs_p2d = [[9, 3], [2, 0]],
                         Polycoeffs_deg = 1, Polycoeffs_i = [0, 1, 0], Polycoeffs_j = [0, 0, 1]\<rparr>,
         Poly_pars2y := \<lparr>Polycoeffs_p = [9], Polycoeffs_p2d = [[9, 6], [5, 0]],
                         Polycoeffs_deg = 1, Polycoeffs_i = [0, 1, 0], Polycoeffs_j = [0, 0, 1]\<rparr>,
         Poly_xtran := [4, 14], Poly_ytran := [- 2, 20]\<rparr>,
      xy2equ_tp2equ =
        \<lparr>Tan2equ_x = [4, 14], Tan2equ_y = [- 2, 20], Tan2equ_covxy = [], Tan2equ_pars = [0, 0],
         Tan2equ_degrees = True, Tan2equ_conv2rad = pi / 180,
         Tan2equ_jac = map (Tan2equ_jac_pt (pi / 180) 0 0) [(4, - 2), (14, 20)],
         Tan2equ_xtran = [], Tan2equ_ytran = [], Tan2equ_covtran = []\<rparr>\<rparr>"

section \<open>The degree inferred from a coefficient count\<close>

lemma polylen_double: "2 * polylen d = (d + 1) * (d + 2)"
  by (simp add: polylen_def)

lemma polylen_radicand: "9 + 8 * (real (polylen d) - 1) = (2 * real d + 3)\<^sup>2"
proof -
  have "real (2 * polylen d) = real ((d + 1) * (d + 2))"
    by (simp only: polylen_double)
  then have "2 * real (polylen d) = (real d + 1) * (real d + 2)"
    by (simp add: algebra_simps)
  then show ?thesis
    by (simp add: power2_eq_square algebra_simps)
qed

lemma degfromcoeffs_polylen: "degfromcoeffs (real (polylen d)) = real d"
proof -
  have "sqrt (9 + 8 * (real (polylen d) - 1)) = 2 * real d + 3"
    by (simp only: polylen_radicand) simp
  then show ?thesis
    by (simp add: degfromcoeffs_def)
qed

lemma pyint_of_nat: "pyint (real d) = int d"
  by (simp add: pyint_def)

lemma polylen_gt: "d < polylen d"
proof -
  have "2 * d < 2 * polylen d" by (simp only: polylen_double) simp
  then show ?thesis by simp
qed

lemma is_polylen_iff: "is_polylen m \<longleftrightarrow> (\<exists>d. m = polylen d)"
proof
  assume "is_polylen m"
  then show "\<exists>d. m = polylen d"
    by (auto simp: is_polylen_def list_ex_iff)
next
  assume "\<exists>d. m = polylen d"
  then obtain d where d: "m = polylen d" ..
  with polylen_gt [of d] have "d \<in> set [0..<Suc m]" by simp
  with d show "is_polylen m"
    unfolding is_polylen_def list_ex_iff by blast
qed

lemma degfromcoeffs_nonneg: "1 \<le> m \<Longrightarrow> 0 \<le> degfromcoeffs (real m)"
proof -
  assume "1 \<le> m"
  then have "(3::real)\<^sup>2 \<le> 9 + 8 * (real m - 1)" by simp
  then have "sqrt ((3::real)\<^sup>2) \<le> sqrt (9 + 8 * (real m - 1))"
    by (rule real_sqrt_le_mono)
  then show ?thesis by (simp add: degfromcoeffs_def)
qed

lemma degfromcoeffs_integral:
  assumes m: "1 \<le> m" and k: "degfromcoeffs (real m) = real_of_int k"
  shows "is_polylen m"
proof -
  have k0: "0 \<le> k" using degfromcoeffs_nonneg [OF m] k by simp
  define d where "d = nat k"
  have kd: "real_of_int k = real d" using k0 by (simp add: d_def)
  have "sqrt (9 + 8 * (real m - 1)) = 2 * real d + 3"
    using k kd by (simp add: degfromcoeffs_def field_simps)
  then have "(sqrt (9 + 8 * (real m - 1)))\<^sup>2 = (2 * real d + 3)\<^sup>2" by simp
  moreover have "0 \<le> 9 + 8 * (real m - 1)" using m by simp
  ultimately have "9 + 8 * (real m - 1) = (2 * real d + 3)\<^sup>2" by simp
  then have "2 * real m = (real d + 1) * (real d + 2)"
    by (simp add: power2_eq_square algebra_simps)
  then have "real (2 * m) = real ((d + 1) * (d + 2))" by (simp add: algebra_simps)
  then have "2 * m = (d + 1) * (d + 2)" by (simp only: of_nat_eq_iff)
  then have "m = polylen d" by (simp add: polylen_def)
  then show ?thesis by (auto simp: is_polylen_iff)
qed

text \<open>
  The test \<^verbatim>\<open>degx - int(degx) > 0\<close> of \<^verbatim>\<open>ingestpars\<close> holds exactly for the counts
  that are not a valid length.
\<close>

lemma degx_fraction:
  assumes m: "1 \<le> m"
  shows "(degfromcoeffs (real m) - real_of_int (pyint (degfromcoeffs (real m))) > 0)
           \<longleftrightarrow> \<not> is_polylen m"
proof
  assume pos: "degfromcoeffs (real m) - real_of_int (pyint (degfromcoeffs (real m))) > 0"
  show "\<not> is_polylen m"
  proof
    assume "is_polylen m"
    then obtain d where "m = polylen d" by (auto simp: is_polylen_iff)
    with pos show False by (simp add: degfromcoeffs_polylen pyint_of_nat)
  qed
next
  assume no: "\<not> is_polylen m"
  let ?r = "degfromcoeffs (real m)"
  have r0: "0 \<le> ?r" by (rule degfromcoeffs_nonneg [OF m])
  then have fl: "pyint ?r = \<lfloor>?r\<rfloor>" by (simp add: pyint_def)
  have "?r \<noteq> real_of_int \<lfloor>?r\<rfloor>"
    using degfromcoeffs_integral [OF m] no by metis
  moreover have "real_of_int \<lfloor>?r\<rfloor> \<le> ?r" by simp
  ultimately have "real_of_int \<lfloor>?r\<rfloor> < ?r" by linarith
  then show "?r - real_of_int (pyint ?r) > 0" by (simp add: fl)
qed

section \<open>Parvec.ingestpars on a vector it rejects\<close>

lemma ingestpars_odd:
  assumes len: "3 \<le> length pars" and odd: "(length pars - 2) mod 2 > 0"
  shows "Parvec_ingestpars s pars = Returned (s\<lparr>Parvec_tangentpoint := take 2 pars\<rparr>)"
  using len odd by (simp add: Parvec_ingestpars_def Let_def)

lemma ingestpars_even:
  assumes len: "3 \<le> length pars" and ev: "(length pars - 2) mod 2 = 0"
  shows "Parvec_ingestpars s pars =
     (let imid = (length pars - 2) div 2;
          parsx = take imid (drop 2 pars);
          parsy = drop imid (drop 2 pars);
          s2 = s\<lparr>Parvec_tangentpoint := take 2 pars,
                 Parvec_inds1d_6term := [0, 2, 3, 1, imid + 2, imid + 3]\<rparr>
      in if \<not> is_polylen imid then
           if \<not> is_polylen (imid + 1) then Raised AttributeError s2
           else Returned (s2\<lparr>Parvec_hasxy0 := False, Parvec_parsx := 0 # parsx,
                             Parvec_parsy := 0 # parsy\<rparr>)
         else Returned (s2\<lparr>Parvec_parsx := parsx, Parvec_parsy := parsy\<rparr>))"
proof -
  let ?m = "(length pars - 2) div 2"
  from ev len have m1: "1 \<le> ?m" by presburger
  have fa: "(degfromcoeffs (real ?m) - real_of_int (pyint (degfromcoeffs (real ?m))) > 0)
      = (\<not> is_polylen ?m)"
    using degx_fraction [OF m1] by simp
  have fb: "(degfromcoeffs (real (?m + 1)) - real_of_int (pyint (degfromcoeffs (real (?m + 1)))) > 0)
      = (\<not> is_polylen (?m + 1))"
    using degx_fraction [of "?m + 1"] by simp
  show ?thesis
    using len ev fa fb by (simp add: Parvec_ingestpars_def Let_def)
qed

text \<open>
  Claim C4, as the code has it. When the coefficient counts of the vector fit no
  polynomial, \<^verbatim>\<open>ingestpars\<close> leaves \<^verbatim>\<open>parsx\<close>, \<^verbatim>\<open>parsy\<close> and \<^verbatim>\<open>hasxy0\<close> as they
  were, in the instance it returns or raises from; the tangent point is not kept: it is
  the first two entries of the vector.
\<close>

theorem ingestpars_invalid_counts:
  assumes len: "3 \<le> length pars" and inv: "invalid_counts pars"
  shows "Parvec_parsx (state_of (Parvec_ingestpars s pars)) = Parvec_parsx s \<and>
         Parvec_parsy (state_of (Parvec_ingestpars s pars)) = Parvec_parsy s \<and>
         Parvec_hasxy0 (state_of (Parvec_ingestpars s pars)) = Parvec_hasxy0 s \<and>
         Parvec_tangentpoint (state_of (Parvec_ingestpars s pars)) = take 2 pars"
proof (cases "(length pars - 2) mod 2 > 0")
  case True
  then show ?thesis
    by (simp add: ingestpars_odd [OF len])
next
  case False
  then have ev: "(length pars - 2) mod 2 = 0" by simp
  from False inv have "\<not> is_polylen ((length pars - 2) div 2)"
    and "\<not> is_polylen ((length pars - 2) div 2 + 1)"
    by (simp_all add: invalid_counts_def Let_def)
  then show ?thesis
    by (simp add: ingestpars_even [OF len ev] Let_def)
qed

theorem ingestpars_invalid_counts_witness:
  "Parvec_parsx (state_of (Parvec_ingestpars
      \<lparr>Parvec_hasxy0 = True, Parvec_inds1d_6term = [0, 2, 3, 1, 5, 6], Parvec_parsx = [1, 2, 3],
       Parvec_parsy = [4, 5, 6], Parvec_tangentpoint = [35, 35]\<rparr>
      [10, 20, 1, 2, 3, 4, 5, 6, 7, 8])) = [1, 2, 3] \<and>
   Parvec_tangentpoint (state_of (Parvec_ingestpars
      \<lparr>Parvec_hasxy0 = True, Parvec_inds1d_6term = [0, 2, 3, 1, 5, 6], Parvec_parsx = [1, 2, 3],
       Parvec_parsy = [4, 5, 6], Parvec_tangentpoint = [35, 35]\<rparr>
      [10, 20, 1, 2, 3, 4, 5, 6, 7, 8])) = [10, 20]"
  using ingestpars_invalid_counts [of "[10, 20, 1, 2, 3, 4, 5, 6, 7, 8]"
      "\<lparr>Parvec_hasxy0 = True, Parvec_inds1d_6term = [0, 2, 3, 1, 5, 6], Parvec_parsx = [1, 2, 3],
       Parvec_parsy = [4, 5, 6], Parvec_tangentpoint = [35, 35]\<rparr>"]
  by (simp add: invalid_counts_def is_polylen_def polylen_def)

text \<open>
  Claim C4 as stated fails: eight coefficients split into two halves of four, and neither
  four nor five is a valid length; the call raises with the tangent point \<open>[35, 35]\<close>
  replaced by \<open>[10, 20]\<close>.
\<close>

theorem ingestpars_tangentpoint_counterexample:
  "3 \<le> length [10, 20, 1, 2, 3, 4, 5, 6, 7, 8 :: real] \<and>
   invalid_counts [10, 20, 1, 2, 3, 4, 5, 6, 7, 8] \<and>
   Parvec_ingestpars
      \<lparr>Parvec_hasxy0 = True, Parvec_inds1d_6term = [0, 2, 3, 1, 5, 6], Parvec_parsx = [1, 2, 3],
       Parvec_parsy = [4, 5, 6], Parvec_tangentpoint = [35, 35]\<rparr>
      [10, 20, 1, 2, 3, 4, 5, 6, 7, 8]
    = Raised AttributeError
      \<lparr>Parvec_hasxy0 = True, Parvec_inds1d_6term = [0, 2, 3, 1, 6, 7], Parvec_parsx = [1, 2, 3],
       Parvec_parsy = [4, 5, 6], Parvec_tangentpoint = [10, 20]\<rparr> \<and>
   Parvec_tangentpoint (state_of (Parvec_ingestpars
      \<lparr>Parvec_hasxy0 = True, Parvec_inds1d_6term = [0, 2, 3, 1, 5, 6], Parvec_parsx = [1, 2, 3],
       Parvec_parsy = [4, 5, 6], Parvec_tangentpoint = [35, 35]\<rparr>
      [10, 20, 1, 2, 3, 4, 5, 6, 7, 8])) \<noteq> [35, 35]"
proof -
  have len: "3 \<le> length [10, 20, 1, 2, 3, 4, 5, 6, 7, 8 :: real]" by simp
  have ev: "(length [10, 20, 1, 2, 3, 4, 5, 6, 7, 8 :: real] - 2) mod 2 = 0" by simp
  show ?thesis
    by (simp add: ingestpars_even [OF len ev] invalid_counts_def is_polylen_def polylen_def)
qed

section \<open>Covariance propagation keeps symmetry\<close>

lemma symmetric_sandwich: "symmetric2 c \<Longrightarrow> symmetric2 (matmul2 a (matmul2 c (transpose2 a)))"
  by (simp add: symmetric2_def matmul2_def transpose2_def algebra_simps)

lemma propagate_stack_symmetric:
  assumes "propagate_stack J C = Inr R" and "\<forall>c\<in>set C. symmetric2 c"
  shows "\<forall>r\<in>set R. symmetric2 r"
proof (cases "length C = length J")
  case True
  with assms(1) have R: "R = map2 matmul2 J (map2 matmul2 C (map transpose2 J))"
    by (auto simp: propagate_stack_def matmul_stack_def split: if_splits)
  show ?thesis
  proof
    fix r assume "r \<in> set R"
    then obtain k where k: "k < length J"
      "r = matmul2 (J ! k) (matmul2 (C ! k) (transpose2 (J ! k)))"
      using True by (auto simp: R set_zip)
    with assms(2) True show "symmetric2 r"
      by (simp add: symmetric_sandwich)
  qed
next
  case False
  note neq = False
  show ?thesis
  proof (cases "length C = 1")
    case True
    then obtain c where C: "C = [c]" by (cases C) auto
    with assms(1) neq have R: "R = map2 matmul2 J (map (matmul2 c) (map transpose2 J))"
      by (auto simp: propagate_stack_def matmul_stack_def split: if_splits)
    show ?thesis
    proof
      fix r assume "r \<in> set R"
      then obtain k where "k < length J" "r = matmul2 (J ! k) (matmul2 c (transpose2 (J ! k)))"
        by (auto simp: R set_zip)
      with assms(2) C show "symmetric2 r"
        by (simp add: symmetric_sandwich)
    qed
  next
    case False
    with assms(1) neq obtain a where J: "J = [a]"
      by (cases J) (auto simp: propagate_stack_def matmul_stack_def split: if_splits)
    with assms(1) neq False
    have R: "R = map (matmul2 a) (map (\<lambda>c. matmul2 c (transpose2 a)) C)"
      by (auto simp: propagate_stack_def matmul_stack_def split: if_splits)
    show ?thesis
      using assms(2) by (auto simp: R symmetric_sandwich)
  qed
qed

section \<open>The constructors on the worked inputs\<close>

lemma degfromcoeffs_1: "degfromcoeffs 1 = 0"
  using degfromcoeffs_polylen [of 0] by (simp add: polylen_def)

lemma degfromcoeffs_3: "degfromcoeffs 3 = 1"
  using degfromcoeffs_polylen [of 1] by (simp add: polylen_def)

lemma ijfromdeg_0: "ijfromdeg 0 = ([0], [0])"
  by (simp add: ijfromdeg_def Let_def)

lemma ijfromdeg_1: "ijfromdeg 1 = ([0, 1, 0], [0, 0, 1])"
  by (simp add: ijfromdeg_def eval_nat_numeral Let_def)

lemma Polycoeffs_init_single:
  "Polycoeffs_init [a] =
     Returned \<lparr>Polycoeffs_p = [a], Polycoeffs_p2d = [[0]], Polycoeffs_deg = 0,
               Polycoeffs_i = [0], Polycoeffs_j = [0]\<rparr>"
  by (simp add: Polycoeffs_init_def updatecoeffs2d_def initcoeffs2d_def assignij_def
      assigndeg_def degfromcoeffs_1 pyint_def ijfromdeg_0)

lemma Polycoeffs_init_linear:
  "Polycoeffs_init [a, b, c] =
     Returned \<lparr>Polycoeffs_p = [a, b, c], Polycoeffs_p2d = [[a, c], [b, 0]], Polycoeffs_deg = 1,
               Polycoeffs_i = [0, 1, 0], Polycoeffs_j = [0, 0, 1]\<rparr>"
  by (simp add: Polycoeffs_init_def updatecoeffs2d_def initcoeffs2d_def assignij_def
      assigndeg_def degfromcoeffs_3 pyint_def ijfromdeg_1 fill2d_ok_def fill2d_def put2d_def
      eval_nat_numeral)

lemma polyval_Nil: "polyval x [] = 0"
  by (simp add: polyval_def)

lemma polyval_Cons: "polyval x (a # c) = a + polyval x c * x"
  by (simp add: polyval_def)

lemma Poly_derivcoeffs_linear:
  "Poly_derivcoeffs [[a, c], [b, 0]] = ([[b, 0], [0, 0]], [[c, 0], [0, 0]])"
  by (simp add: Poly_derivcoeffs_def pad_row_def pad_col_def polyder_axis0_def polyder_axis1_def
      polyder1_def)

lemma Poly_init_example:
  "Poly_init [0, 1] [0, 2] [] [1, 2, 3] [4, 5, 6] None None None None = Returned example_poly"
  by (simp add: Poly_init_def Poly_updatedata_def Poly_setdomain_def setlimit_def
      Poly_setjacrescale_def Poly_setinds_6term_def Poly_setuppars_def Polycoeffs_init_linear
      Poly_updatejacobian_def Poly_rescalepos_def Poly_rescalexy_def Poly_getjacobian_def
      Poly_initjacpoly_def Poly_populatejacpoly_def Poly_setderivcoeffs_def
      Poly_derivcoeffs_linear Poly_evaluatejacpoly_def polyval2d_def polyval2d_pt_def
      polyval_Nil polyval_Cons Poly_combinejac_def matmul2_def Poly_initxytran_def
      example_poly_def eval_nat_numeral)

lemma Tan2equ_init_example:
  "Tan2equ_init [0, 0] [1, 2] [] [0, 0] False = Returned example_tan2equ"
  by (simp add: Tan2equ_init_def Tan2equ_setjacobian_def Tan2equ_evaluatejac_def
      np_broadcast_def Tan2equ_jac_pt_def setconversion_def example_tan2equ_def)

lemma Equ2tan_init_example:
  "Equ2tan_init [0, pi] [0, 0] [] [0, 0] False = Returned example_equ2tan"
  by (simp add: Equ2tan_init_def Equ2tan_setjacobian_def Equ2tan_evaluatejac_def
      np_broadcast_def Equ2tan_jac_pt_def setconversion_def example_equ2tan_def)

section \<open>Claims on covariance propagation and on the tangent-point update\<close>

lemma Poly_propcov_example:
  "Poly_propcov example_poly [Mat2 1 0 0 1, Mat2 1 2 2 5] [0, 1] [0, 2]
     = Inr [Mat2 52 56 56 61, Mat2 292 308 308 325]"
  by (simp add: Poly_propcov_def example_poly_def Poly_rescalexy_def Poly_evaluatejacpoly_def
      polyval2d_def polyval2d_pt_def polyval_Nil polyval_Cons propagate_stack_def
      matmul_stack_def matmul2_def transpose2_def eval_nat_numeral)

lemma Tan2equ_propcov_example:
  "Tan2equ_propcov example_tan2equ [Mat2 1 0 0 1, Mat2 1 2 2 5] [0, 0] [1, 2]
     = Inr [Mat2 1 0 0 (1 / 4), Mat2 1 (2 / 5) (2 / 5) (1 / 5)]"
  by (simp add: Tan2equ_propcov_def example_tan2equ_def Tan2equ_evaluatejac_def
      np_broadcast_def Tan2equ_jac_pt_def propagate_stack_def matmul_stack_def matmul2_def
      transpose2_def)

lemma Equ2tan_propcov_example:
  "Equ2tan_propcov example_equ2tan [Mat2 1 0 0 1, Mat2 1 2 2 5] [0, pi] [0, 0]
     = Inr [Mat2 1 0 0 1, Mat2 1 (- 2) (- 2) 5]"
  by (simp add: Equ2tan_propcov_def example_equ2tan_def Equ2tan_evaluatejac_def
      np_broadcast_def Equ2tan_jac_pt_def propagate_stack_def matmul_stack_def matmul2_def
      transpose2_def)

text \<open>
  Claim C8. Whatever the instance, the positions and the shape of the stacks, every
  covariance that \<^verbatim>\<open>propcov\<close> returns for symmetric input covariances is symmetric; the
  jacobian is not constrained. The three \<^verbatim>\<open>propcov\<close> methods are covered.
\<close>

theorem propcov_symmetric:
  assumes "\<forall>c\<in>set C. symmetric2 c"
  shows "(\<forall>R. Poly_propcov p C x y = Inr R \<longrightarrow> (\<forall>r\<in>set R. symmetric2 r)) \<and>
         (\<forall>R. Tan2equ_propcov t C x y = Inr R \<longrightarrow> (\<forall>r\<in>set R. symmetric2 r)) \<and>
         (\<forall>R. Equ2tan_propcov e C x y = Inr R \<longrightarrow> (\<forall>r\<in>set R. symmetric2 r))"
proof (intro conjI allI impI)
  fix R assume "Poly_propcov p C x y = Inr R"
  then obtain J where "propagate_stack J C = Inr R"
    by (auto simp: Poly_propcov_def split: sum.splits if_splits)
  then show "\<forall>r\<in>set R. symmetric2 r"
    using assms by (rule propagate_stack_symmetric)
next
  fix R assume "Tan2equ_propcov t C x y = Inr R"
  then have "R = [] \<or> (\<exists>J. propagate_stack J C = Inr R)"
    by (auto simp: Tan2equ_propcov_def split: sum.splits if_splits)
  then show "\<forall>r\<in>set R. symmetric2 r"
    using assms propagate_stack_symmetric by auto
next
  fix R assume "Equ2tan_propcov e C x y = Inr R"
  then have "R = [] \<or> (\<exists>J. propagate_stack J C = Inr R)"
    by (auto simp: Equ2tan_propcov_def split: sum.splits if_splits)
  then show "\<forall>r\<in>set R. symmetric2 r"
    using assms propagate_stack_symmetric by auto
qed

theorem propcov_symmetric_witness:
  "list_all symmetric2 [Mat2 1 0 0 1, Mat2 1 2 2 5] \<and>
   Poly_propcov example_poly [Mat2 1 0 0 1, Mat2 1 2 2 5] [0, 1] [0, 2]
     = Inr [Mat2 52 56 56 61, Mat2 292 308 308 325] \<and>
   list_all symmetric2 [Mat2 52 56 56 61, Mat2 292 308 308 325] \<and>
   Tan2equ_propcov example_tan2equ [Mat2 1 0 0 1, Mat2 1 2 2 5] [0, 0] [1, 2]
     = Inr [Mat2 1 0 0 (1 / 4), Mat2 1 (2 / 5) (2 / 5) (1 / 5)] \<and>
   list_all symmetric2 [Mat2 1 0 0 (1 / 4), Mat2 1 (2 / 5) (2 / 5) (1 / 5)] \<and>
   Equ2tan_propcov example_equ2tan [Mat2 1 0 0 1, Mat2 1 2 2 5] [0, pi] [0, 0]
     = Inr [Mat2 1 0 0 1, Mat2 1 (- 2) (- 2) 5] \<and>
   list_all symmetric2 [Mat2 1 0 0 1, Mat2 1 (- 2) (- 2) 5]"
  using propcov_symmetric [of "[Mat2 1 0 0 1, Mat2 1 2 2 5]" example_poly "[0, 1]" "[0, 2]"
      example_tan2equ example_equ2tan]
  by (simp add: Poly_propcov_example Tan2equ_propcov_example Equ2tan_propcov_example
      symmetric2_def)

lemma np_broadcast_same: "length xs = length ys \<Longrightarrow> np_broadcast xs ys = Inr (zip xs ys)"
  by (simp add: np_broadcast_def)

text \<open>
  Claim C10. \<^verbatim>\<open>updatetransf\<close> of \<^verbatim>\<open>Tan2equ\<close> and of \<^verbatim>\<open>Equ2tan\<close> returns the
  instance as it was when the vector does not have exactly two entries. With two entries,
  and the positions \<open>x\<close> and \<open>y\<close> of one length, the tangent point becomes the vector
  and the jacobian becomes the one evaluated at the instance's positions with the new
  tangent point; nothing else changes.
\<close>

theorem updatetransf_pars_size:
  "(length pars \<noteq> 2 \<longrightarrow>
      Tan2equ_updatetransf s pars = Returned s \<and> Equ2tan_updatetransf e pars = Returned e) \<and>
   (length pars = 2 \<and> length (Tan2equ_y s) = length (Tan2equ_x s) \<longrightarrow>
      Tan2equ_updatetransf s pars =
        Returned (s\<lparr>Tan2equ_pars := pars,
                    Tan2equ_jac := map (Tan2equ_jac_pt (Tan2equ_conv2rad s) (pars ! 0) (pars ! 1))
                                       (zip (Tan2equ_x s) (Tan2equ_y s))\<rparr>)) \<and>
   (length pars = 2 \<and> length (Equ2tan_y e) = length (Equ2tan_x e) \<longrightarrow>
      Equ2tan_updatetransf e pars =
        Returned (e\<lparr>Equ2tan_pars := pars,
                    Equ2tan_jac := map (Equ2tan_jac_pt (Equ2tan_conv2rad e) (pars ! 0) (pars ! 1))
                                       (zip (Equ2tan_x e) (Equ2tan_y e))\<rparr>))"
  by (simp add: Tan2equ_updatetransf_def Equ2tan_updatetransf_def Tan2equ_setjacobian_def
      Equ2tan_setjacobian_def Tan2equ_evaluatejac_def Equ2tan_evaluatejac_def np_broadcast_same)

theorem updatetransf_pars_size_witness:
  "Tan2equ_updatetransf example_tan2equ [1, 2, 3] = Returned example_tan2equ \<and>
   Equ2tan_updatetransf example_equ2tan [1] = Returned example_equ2tan \<and>
   Tan2equ_updatetransf example_tan2equ [0, pi / 2] =
     Returned (example_tan2equ\<lparr>Tan2equ_pars := [0, pi / 2],
        Tan2equ_jac := [Mat2 (- 1) 0 0 (- 1 / 2), Mat2 (- 1 / 2) 0 0 (- 1 / 5)]\<rparr>) \<and>
   Equ2tan_updatetransf example_equ2tan [pi, 0] =
     Returned (example_equ2tan\<lparr>Equ2tan_pars := [pi, 0],
        Equ2tan_jac := [Mat2 1 0 0 (- 1), Mat2 1 0 0 1]\<rparr>)"
  using updatetransf_pars_size [of "[1, 2, 3]" example_tan2equ example_equ2tan]
    updatetransf_pars_size [of "[1]" example_tan2equ example_equ2tan]
    updatetransf_pars_size [of "[0, pi / 2]" example_tan2equ example_equ2tan]
    updatetransf_pars_size [of "[pi, 0]" example_tan2equ example_equ2tan]
  by (simp add: example_tan2equ_def example_equ2tan_def Tan2equ_jac_pt_def Equ2tan_jac_pt_def)

section \<open>Polycoeffs at degree zero\<close>

text \<open>
  Claim C5 fails on the code. One coefficient is a valid length, the degree inferred is 0,
  and \<^verbatim>\<open>updatecoeffs2d\<close> returns at its guard \<^verbatim>\<open>self.deg < 1\<close>, whose own warning
  reads "degree < 0": the array stays \<open>[[0]]\<close>.
\<close>

theorem Polycoeffs_degree_zero_not_populated:
  "is_polylen (length [5 :: real]) \<and>
   Polycoeffs_init [5] =
     Returned \<lparr>Polycoeffs_p = [5], Polycoeffs_p2d = [[0]], Polycoeffs_deg = 0,
               Polycoeffs_i = [0], Polycoeffs_j = [0]\<rparr>"
  by (simp add: Polycoeffs_init_single is_polylen_def polylen_def)

text \<open>
  Claim C6 fails on the code at the same guard: for degree 0 the array read back at the
  index pair of \<^verbatim>\<open>ijfromdeg\<close> is \<open>[0]\<close>, not the vector \<open>[7]\<close>.
\<close>

theorem Polycoeffs_degree_zero_readback:
  "is_polylen (length [7 :: real]) \<and>
   Polycoeffs_deg (state_of (Polycoeffs_init [7])) = 0 \<and>
   readback (Polycoeffs_p2d (state_of (Polycoeffs_init [7]))) (ijfromdeg 0) = [0]"
  by (simp add: Polycoeffs_init_single is_polylen_def polylen_def readback_def ijfromdeg_0)

section \<open>The jacobian of Poly against the partial derivatives of its position map\<close>

lemma Poly_propxy_pt_example:
  "Poly_propxy_pt example_poly u v = (1 + 2 * (2 * u - 1) + 3 * (v - 1), 4 + 5 * (2 * u - 1) + 6 * (v - 1))"
  by (simp add: Poly_propxy_pt_def Poly_propxy_def Poly_rescalexy_def example_poly_def
      polyval2d_def polyval2d_pt_def polyval_Nil polyval_Cons field_simps)

lemma partials_example: "partials (Poly_propxy_pt example_poly) x y (Mat2 4 3 10 6)"
  unfolding partials_def Poly_propxy_pt_example fst_conv snd_conv mat2.sel
  by (intro conjI) (auto intro!: derivative_eq_intros)

text \<open>
  Claim C1 fails on the code. On \<open>example_poly\<close> the domain is \<open>[0,1] x [0,2]\<close>, so
  the rescaling jacobian is \<open>diag(2, 1)\<close>, and the polynomial jacobian is
  \<open>[[2, 3], [5, 6]]\<close>. The partial derivatives of the position map with respect to
  \<open>(x, y)\<close> are \<open>[[4, 3], [10, 6]]\<close>, the product with the rescaling jacobian on the
  right; \<^verbatim>\<open>combinejac\<close> and \<^verbatim>\<open>propcov\<close> multiply with it on the left and get
  \<open>[[4, 6], [5, 6]]\<close>.
\<close>

theorem Poly_jac_not_partials:
  "Poly_init [0, 1] [0, 2] [] [1, 2, 3] [4, 5, 6] None None None None = Returned example_poly \<and>
   Poly_jac example_poly = [Mat2 4 6 5 6, Mat2 4 6 5 6] \<and>
   Poly_propcov example_poly [Mat2 1 0 0 1, Mat2 1 0 0 1] [0, 1] [0, 2]
     = Inr [Mat2 52 56 56 61, Mat2 52 56 56 61] \<and>
   partials (Poly_propxy_pt example_poly) 0 0 (Mat2 4 3 10 6) \<and>
   \<not> partials (Poly_propxy_pt example_poly) 0 0 (Mat2 4 6 5 6)"
proof -
  have "\<not> partials (Poly_propxy_pt example_poly) 0 0 (Mat2 4 6 5 6)"
  proof
    assume "partials (Poly_propxy_pt example_poly) 0 0 (Mat2 4 6 5 6)"
    then have a: "((\<lambda>v. fst (Poly_propxy_pt example_poly 0 v)) has_real_derivative 6) (at 0)"
      by (simp add: partials_def)
    have b: "((\<lambda>v. fst (Poly_propxy_pt example_poly 0 v)) has_real_derivative 3) (at 0)"
      using partials_example [of 0 0] by (simp add: partials_def)
    from DERIV_unique [OF a b] show False by simp
  qed
  moreover have "Poly_propcov example_poly [Mat2 1 0 0 1, Mat2 1 0 0 1] [0, 1] [0, 2]
     = Inr [Mat2 52 56 56 61, Mat2 52 56 56 61]"
    by (simp add: Poly_propcov_def example_poly_def Poly_rescalexy_def Poly_evaluatejacpoly_def
      polyval2d_def polyval2d_pt_def polyval_Nil polyval_Cons propagate_stack_def
      matmul_stack_def matmul2_def transpose2_def eval_nat_numeral)
  ultimately show ?thesis
    using partials_example [of 0 0] by (simp add: Poly_init_example) (simp add: example_poly_def)
qed


section \<open>Poly.updatetransf\<close>

lemma obind_Returned: "obind m f = Returned s' \<Longrightarrow> \<exists>s1. m = Returned s1 \<and> f s1 = Returned s'"
  by (cases m) auto

lemma Poly_setuppars_fields:
  assumes "Poly_setuppars s = Returned s'"
  shows "Poly_parsx s' = Poly_parsx s \<and> Poly_parsy s' = Poly_parsy s \<and>
         Poly_jacpoly s' = Poly_jacpoly s \<and> Poly_xr s' = Poly_xr s \<and> Poly_yr s' = Poly_yr s \<and>
         Poly_jacrescale s' = Poly_jacrescale s \<and> Poly_jac s' = Poly_jac s"
  using assms by (auto simp: Poly_setuppars_def split: outcome.splits)

lemma Poly_update2x_fields:
  assumes "Poly_update2x s p = Returned s'"
  shows "Poly_parsx s' = Poly_parsx s \<and> Poly_parsy s' = Poly_parsy s \<and>
         Poly_jacpoly s' = Poly_jacpoly s \<and> Poly_xr s' = Poly_xr s \<and> Poly_yr s' = Poly_yr s \<and>
         Poly_jacrescale s' = Poly_jacrescale s \<and> Poly_jac s' = Poly_jac s \<and>
         Poly_pars2y s' = Poly_pars2y s \<and>
         updatecoeffs (Poly_pars2x s) p = Returned (Poly_pars2x s')"
  using assms by (auto simp: Poly_update2x_def split: outcome.splits)

lemma Poly_update2y_fields:
  assumes "Poly_update2y s p = Returned s'"
  shows "Poly_parsx s' = Poly_parsx s \<and> Poly_parsy s' = Poly_parsy s \<and>
         Poly_jacpoly s' = Poly_jacpoly s \<and> Poly_xr s' = Poly_xr s \<and> Poly_yr s' = Poly_yr s \<and>
         Poly_jacrescale s' = Poly_jacrescale s \<and> Poly_jac s' = Poly_jac s \<and>
         Poly_pars2x s' = Poly_pars2x s \<and>
         updatecoeffs (Poly_pars2y s) p = Returned (Poly_pars2y s')"
  using assms by (auto simp: Poly_update2y_def split: outcome.splits)

lemma Poly_evaluatejacpoly_cong:
  assumes "Poly_cxx s = Poly_cxx t" "Poly_cxy s = Poly_cxy t" "Poly_cyx s = Poly_cyx t"
    "Poly_cyy s = Poly_cyy t"
  shows "Poly_evaluatejacpoly s xr yr = Poly_evaluatejacpoly t xr yr"
  unfolding Poly_evaluatejacpoly_def assms ..

lemma Poly_setderivcoeffs_fields:
  "Poly_parsx (Poly_setderivcoeffs s) = Poly_parsx s \<and>
   Poly_parsy (Poly_setderivcoeffs s) = Poly_parsy s \<and>
   Poly_jacpoly (Poly_setderivcoeffs s) = Poly_jacpoly s \<and>
   Poly_xr (Poly_setderivcoeffs s) = Poly_xr s \<and> Poly_yr (Poly_setderivcoeffs s) = Poly_yr s \<and>
   Poly_jacrescale (Poly_setderivcoeffs s) = Poly_jacrescale s \<and>
   Poly_jac (Poly_setderivcoeffs s) = Poly_jac s \<and>
   Poly_pars2x (Poly_setderivcoeffs s) = Poly_pars2x s \<and>
   Poly_pars2y (Poly_setderivcoeffs s) = Poly_pars2y s \<and>
   (Poly_cxx (Poly_setderivcoeffs s), Poly_cxy (Poly_setderivcoeffs s))
      = Poly_derivcoeffs (Polycoeffs_p2d (Poly_pars2x s)) \<and>
   (Poly_cyx (Poly_setderivcoeffs s), Poly_cyy (Poly_setderivcoeffs s))
      = Poly_derivcoeffs (Polycoeffs_p2d (Poly_pars2y s))"
  by (simp add: Poly_setderivcoeffs_def Let_def)

lemma Poly_populatejacpoly_fields:
  assumes "Poly_populatejacpoly s = Returned s'"
  shows "Poly_parsx s' = Poly_parsx s \<and> Poly_parsy s' = Poly_parsy s \<and>
         Poly_xr s' = Poly_xr s \<and> Poly_yr s' = Poly_yr s \<and>
         Poly_jacrescale s' = Poly_jacrescale s \<and> Poly_jac s' = Poly_jac s \<and>
         Poly_pars2x s' = Poly_pars2x s \<and> Poly_pars2y s' = Poly_pars2y s \<and>
         (Poly_jacpoly s = [] \<longrightarrow>
            Poly_jacpoly s' = [] \<and> Poly_cxx s' = Poly_cxx s \<and> Poly_cxy s' = Poly_cxy s \<and>
            Poly_cyx s' = Poly_cyx s \<and> Poly_cyy s' = Poly_cyy s) \<and>
         (Poly_jacpoly s \<noteq> [] \<longrightarrow>
            (Poly_cxx s', Poly_cxy s') = Poly_derivcoeffs (Polycoeffs_p2d (Poly_pars2x s)) \<and>
            (Poly_cyx s', Poly_cyy s') = Poly_derivcoeffs (Polycoeffs_p2d (Poly_pars2y s)) \<and>
            Poly_evaluatejacpoly s' (Poly_xr s) (Poly_yr s) = Inr (Poly_jacpoly s'))"
proof (cases "Poly_jacpoly s = []")
  case True
  with assms have "s' = s" by (simp add: Poly_populatejacpoly_def)
  with True show ?thesis by simp
next
  case False
  let ?t = "Poly_setderivcoeffs s"
  from False assms obtain J where J: "Poly_evaluatejacpoly ?t (Poly_xr ?t) (Poly_yr ?t) = Inr J"
    and s': "s' = ?t\<lparr>Poly_jacpoly := J\<rparr>"
    by (auto simp: Poly_populatejacpoly_def Let_def split: sum.splits)
  have "Poly_evaluatejacpoly s' (Poly_xr s) (Poly_yr s)
      = Poly_evaluatejacpoly ?t (Poly_xr ?t) (Poly_yr ?t)"
    unfolding s' using Poly_setderivcoeffs_fields [of s]
    by (simp add: Poly_evaluatejacpoly_cong [of "?t\<lparr>Poly_jacpoly := J\<rparr>" ?t])
  with J False show ?thesis
    unfolding s' using Poly_setderivcoeffs_fields [of s] by simp
qed

lemma Poly_combinejac_fields:
  "Poly_parsx (Poly_combinejac s) = Poly_parsx s \<and> Poly_parsy (Poly_combinejac s) = Poly_parsy s \<and>
   Poly_xr (Poly_combinejac s) = Poly_xr s \<and> Poly_yr (Poly_combinejac s) = Poly_yr s \<and>
   Poly_jacrescale (Poly_combinejac s) = Poly_jacrescale s \<and>
   Poly_jacpoly (Poly_combinejac s) = Poly_jacpoly s \<and>
   Poly_pars2x (Poly_combinejac s) = Poly_pars2x s \<and>
   Poly_pars2y (Poly_combinejac s) = Poly_pars2y s \<and>
   Poly_cxx (Poly_combinejac s) = Poly_cxx s \<and> Poly_cxy (Poly_combinejac s) = Poly_cxy s \<and>
   Poly_cyx (Poly_combinejac s) = Poly_cyx s \<and> Poly_cyy (Poly_combinejac s) = Poly_cyy s \<and>
   (Poly_jacpoly s \<noteq> [] \<longrightarrow>
      Poly_jac (Poly_combinejac s) = map (matmul2 (Poly_jacrescale s)) (Poly_jacpoly s))"
  by (simp add: Poly_combinejac_def)

lemma updatecoeffs_Returned:
  assumes "updatecoeffs c p = Returned c'" and "1 \<le> length p"
  shows "Polycoeffs_p c' = p \<and>
         (1 \<le> Polycoeffs_deg c \<longrightarrow>
            c' = c\<lparr>Polycoeffs_p := p,
                   Polycoeffs_p2d := fill2d (Polycoeffs_p2d c) (Polycoeffs_i c) (Polycoeffs_j c) p\<rparr>)"
  using assms
  by (auto simp: updatecoeffs_def updatecoeffs2d_def split: if_splits)


lemma Poly_updatetransf_Returned:
  assumes len: "2 \<le> length pars" and ret: "Poly_updatetransf s pars = Returned s'"
  shows "Poly_parsx s' = take (length pars div 2) pars \<and>
         Poly_parsy s' = drop (length pars div 2) pars \<and>
         Polycoeffs_p (Poly_pars2x s') = Poly_parsx s' \<and>
         Polycoeffs_p (Poly_pars2y s') = Poly_parsy s' \<and>
         (1 \<le> Polycoeffs_deg (Poly_pars2x s) \<longrightarrow>
            Poly_pars2x s' = (Poly_pars2x s)\<lparr>Polycoeffs_p := Poly_parsx s',
               Polycoeffs_p2d := fill2d (Polycoeffs_p2d (Poly_pars2x s))
                 (Polycoeffs_i (Poly_pars2x s)) (Polycoeffs_j (Poly_pars2x s)) (Poly_parsx s')\<rparr>) \<and>
         (0 \<le> Polycoeffs_deg (Poly_pars2x s) \<and> 1 \<le> Polycoeffs_deg (Poly_pars2y s) \<longrightarrow>
            Poly_pars2y s' = (Poly_pars2y s)\<lparr>Polycoeffs_p := Poly_parsy s',
               Polycoeffs_p2d := fill2d (Polycoeffs_p2d (Poly_pars2y s))
                 (Polycoeffs_i (Poly_pars2y s)) (Polycoeffs_j (Poly_pars2y s)) (Poly_parsy s')\<rparr>) \<and>
         (Poly_cxx s', Poly_cxy s') = Poly_derivcoeffs (Polycoeffs_p2d (Poly_pars2x s')) \<and>
         (Poly_cyx s', Poly_cyy s') = Poly_derivcoeffs (Polycoeffs_p2d (Poly_pars2y s')) \<and>
         (Poly_jacpoly s \<noteq> [] \<longrightarrow>
            Poly_evaluatejacpoly s' (Poly_xr s') (Poly_yr s') = Inr (Poly_jacpoly s')) \<and>
         (Poly_jacpoly s' \<noteq> [] \<longrightarrow>
            Poly_jac s' = map (matmul2 (Poly_jacrescale s')) (Poly_jacpoly s'))"
proof -
  let ?px = "take (length pars div 2) pars" and ?py = "drop (length pars div 2) pars"
  let ?s1 = "s\<lparr>Poly_parsx := ?px, Poly_parsy := ?py\<rparr>"
  have lx: "1 \<le> length ?px" and ly: "1 \<le> length ?py" using len by simp_all
  have split: "Poly_splitpars pars = (?px, ?py)" using len by (simp add: Poly_splitpars_def)
  from ret lx have ret': "obind (if Polycoeffs_deg (Poly_pars2x ?s1) < 0 then Poly_setuppars ?s1
                     else Returned ?s1) (\<lambda>s2.
              obind (Poly_update2x s2 ?px) (\<lambda>s3.
              obind (Poly_update2y s3 ?py) (\<lambda>s4.
              obind (Poly_populatejacpoly (Poly_setderivcoeffs s4)) (\<lambda>s5.
              Returned (Poly_combinejac s5))))) = Returned s'"
    unfolding Poly_updatetransf_def split Let_def fst_conv snd_conv by simp
  from obind_Returned [OF ret'] obtain s2 where
    s2: "(if Polycoeffs_deg (Poly_pars2x ?s1) < 0 then Poly_setuppars ?s1 else Returned ?s1) = Returned s2"
    and r2: "obind (Poly_update2x s2 ?px) (\<lambda>s3.
              obind (Poly_update2y s3 ?py) (\<lambda>s4.
              obind (Poly_populatejacpoly (Poly_setderivcoeffs s4)) (\<lambda>s5.
              Returned (Poly_combinejac s5)))) = Returned s'" by blast
  from obind_Returned [OF r2] obtain s3 where
    s3: "Poly_update2x s2 ?px = Returned s3"
    and r3: "obind (Poly_update2y s3 ?py) (\<lambda>s4.
              obind (Poly_populatejacpoly (Poly_setderivcoeffs s4)) (\<lambda>s5.
              Returned (Poly_combinejac s5))) = Returned s'" by blast
  from obind_Returned [OF r3] obtain s4 where
    s4: "Poly_update2y s3 ?py = Returned s4"
    and r4: "obind (Poly_populatejacpoly (Poly_setderivcoeffs s4)) (\<lambda>s5.
              Returned (Poly_combinejac s5)) = Returned s'" by blast
  from obind_Returned [OF r4] obtain s5 where
    s5: "Poly_populatejacpoly (Poly_setderivcoeffs s4) = Returned s5"
    and r5: "s' = Poly_combinejac s5" by auto
  have f2: "Poly_parsx s2 = ?px \<and> Poly_parsy s2 = ?py \<and> Poly_jacpoly s2 = Poly_jacpoly s \<and>
      Poly_xr s2 = Poly_xr s \<and> Poly_yr s2 = Poly_yr s \<and>
      Poly_jacrescale s2 = Poly_jacrescale s \<and>
      (0 \<le> Polycoeffs_deg (Poly_pars2x s) \<longrightarrow>
         Poly_pars2x s2 = Poly_pars2x s \<and> Poly_pars2y s2 = Poly_pars2y s)"
  proof (cases "Polycoeffs_deg (Poly_pars2x s) < 0")
    case True
    with s2 have "Poly_setuppars ?s1 = Returned s2" by simp
    from Poly_setuppars_fields [OF this] True show ?thesis by simp
  next
    case False
    with s2 have "s2 = ?s1" by simp
    then show ?thesis by simp
  qed
  note f3 = Poly_update2x_fields [OF s3]
  note f4 = Poly_update2y_fields [OF s4]
  note fd = Poly_setderivcoeffs_fields [of s4]
  note f5 = Poly_populatejacpoly_fields [OF s5]
  note f6 = Poly_combinejac_fields [of s5]
  from f3 have ux: "updatecoeffs (Poly_pars2x s2) ?px = Returned (Poly_pars2x s3)" by simp
  from f4 have uy: "updatecoeffs (Poly_pars2y s3) ?py = Returned (Poly_pars2y s4)" by simp
  note cx = updatecoeffs_Returned [OF ux lx]
  note cy = updatecoeffs_Returned [OF uy ly]
  have p1: "Poly_parsx s' = ?px" "Poly_parsy s' = ?py"
    using f2 f3 f4 fd f5 f6 by (simp_all add: r5)
  have p2x: "Poly_pars2x s' = Poly_pars2x s3" and p2y: "Poly_pars2y s' = Poly_pars2y s4"
    using f4 fd f5 f6 by (simp_all add: r5)
  have y3: "Poly_pars2y s3 = Poly_pars2y s2" using f3 by simp
  have c1: "(Poly_cxx s', Poly_cxy s') = Poly_derivcoeffs (Polycoeffs_p2d (Poly_pars2x s'))"
    "(Poly_cyx s', Poly_cyy s') = Poly_derivcoeffs (Polycoeffs_p2d (Poly_pars2y s'))"
    using f4 fd f5 f6 unfolding r5 by (cases "Poly_jacpoly s4 = []"; simp)+
  have jp: "Poly_jacpoly (Poly_setderivcoeffs s4) = Poly_jacpoly s"
    using f2 f3 f4 fd by simp
  have xr: "Poly_xr s' = Poly_xr (Poly_setderivcoeffs s4)" "Poly_yr s' = Poly_yr (Poly_setderivcoeffs s4)"
    using f5 f6 by (simp_all add: r5)
  have ev: "Poly_jacpoly s \<noteq> [] \<longrightarrow> Poly_evaluatejacpoly s' (Poly_xr s') (Poly_yr s') = Inr (Poly_jacpoly s')"
  proof
    assume ne: "Poly_jacpoly s \<noteq> []"
    with f5 jp have "Poly_evaluatejacpoly s5 (Poly_xr (Poly_setderivcoeffs s4)) (Poly_yr (Poly_setderivcoeffs s4))
        = Inr (Poly_jacpoly s5)" by simp
    moreover have "Poly_evaluatejacpoly s' (Poly_xr s') (Poly_yr s')
        = Poly_evaluatejacpoly s5 (Poly_xr s') (Poly_yr s')"
      unfolding r5 using f6 by (intro Poly_evaluatejacpoly_cong) simp_all
    ultimately show "Poly_evaluatejacpoly s' (Poly_xr s') (Poly_yr s') = Inr (Poly_jacpoly s')"
      using f6 xr by (simp add: r5)
  qed
  have jac: "Poly_jacpoly s' \<noteq> [] \<longrightarrow> Poly_jac s' = map (matmul2 (Poly_jacrescale s')) (Poly_jacpoly s')"
    using f6 by (simp add: r5)
  show ?thesis
    using p1 p2x p2y cx cy c1 ev jac f2 y3 by simp
qed



lemma fill2d_linear:
  "fill2d [[a0, c0], [b0, z]] [0, Suc 0, 0] [0, 0, Suc 0] [a] = [[a, c0], [b0, z]]"
  "fill2d [[a0, c0], [b0, z]] [0, Suc 0, 0] [0, 0, Suc 0] [a, b] = [[a, c0], [b, z]]"
  "fill2d [[a0, c0], [b0, z]] [0, Suc 0, 0] [0, 0, Suc 0] [a, b, c] = [[a, c], [b, z]]"
  by (simp_all add: fill2d_def put2d_def eval_nat_numeral)

lemma fill2d_ok_linear:
  "fill2d_ok [[a0, c0], [b0, z]] [0, Suc 0, 0] [0, 0, Suc 0] [a]"
  "fill2d_ok [[a0, c0], [b0, z]] [0, Suc 0, 0] [0, 0, Suc 0] [a, b]"
  "fill2d_ok [[a0, c0], [b0, z]] [0, Suc 0, 0] [0, 0, Suc 0] [a, b, c]"
  by (simp_all add: fill2d_ok_def eval_nat_numeral)

lemma evaluatejacpoly_linear:
  assumes "Poly_cxx s = [[a, 0], [0, 0]]" "Poly_cxy s = [[b, 0], [0, 0]]"
    "Poly_cyx s = [[c, 0], [0, 0]]" "Poly_cyy s = [[d, 0], [0, 0]]"
  shows "Poly_evaluatejacpoly s [u1, u2] [v1, v2] = Inr [Mat2 a b c d, Mat2 a b c d]"
  by (simp add: Poly_evaluatejacpoly_def assms polyval2d_def polyval2d_pt_def polyval_Nil
      polyval_Cons eval_nat_numeral)

lemmas updatetransf_eval =
  Poly_updatetransf_def Poly_splitpars_def Poly_update2x_def Poly_update2y_def updatecoeffs_def
  updatecoeffs2d_def fill2d_ok_linear fill2d_linear Poly_setderivcoeffs_def
  Poly_derivcoeffs_linear Poly_populatejacpoly_def evaluatejacpoly_linear
  Poly_combinejac_def matmul2_def Let_def

text \<open>
  \<^verbatim>\<open>splitpars\<close> has no guard for an odd count: three entries are cut at
  \<open>int(3/2) = 1\<close>, and the arrays keep the old entries that the shorter vectors do not
  reach. The statement of claim C7 below leaves odd counts out.
\<close>

lemma Poly_updatetransf_example_odd:
  "Poly_updatetransf example_poly [7, 8, 9] =
     Returned (example_poly
       \<lparr>Poly_parsx := [7], Poly_parsy := [8, 9],
        Poly_cxx := [[2, 0], [0, 0]], Poly_cxy := [[3, 0], [0, 0]],
        Poly_cyx := [[9, 0], [0, 0]], Poly_cyy := [[6, 0], [0, 0]],
        Poly_pars2x := \<lparr>Polycoeffs_p = [7], Polycoeffs_p2d = [[7, 3], [2, 0]],
                        Polycoeffs_deg = 1, Polycoeffs_i = [0, 1, 0], Polycoeffs_j = [0, 0, 1]\<rparr>,
        Poly_pars2y := \<lparr>Polycoeffs_p = [8, 9], Polycoeffs_p2d = [[8, 6], [9, 0]],
                        Polycoeffs_deg = 1, Polycoeffs_i = [0, 1, 0], Polycoeffs_j = [0, 0, 1]\<rparr>,
        Poly_jacpoly := [Mat2 2 3 9 6, Mat2 2 3 9 6],
        Poly_jac := [Mat2 4 6 9 6, Mat2 4 6 9 6]\<rparr>)"
  by (simp add: updatetransf_eval example_poly_def)




section \<open>The index pairs of ijfromdeg and the array that Polycoeffs fills\<close>

text \<open>
  The loop of \<^verbatim>\<open>ijfromdeg\<close> lists every pair \<open>(i, j)\<close> with \<open>i + j \<le> d\<close> once, by
  total degree; so the indexed assignment of \<^verbatim>\<open>updatecoeffs2d\<close> writes every coefficient
  to a place of its own, inside the triangle.
\<close>

lemma ijloop_length: "length (fst (ijloop n)) = length (snd (ijloop n))"
  by (induction n) (simp_all add: Let_def)

lemma ijloop_polylen: "length (fst (ijloop (Suc d))) = polylen d"
proof (induction d)
  case 0
  show ?case by (simp add: polylen_def Let_def)
next
  case (Suc d)
  have "2 * polylen (Suc d) = 2 * polylen d + 2 * (d + 2)"
    unfolding polylen_double by simp
  then have "polylen (Suc d) = polylen d + (d + 2)" by simp
  moreover have "length (fst (ijloop (Suc (Suc d)))) = length (fst (ijloop (Suc d))) + (d + 2)"
    by (simp add: Let_def)
  ultimately show ?case using Suc by simp
qed

lemma zip_rev_upt: "zip (rev [0..<m]) [0..<m] = map (\<lambda>j. (m - 1 - j, j)) [0..<m]"
  by (rule nth_equalityI) (simp_all add: rev_nth)

lemma ijpairs_Suc:
  "zip (fst (ijloop (Suc n))) (snd (ijloop (Suc n)))
     = zip (fst (ijloop n)) (snd (ijloop n)) @ map (\<lambda>j. (n - j, j)) [0..<n + 1]"
proof -
  have "zip (fst (ijloop (Suc n))) (snd (ijloop (Suc n)))
      = zip (fst (ijloop n)) (snd (ijloop n)) @ zip (rev [0..<n + 1]) [0..<n + 1]"
    using zip_append [OF ijloop_length [of n]] by (simp add: Let_def)
  then show ?thesis using zip_rev_upt [of "n + 1"] by simp
qed

lemma diagonal_image: "(\<lambda>j. (n - j, j)) ` {0..<n + 1} = {p. fst p + snd p = (n::nat)}"
proof (rule set_eqI)
  fix p :: "nat \<times> nat"
  show "p \<in> (\<lambda>j. (n - j, j)) ` {0..<n + 1} \<longleftrightarrow> p \<in> {p. fst p + snd p = n}"
  proof
    assume "p \<in> (\<lambda>j. (n - j, j)) ` {0..<n + 1}"
    then obtain j where "j < n + 1" and "p = (n - j, j)" by auto
    then show "p \<in> {p. fst p + snd p = n}" by simp
  next
    assume "p \<in> {p. fst p + snd p = n}"
    then have e: "p = (n - snd p, snd p)" and l: "snd p \<in> {0..<n + 1}"
      by (auto simp: prod_eq_iff)
    show "p \<in> (\<lambda>j. (n - j, j)) ` {0..<n + 1}"
      by (subst e) (rule imageI [OF l])
  qed
qed

lemma ijpairs_set: "set (zip (fst (ijloop n)) (snd (ijloop n))) = {p. fst p + snd p < n}"
proof (induction n)
  case 0
  show ?case by simp
next
  case (Suc n)
  have "set (zip (fst (ijloop (Suc n))) (snd (ijloop (Suc n))))
      = {p. fst p + snd p < n} \<union> {p. fst p + snd p = n}"
    unfolding ijpairs_Suc set_append Suc set_map set_upt diagonal_image ..
  also have "\<dots> = {p. fst p + snd p < Suc n}" by auto
  finally show ?case .
qed

lemma ijpairs_distinct: "distinct (zip (fst (ijloop n)) (snd (ijloop n)))"
proof (induction n)
  case 0
  show ?case by simp
next
  case (Suc n)
  have "inj_on (\<lambda>j. (n - j, j)) (set [0..<n + 1])"
    by (rule inj_onI) simp
  then have d: "distinct (map (\<lambda>j. (n - j, j)) [0..<n + 1])"
    by (simp only: distinct_map distinct_upt simp_thms)
  have "set (zip (fst (ijloop n)) (snd (ijloop n))) \<inter> set (map (\<lambda>j. (n - j, j)) [0..<n + 1]) = {}"
    unfolding ijpairs_set set_map set_upt diagonal_image by auto
  with Suc d show ?case
    unfolding ijpairs_Suc by (simp only: distinct_append simp_thms)
qed

lemma triangular_iff:
  "triangular d A \<longleftrightarrow>
     length A = d + 1 \<and> (\<forall>r<d + 1. length (A ! r) = d + 1) \<and>
     (\<forall>r c. r < d + 1 \<longrightarrow> c < d + 1 \<longrightarrow> d < r + c \<longrightarrow> A ! r ! c = 0)"
proof -
  have a: "list_all (\<lambda>row. length row = d + 1) A \<longleftrightarrow> (\<forall>r<length A. length (A ! r) = d + 1)"
    by (simp add: list_all_length)
  have b: "list_all (\<lambda>p. fst p + snd p \<le> d \<or> A ! fst p ! snd p = 0)
             (List.product [0..<d + 1] [0..<d + 1])
        \<longleftrightarrow> (\<forall>r c. r < d + 1 \<longrightarrow> c < d + 1 \<longrightarrow> d < r + c \<longrightarrow> A ! r ! c = 0)"
  proof
    assume L: "list_all (\<lambda>p. fst p + snd p \<le> d \<or> A ! fst p ! snd p = 0)
             (List.product [0..<d + 1] [0..<d + 1])"
    show "\<forall>r c. r < d + 1 \<longrightarrow> c < d + 1 \<longrightarrow> d < r + c \<longrightarrow> A ! r ! c = 0"
    proof (intro allI impI)
      fix r c assume "r < d + 1" "c < d + 1" and far: "d < r + c"
      then have "(r, c) \<in> set (List.product [0..<d + 1] [0..<d + 1])"
        unfolding set_product set_upt by simp
      with L have "fst (r, c) + snd (r, c) \<le> d \<or> A ! fst (r, c) ! snd (r, c) = 0"
        unfolding list_all_iff by blast
      with far show "A ! r ! c = 0" by simp
    qed
  next
    assume R: "\<forall>r c. r < d + 1 \<longrightarrow> c < d + 1 \<longrightarrow> d < r + c \<longrightarrow> A ! r ! c = 0"
    show "list_all (\<lambda>p. fst p + snd p \<le> d \<or> A ! fst p ! snd p = 0)
             (List.product [0..<d + 1] [0..<d + 1])"
      unfolding list_all_iff
    proof
      fix p assume "p \<in> set (List.product [0..<d + 1] [0..<d + 1])"
      then have "fst p < d + 1" "snd p < d + 1"
        unfolding set_product set_upt by auto
      with R show "fst p + snd p \<le> d \<or> A ! fst p ! snd p = 0"
        by (cases "d < fst p + snd p") auto
    qed
  qed
  show ?thesis
    unfolding triangular_def a b by auto
qed

lemma put2d_length: "length (put2d a r c v) = length a"
  by (simp add: put2d_def)

lemma put2d_row:
  "r < length a \<Longrightarrow> put2d a r c v ! r' = (if r' = r then (a ! r)[c := v] else a ! r')"
  by (simp add: put2d_def nth_list_update)

lemma fill_steps:
  assumes rng: "\<And>k. k < n \<Longrightarrow> iv ! k < length a \<and> jv ! k < length (a ! (iv ! k))"
    and dist: "\<And>k l. k < n \<Longrightarrow> l < n \<Longrightarrow> iv ! k = iv ! l \<Longrightarrow> jv ! k = jv ! l \<Longrightarrow> k = l"
    and m: "m \<le> n"
  shows "length (fold (\<lambda>k b. put2d b (iv ! k) (jv ! k) (p ! k)) [0..<m] a) = length a \<and>
     (\<forall>r. length (fold (\<lambda>k b. put2d b (iv ! k) (jv ! k) (p ! k)) [0..<m] a ! r) = length (a ! r)) \<and>
     (\<forall>k<m. fold (\<lambda>k b. put2d b (iv ! k) (jv ! k) (p ! k)) [0..<m] a ! (iv ! k) ! (jv ! k) = p ! k) \<and>
     (\<forall>r c. (\<forall>k<m. iv ! k \<noteq> r \<or> jv ! k \<noteq> c) \<longrightarrow>
        fold (\<lambda>k b. put2d b (iv ! k) (jv ! k) (p ! k)) [0..<m] a ! r ! c = a ! r ! c)"
  using m
proof (induction m)
  case 0
  show ?case by simp
next
  case (Suc m)
  define b where "b = fold (\<lambda>k b. put2d b (iv ! k) (jv ! k) (p ! k)) [0..<m] a"
  have step: "fold (\<lambda>k b. put2d b (iv ! k) (jv ! k) (p ! k)) [0..<Suc m] a
      = put2d b (iv ! m) (jv ! m) (p ! m)"
    by (simp add: b_def)
  from Suc have mn: "m < n" and IH: "length b = length a" "\<And>r. length (b ! r) = length (a ! r)"
    "\<And>k. k < m \<Longrightarrow> b ! (iv ! k) ! (jv ! k) = p ! k"
    "\<And>r c. (\<forall>k<m. iv ! k \<noteq> r \<or> jv ! k \<noteq> c) \<Longrightarrow> b ! r ! c = a ! r ! c"
    unfolding b_def [symmetric] by simp_all
  from rng [OF mn] IH have r: "iv ! m < length b" and c: "jv ! m < length (b ! (iv ! m))"
    by simp_all
  note row = put2d_row [OF r]
  have l1: "length (put2d b (iv ! m) (jv ! m) (p ! m)) = length a"
    by (simp add: put2d_length IH)
  have l2: "length (put2d b (iv ! m) (jv ! m) (p ! m) ! r) = length (a ! r)" for r
    by (simp add: row IH)
  have v: "put2d b (iv ! m) (jv ! m) (p ! m) ! (iv ! k) ! (jv ! k) = p ! k" if k: "k < Suc m" for k
  proof (cases "k = m")
    case True
    with c show ?thesis by (simp add: row)
  next
    case False
    with k have km: "k < m" by simp
    then have kn: "k < n" using mn by simp
    have "iv ! k \<noteq> iv ! m \<or> jv ! k \<noteq> jv ! m"
      using dist [OF kn mn] False by blast
    then show ?thesis
      using IH(3) [OF km] by (auto simp: row)
  qed
  have u: "put2d b (iv ! m) (jv ! m) (p ! m) ! r ! c = a ! r ! c"
    if "\<forall>k<Suc m. iv ! k \<noteq> r \<or> jv ! k \<noteq> c" for r c
  proof -
    from that have "iv ! m \<noteq> r \<or> jv ! m \<noteq> c" and "\<forall>k<m. iv ! k \<noteq> r \<or> jv ! k \<noteq> c"
      by simp_all
    then show ?thesis using IH(4) [of r c] by (auto simp: row)
  qed
  show ?case
    unfolding step using l1 l2 v u by blast
qed

lemma fill2d_ij:
  assumes tri: "triangular d a" and len: "length p = polylen d"
  shows "fill2d_ok a (fst (ijloop (Suc d))) (snd (ijloop (Suc d))) p"
    and "triangular d (fill2d a (fst (ijloop (Suc d))) (snd (ijloop (Suc d))) p)"
    and "readback (fill2d a (fst (ijloop (Suc d))) (snd (ijloop (Suc d))) p) (ijloop (Suc d)) = p"
    and "\<And>r c k. k < polylen d \<Longrightarrow> fst (ijloop (Suc d)) ! k = r \<Longrightarrow>
           snd (ijloop (Suc d)) ! k = c \<Longrightarrow>
           fill2d a (fst (ijloop (Suc d))) (snd (ijloop (Suc d))) p ! r ! c = p ! k"
proof -
  define iv where "iv = fst (ijloop (Suc d))"
  define jv where "jv = snd (ijloop (Suc d))"
  define n where "n = polylen d"
  have li: "length iv = n" and lj: "length jv = n"
    using ijloop_polylen [of d] ijloop_length [of "Suc d"] by (simp_all add: iv_def jv_def n_def)
  have lz: "length (zip iv jv) = n" using li lj by simp
  have nth: "zip iv jv ! k = (iv ! k, jv ! k)" if "k < n" for k
    using that li lj by simp
  have mem: "iv ! k + jv ! k \<le> d" if k: "k < n" for k
  proof -
    have "zip iv jv ! k \<in> set (zip iv jv)" using k lz by (simp only: nth_mem)
    then have "zip iv jv ! k \<in> {p. fst p + snd p < Suc d}"
      unfolding iv_def jv_def ijpairs_set .
    then have "(iv ! k, jv ! k) \<in> {p. fst p + snd p < Suc d}"
      by (simp only: nth [OF k])
    then show ?thesis by simp
  qed
  from tri have rows: "length a = d + 1" and cols: "\<And>r. r < d + 1 \<Longrightarrow> length (a ! r) = d + 1"
    and zero: "\<And>r c. r < d + 1 \<Longrightarrow> c < d + 1 \<Longrightarrow> d < r + c \<Longrightarrow> a ! r ! c = 0"
    unfolding triangular_iff by blast+
  have rng: "iv ! k < length a \<and> jv ! k < length (a ! (iv ! k))" if k: "k < n" for k
    using mem [OF k] rows cols [of "iv ! k"] by simp
  have dist: "k = l" if "k < n" "l < n" "iv ! k = iv ! l" "jv ! k = jv ! l" for k l
  proof -
    have dz: "distinct (zip iv jv)" unfolding iv_def jv_def by (rule ijpairs_distinct)
    have e: "zip iv jv ! k = zip iv jv ! l" using that nth by simp
    have "k < length (zip iv jv)" "l < length (zip iv jv)" using that lz by simp_all
    from nth_eq_iff_index_eq [OF dz this] e show ?thesis by blast
  qed
  have F: "fill2d a iv jv p = fold (\<lambda>k b. put2d b (iv ! k) (jv ! k) (p ! k)) [0..<n] a"
    by (simp add: fill2d_def len n_def)
  note st = fill_steps [of n iv a jv n p, OF rng dist le_refl, folded F]
  from st have fl: "length (fill2d a iv jv p) = length a"
    and fr: "\<And>r. length (fill2d a iv jv p ! r) = length (a ! r)"
    and fv: "\<And>k. k < n \<Longrightarrow> fill2d a iv jv p ! (iv ! k) ! (jv ! k) = p ! k"
    and fu: "\<And>r c. (\<forall>k<n. iv ! k \<noteq> r \<or> jv ! k \<noteq> c) \<Longrightarrow> fill2d a iv jv p ! r ! c = a ! r ! c"
    by blast+
  show "fill2d_ok a iv jv p"
    unfolding fill2d_ok_def list_all_iff using rng li lj by (simp add: len n_def)
  show "triangular d (fill2d a iv jv p)"
    unfolding triangular_iff
  proof (intro conjI allI impI)
    show "length (fill2d a iv jv p) = d + 1" using fl rows by simp
  next
    fix r assume "r < d + 1"
    then show "length (fill2d a iv jv p ! r) = d + 1" using fr cols by simp
  next
    fix r c assume r: "r < d + 1" and c: "c < d + 1" and far: "d < r + c"
    have "\<forall>k<n. iv ! k \<noteq> r \<or> jv ! k \<noteq> c"
      using mem far by fastforce
    from fu [OF this] zero [OF r c far] show "fill2d a iv jv p ! r ! c = 0" by simp
  qed
  show "readback (fill2d a iv jv p) (ijloop (Suc d)) = p"
    unfolding readback_def iv_def [symmetric] jv_def [symmetric]
    by (rule nth_equalityI) (simp_all add: li len n_def fv)
  show "\<And>r c k. k < polylen d \<Longrightarrow> iv ! k = r \<Longrightarrow> jv ! k = c \<Longrightarrow>
           fill2d a iv jv p ! r ! c = p ! k"
    using fv by (auto simp: n_def)
qed

lemma ijfromdeg_nat: "ijfromdeg (int d) = ijloop (Suc d)"
proof -
  have "nat (int d + 1) = Suc d" by simp
  then show ?thesis unfolding ijfromdeg_def by (rule arg_cong)
qed

lemma ijpairs_cover:
  assumes "r + c \<le> d"
  shows "\<exists>k<polylen d. fst (ijloop (Suc d)) ! k = r \<and> snd (ijloop (Suc d)) ! k = c"
proof -
  let ?z = "zip (fst (ijloop (Suc d))) (snd (ijloop (Suc d)))"
  have lz: "length ?z = polylen d"
    using ijloop_polylen [of d] ijloop_length [of "Suc d"] by simp
  from assms have "(r, c) \<in> {p. fst p + snd p < Suc d}" by simp
  then have "(r, c) \<in> set ?z" by (simp only: ijpairs_set)
  then obtain k where k: "k < length ?z" and e: "?z ! k = (r, c)"
    unfolding in_set_conv_nth by blast
  from k have "?z ! k = (fst (ijloop (Suc d)) ! k, snd (ijloop (Suc d)) ! k)" by simp
  with e k lz show ?thesis by auto
qed

lemma triangular_zeros: "triangular d (replicate (d + 1) (replicate (d + 1) 0))"
  unfolding triangular_iff by (simp del: replicate_Suc)

lemma fill2d_same:
  assumes a: "triangular d a" and b: "triangular d b" and len: "length p = polylen d"
  shows "fill2d a (fst (ijloop (Suc d))) (snd (ijloop (Suc d))) p
       = fill2d b (fst (ijloop (Suc d))) (snd (ijloop (Suc d))) p"
proof -
  let ?A = "fill2d a (fst (ijloop (Suc d))) (snd (ijloop (Suc d))) p"
  let ?B = "fill2d b (fst (ijloop (Suc d))) (snd (ijloop (Suc d))) p"
  note ta = fill2d_ij(2) [OF a len] and tb = fill2d_ij(2) [OF b len]
  have la: "length ?A = d + 1" and ra: "\<And>r. r < d + 1 \<Longrightarrow> length (?A ! r) = d + 1"
    and za: "\<And>r c. r < d + 1 \<Longrightarrow> c < d + 1 \<Longrightarrow> d < r + c \<Longrightarrow> ?A ! r ! c = 0"
    using ta unfolding triangular_iff by blast+
  have lb: "length ?B = d + 1" and rb: "\<And>r. r < d + 1 \<Longrightarrow> length (?B ! r) = d + 1"
    and zb: "\<And>r c. r < d + 1 \<Longrightarrow> c < d + 1 \<Longrightarrow> d < r + c \<Longrightarrow> ?B ! r ! c = 0"
    using tb unfolding triangular_iff by blast+
  show ?thesis
  proof (rule nth_equalityI)
    show "length ?A = length ?B" using la lb by simp
  next
    fix r assume "r < length ?A"
    then have r: "r < d + 1" using la by simp
    show "?A ! r = ?B ! r"
    proof (rule nth_equalityI)
      show "length (?A ! r) = length (?B ! r)" using ra [OF r] rb [OF r] by simp
    next
      fix c assume "c < length (?A ! r)"
      then have c: "c < d + 1" using ra [OF r] by simp
      show "?A ! r ! c = ?B ! r ! c"
      proof (cases "r + c \<le> d")
        case True
        from ijpairs_cover [OF True] obtain k where k: "k < polylen d"
          and i: "fst (ijloop (Suc d)) ! k = r" and j: "snd (ijloop (Suc d)) ! k = c" by blast
        from fill2d_ij(4) [OF a len k i j] fill2d_ij(4) [OF b len k i j]
        show ?thesis by simp
      next
        case False
        then have "d < r + c" by simp
        from za [OF r c this] zb [OF r c this] show ?thesis by simp
      qed
    qed
  qed
qed

lemma Polycoeffs_init_valid:
  assumes d: "1 \<le> d" and len: "length p = polylen d"
  shows "Polycoeffs_init p =
     Returned \<lparr>Polycoeffs_p = p,
       Polycoeffs_p2d = fill2d (replicate (d + 1) (replicate (d + 1) 0))
                          (fst (ijloop (Suc d))) (snd (ijloop (Suc d))) p,
       Polycoeffs_deg = int d, Polycoeffs_i = fst (ijloop (Suc d)),
       Polycoeffs_j = snd (ijloop (Suc d))\<rparr>"
proof -
  let ?s0 = "\<lparr>Polycoeffs_p = p, Polycoeffs_p2d = [], Polycoeffs_deg = - 1,
        Polycoeffs_i = [], Polycoeffs_j = []\<rparr>"
  have a: "assigndeg ?s0 = ?s0\<lparr>Polycoeffs_deg := int d\<rparr>"
    by (simp add: assigndeg_def len degfromcoeffs_polylen pyint_of_nat Let_def)
  have n: "nat (int d + 1) = Suc d" by simp
  have b: "initcoeffs2d (assignij (assigndeg ?s0)) =
      \<lparr>Polycoeffs_p = p, Polycoeffs_p2d = replicate (d + 1) (replicate (d + 1) 0),
       Polycoeffs_deg = int d, Polycoeffs_i = fst (ijloop (Suc d)),
       Polycoeffs_j = snd (ijloop (Suc d))\<rparr>"
    unfolding a by (simp add: assignij_def initcoeffs2d_def ijfromdeg_nat n)
  have ok: "fill2d_ok (replicate (d + 1) (replicate (d + 1) 0))
      (fst (ijloop (Suc d))) (snd (ijloop (Suc d))) p"
    by (rule fill2d_ij(1) [OF triangular_zeros len])
  show ?thesis
    unfolding Polycoeffs_init_def b using d ok by (simp add: updatecoeffs2d_def)
qed

lemma Polycoeffs_init_degree:
  assumes d: "1 \<le> d" and len: "length p = polylen d"
  shows "Polycoeffs_degree d (state_of (Polycoeffs_init p))"
    and "readback (Polycoeffs_p2d (state_of (Polycoeffs_init p))) (ijfromdeg (int d)) = p"
    and "Polycoeffs_p (state_of (Polycoeffs_init p)) = p"
  unfolding Polycoeffs_init_valid [OF d len] Polycoeffs_degree_def ijfromdeg_nat
  using fill2d_ij(2,3) [OF triangular_zeros len] by simp_all

lemma updatecoeffs_valid:
  assumes d: "1 \<le> d" and c: "Polycoeffs_degree d c" and len: "length p = polylen d"
  shows "updatecoeffs c p =
     Returned (c\<lparr>Polycoeffs_p := p,
                 Polycoeffs_p2d := Polycoeffs_p2d (state_of (Polycoeffs_init p))\<rparr>)"
    and "Polycoeffs_degree d (c\<lparr>Polycoeffs_p := p,
                 Polycoeffs_p2d := Polycoeffs_p2d (state_of (Polycoeffs_init p))\<rparr>)"
proof -
  from c have deg: "Polycoeffs_deg c = int d" and i: "Polycoeffs_i c = fst (ijloop (Suc d))"
    and j: "Polycoeffs_j c = snd (ijloop (Suc d))" and tri: "triangular d (Polycoeffs_p2d c)"
    unfolding Polycoeffs_degree_def ijfromdeg_nat by simp_all
  have ne: "\<not> length p < 1" using len polylen_gt [of d] by simp
  have ok: "fill2d_ok (Polycoeffs_p2d c) (fst (ijloop (Suc d))) (snd (ijloop (Suc d))) p"
    by (rule fill2d_ij(1) [OF tri len])
  have same: "fill2d (Polycoeffs_p2d c) (fst (ijloop (Suc d))) (snd (ijloop (Suc d))) p
      = Polycoeffs_p2d (state_of (Polycoeffs_init p))"
    unfolding Polycoeffs_init_valid [OF d len]
    using fill2d_same [OF tri triangular_zeros len] by simp
  show "updatecoeffs c p =
     Returned (c\<lparr>Polycoeffs_p := p,
                 Polycoeffs_p2d := Polycoeffs_p2d (state_of (Polycoeffs_init p))\<rparr>)"
    unfolding updatecoeffs_def updatecoeffs2d_def using ne d ok
    by (simp add: deg i j same del: ijloop.simps)
  show "Polycoeffs_degree d (c\<lparr>Polycoeffs_p := p,
                 Polycoeffs_p2d := Polycoeffs_p2d (state_of (Polycoeffs_init p))\<rparr>)"
    using c Polycoeffs_init_degree(1) [OF d len] by (simp add: Polycoeffs_degree_def)
qed

section \<open>Parameter vectors that Parvec accepts\<close>

text \<open>
  A vector with the tangent point and twice \<open>(d+1)(d+2)/2\<close> coefficients is split in
  two; with one coefficient less on each side, a zero is put in front of both halves.
\<close>

lemma polylen_Suc: "polylen (Suc d) = polylen d + d + 2"
proof -
  have "2 * polylen (Suc d) = 2 * (polylen d + d + 2)"
    unfolding distrib_left polylen_double by simp
  then show ?thesis by simp
qed

lemma polylen_mono: "d \<le> e \<Longrightarrow> polylen d \<le> polylen e"
  by (induction e) (auto simp: polylen_Suc le_Suc_eq)

lemma not_polylen_pred:
  assumes "1 \<le> d"
  shows "\<not> is_polylen (polylen d - 1)"
proof
  assume "is_polylen (polylen d - 1)"
  then obtain e where e: "polylen d - 1 = polylen e" by (auto simp: is_polylen_iff)
  from assms obtain d' where d': "d = Suc d'" by (cases d) auto
  have v: "polylen d - 1 = polylen d' + d' + 1" by (simp add: d' polylen_Suc)
  show False
  proof (cases "e \<le> d'")
    case True
    from polylen_mono [OF this] e v show False by simp
  next
    case False
    then have "d \<le> e" by (simp add: d')
    from polylen_mono [OF this] e polylen_gt [of d] show False by simp
  qed
qed

lemma is_polylen_polylen: "is_polylen (polylen d)"
  by (auto simp: is_polylen_iff)

lemma polylen_ge3: "1 \<le> d \<Longrightarrow> 3 \<le> polylen d"
  using polylen_mono [of 1 d] by (simp add: polylen_def)

lemma Parvec_init_valid:
  assumes d: "1 \<le> d" and len: "length pars = 2 + 2 * polylen d"
  shows "Parvec_init pars =
     Returned \<lparr>Parvec_hasxy0 = True,
               Parvec_inds1d_6term = [0, 2, 3, 1, polylen d + 2, polylen d + 3],
               Parvec_parsx = take (polylen d) (drop 2 pars),
               Parvec_parsy = drop (polylen d) (drop 2 pars),
               Parvec_tangentpoint = take 2 pars\<rparr>"
proof -
  have l3: "3 \<le> length pars" using len polylen_ge3 [OF d] by simp
  have ev: "(length pars - 2) mod 2 = 0" using len by simp
  have m: "(length pars - 2) div 2 = polylen d" using len by simp
  show ?thesis
    unfolding Parvec_init_def ingestpars_even [OF l3 ev] m Let_def
    by (simp add: is_polylen_polylen)
qed

lemma Parvec_init_valid_noconst:
  assumes d: "1 \<le> d" and len: "length pars = 2 * polylen d"
  shows "Parvec_init pars =
     Returned \<lparr>Parvec_hasxy0 = False,
               Parvec_inds1d_6term = [0, 2, 3, 1, polylen d - 1 + 2, polylen d - 1 + 3],
               Parvec_parsx = 0 # take (polylen d - 1) (drop 2 pars),
               Parvec_parsy = 0 # drop (polylen d - 1) (drop 2 pars),
               Parvec_tangentpoint = take 2 pars\<rparr>"
proof -
  note g = polylen_ge3 [OF d]
  have l3: "3 \<le> length pars" using len g by simp
  have ev: "(length pars - 2) mod 2 = 0" using len g by presburger
  have m: "(length pars - 2) div 2 = polylen d - 1" using len g by presburger
  have p: "is_polylen (polylen d - 1 + 1)" using g is_polylen_polylen [of d] by simp
  show ?thesis
    unfolding Parvec_init_def ingestpars_even [OF l3 ev] m Let_def
    using not_polylen_pred [OF d] p by simp
qed

section \<open>Poly.updatetransf and Poly.tranpos on an instance of one degree\<close>

lemma polyval2d_rect:
  assumes "c \<noteq> []" and "\<And>row. row \<in> set c \<Longrightarrow> row \<noteq> []" and "length xs = length ys"
  shows "polyval2d xs ys c = Inr (map (polyval2d_pt c) (zip xs ys))"
  using assms by (auto simp: polyval2d_def list_ex_iff)

lemma triangular_rect:
  assumes "triangular d A"
  shows "A \<noteq> []" and "\<And>row. row \<in> set A \<Longrightarrow> length row = d + 1"
  using assms by (auto simp: triangular_def list_all_iff)

lemma polyval2d_triangular:
  assumes "triangular d A" and "length xs = length ys"
  shows "polyval2d xs ys A = Inr (map (polyval2d_pt A) (zip xs ys))"
proof (rule polyval2d_rect [OF triangular_rect(1) [OF assms(1)] _ assms(2)])
  fix row assume "row \<in> set A"
  from triangular_rect(2) [OF assms(1) this] show "row \<noteq> []" by auto
qed

lemma derivcoeffs_rect:
  assumes tri: "triangular d A" and d: "1 \<le> d"
  shows "fst (Poly_derivcoeffs A) \<noteq> []" "\<And>row. row \<in> set (fst (Poly_derivcoeffs A)) \<Longrightarrow> row \<noteq> []"
    "snd (Poly_derivcoeffs A) \<noteq> []" "\<And>row. row \<in> set (snd (Poly_derivcoeffs A)) \<Longrightarrow> row \<noteq> []"
proof -
  from tri have len: "length A = d + 1" and rows: "\<And>r. r < d + 1 \<Longrightarrow> length (A ! r) = d + 1"
    unfolding triangular_iff by blast+
  have gt: "\<not> length A \<le> 1" using len d by simp
  define B where "B = map (\<lambda>k. map (\<lambda>v. real (k + 1) * v) (A ! (k + 1))) [0..<length A - 1]"
  have ax0: "polyder_axis0 A = B" using gt by (simp add: polyder_axis0_def B_def)
  have lB: "length B = d" by (simp add: B_def len)
  have rB: "length (B ! k) = d + 1" if "k < d" for k
    using that rows [of "k + 1"] by (simp add: B_def len)
  have Bne: "B \<noteq> []" using lB d by auto
  then obtain b0 bs where B: "B = b0 # bs" by (cases B) auto
  have "length b0 = d + 1" using rB [of 0] d B by simp
  then have pr: "pad_row B = B @ [replicate (d + 1) 0]" by (simp add: pad_row_def B)
  show "fst (Poly_derivcoeffs A) \<noteq> []"
    by (simp add: Poly_derivcoeffs_def pad_row_def)
  show "row \<noteq> []" if "row \<in> set (fst (Poly_derivcoeffs A))" for row
  proof -
    from that have "row \<in> set B \<or> row = replicate (d + 1) 0"
      by (auto simp: Poly_derivcoeffs_def ax0 pr)
    then show ?thesis
    proof
      assume "row \<in> set B"
      then obtain k where "k < length B" "row = B ! k" by (auto simp: in_set_conv_nth)
      with rB [of k] lB show ?thesis by auto
    next
      assume "row = replicate (d + 1) 0"
      then show ?thesis by (simp del: replicate_Suc)
    qed
  qed
  show "snd (Poly_derivcoeffs A) \<noteq> []"
    using len by (auto simp: Poly_derivcoeffs_def pad_col_def polyder_axis1_def)
  show "row \<noteq> []" if "row \<in> set (snd (Poly_derivcoeffs A))" for row
    using that by (auto simp: Poly_derivcoeffs_def pad_col_def)
qed

lemma Poly_evaluatejacpoly_total:
  assumes d: "1 \<le> d"
    and cx: "(Poly_cxx s, Poly_cxy s) = Poly_derivcoeffs A" and A: "triangular d A"
    and cy: "(Poly_cyx s, Poly_cyy s) = Poly_derivcoeffs B" and B: "triangular d B"
    and len: "length xr = length yr"
  shows "\<exists>J. Poly_evaluatejacpoly s xr yr = Inr J"
proof -
  from cx have xx: "Poly_cxx s = fst (Poly_derivcoeffs A)" and xy: "Poly_cxy s = snd (Poly_derivcoeffs A)"
    by (simp_all add: prod_eq_iff)
  from cy have yx: "Poly_cyx s = fst (Poly_derivcoeffs B)" and yy: "Poly_cyy s = snd (Poly_derivcoeffs B)"
    by (simp_all add: prod_eq_iff)
  note a = derivcoeffs_rect [OF A d] and b = derivcoeffs_rect [OF B d]
  have v: "polyval2d xr yr (Poly_cxx s) = Inr (map (polyval2d_pt (Poly_cxx s)) (zip xr yr))"
    "polyval2d xr yr (Poly_cxy s) = Inr (map (polyval2d_pt (Poly_cxy s)) (zip xr yr))"
    "polyval2d xr yr (Poly_cyx s) = Inr (map (polyval2d_pt (Poly_cyx s)) (zip xr yr))"
    "polyval2d xr yr (Poly_cyy s) = Inr (map (polyval2d_pt (Poly_cyy s)) (zip xr yr))"
    unfolding xx xy yx yy
    by (rule polyval2d_rect [OF a(1) a(2) len], assumption)
       (rule polyval2d_rect [OF a(3) a(4) len], assumption,
        rule polyval2d_rect [OF b(1) b(2) len], assumption,
        rule polyval2d_rect [OF b(3) b(4) len], assumption)
  show ?thesis
    unfolding Poly_evaluatejacpoly_def v by simp
qed

lemma Poly_populatejacpoly_total:
  assumes d: "1 \<le> d" and A: "triangular d (Polycoeffs_p2d (Poly_pars2x s))"
    and B: "triangular d (Polycoeffs_p2d (Poly_pars2y s))"
    and len: "length (Poly_xr s) = length (Poly_yr s)"
  shows "\<exists>s'. Poly_populatejacpoly s = Returned s'"
proof (cases "4 * length (Poly_jacpoly s) < 2")
  case True
  then show ?thesis by (simp add: Poly_populatejacpoly_def)
next
  case False
  let ?t = "Poly_setderivcoeffs s"
  note f = Poly_setderivcoeffs_fields [of s]
  from f have cx: "(Poly_cxx ?t, Poly_cxy ?t) = Poly_derivcoeffs (Polycoeffs_p2d (Poly_pars2x s))"
    and cy: "(Poly_cyx ?t, Poly_cyy ?t) = Poly_derivcoeffs (Polycoeffs_p2d (Poly_pars2y s))"
    by blast+
  from f len have l: "length (Poly_xr ?t) = length (Poly_yr ?t)" by simp
  from Poly_evaluatejacpoly_total [OF d cx A cy B l] obtain J
    where "Poly_evaluatejacpoly ?t (Poly_xr ?t) (Poly_yr ?t) = Inr J" ..
  with False show ?thesis by (simp add: Poly_populatejacpoly_def Let_def)
qed

lemma fill2d_init:
  assumes d: "1 \<le> d" and c: "Polycoeffs_degree d c" and len: "length p = polylen d"
  shows "fill2d (Polycoeffs_p2d c) (Polycoeffs_i c) (Polycoeffs_j c) p
       = Polycoeffs_p2d (state_of (Polycoeffs_init p))"
proof -
  from c have i: "Polycoeffs_i c = fst (ijloop (Suc d))"
    and j: "Polycoeffs_j c = snd (ijloop (Suc d))" and tri: "triangular d (Polycoeffs_p2d c)"
    unfolding Polycoeffs_degree_def ijfromdeg_nat by simp_all
  show ?thesis
    unfolding i j Polycoeffs_init_valid [OF d len]
    using fill2d_same [OF tri triangular_zeros len] by simp
qed

lemma Poly_data_fields:
  assumes "Poly_data s' = Poly_data s"
  shows "Poly_x s' = Poly_x s" "Poly_y s' = Poly_y s" "Poly_xmin s' = Poly_xmin s"
    "Poly_xmax s' = Poly_xmax s" "Poly_ymin s' = Poly_ymin s" "Poly_ymax s' = Poly_ymax s"
    "Poly_xr s' = Poly_xr s" "Poly_yr s' = Poly_yr s"
  using assms by (simp_all add: Poly_data_def)

lemma Poly_setuppars_data:
  "Poly_setuppars s = Returned s' \<Longrightarrow> Poly_data s' = Poly_data s"
  by (auto simp: Poly_setuppars_def Poly_data_def split: outcome.splits)

lemma Poly_update2x_data:
  "Poly_update2x s p = Returned s' \<Longrightarrow> Poly_data s' = Poly_data s"
  by (auto simp: Poly_update2x_def Poly_data_def split: outcome.splits)

lemma Poly_update2y_data:
  "Poly_update2y s p = Returned s' \<Longrightarrow> Poly_data s' = Poly_data s"
  by (auto simp: Poly_update2y_def Poly_data_def split: outcome.splits)

lemma Poly_setderivcoeffs_data: "Poly_data (Poly_setderivcoeffs s) = Poly_data s"
  by (simp add: Poly_setderivcoeffs_def Poly_data_def Let_def)

lemma Poly_populatejacpoly_data:
  "Poly_populatejacpoly s = Returned s' \<Longrightarrow> Poly_data s' = Poly_data s"
  by (auto simp: Poly_populatejacpoly_def Poly_setderivcoeffs_def Poly_data_def Let_def
      split: if_splits sum.splits)

lemma Poly_combinejac_data: "Poly_data (Poly_combinejac s) = Poly_data s"
  by (simp add: Poly_combinejac_def Poly_data_def)

lemma Poly_updatetransf_data:
  assumes ret: "Poly_updatetransf s pars = Returned s'"
  shows "Poly_data s' = Poly_data s"
proof (cases "length (fst (Poly_splitpars pars)) < 1")
  case True
  with ret show ?thesis by (simp add: Poly_updatetransf_def Let_def)
next
  case False
  let ?px = "fst (Poly_splitpars pars)" and ?py = "snd (Poly_splitpars pars)"
  let ?s1 = "s\<lparr>Poly_parsx := ?px, Poly_parsy := ?py\<rparr>"
  from ret False have ret': "obind (if Polycoeffs_deg (Poly_pars2x ?s1) < 0 then Poly_setuppars ?s1
                     else Returned ?s1) (\<lambda>s2.
              obind (Poly_update2x s2 ?px) (\<lambda>s3.
              obind (Poly_update2y s3 ?py) (\<lambda>s4.
              obind (Poly_populatejacpoly (Poly_setderivcoeffs s4)) (\<lambda>s5.
              Returned (Poly_combinejac s5))))) = Returned s'"
    unfolding Poly_updatetransf_def Let_def by simp
  from obind_Returned [OF ret'] obtain s2 where
    s2: "(if Polycoeffs_deg (Poly_pars2x ?s1) < 0 then Poly_setuppars ?s1 else Returned ?s1) = Returned s2"
    and r2: "obind (Poly_update2x s2 ?px) (\<lambda>s3.
              obind (Poly_update2y s3 ?py) (\<lambda>s4.
              obind (Poly_populatejacpoly (Poly_setderivcoeffs s4)) (\<lambda>s5.
              Returned (Poly_combinejac s5)))) = Returned s'" by blast
  from obind_Returned [OF r2] obtain s3 where
    s3: "Poly_update2x s2 ?px = Returned s3"
    and r3: "obind (Poly_update2y s3 ?py) (\<lambda>s4.
              obind (Poly_populatejacpoly (Poly_setderivcoeffs s4)) (\<lambda>s5.
              Returned (Poly_combinejac s5))) = Returned s'" by blast
  from obind_Returned [OF r3] obtain s4 where
    s4: "Poly_update2y s3 ?py = Returned s4"
    and r4: "obind (Poly_populatejacpoly (Poly_setderivcoeffs s4)) (\<lambda>s5.
              Returned (Poly_combinejac s5)) = Returned s'" by blast
  from obind_Returned [OF r4] obtain s5 where
    s5: "Poly_populatejacpoly (Poly_setderivcoeffs s4) = Returned s5"
    and r5: "s' = Poly_combinejac s5" by auto
  have d1: "Poly_data ?s1 = Poly_data s" by (simp add: Poly_data_def)
  have d2: "Poly_data s2 = Poly_data ?s1"
  proof (cases "Polycoeffs_deg (Poly_pars2x ?s1) < 0")
    case True
    with s2 have "Poly_setuppars ?s1 = Returned s2" by simp
    then show ?thesis by (rule Poly_setuppars_data)
  next
    case False
    with s2 show ?thesis by simp
  qed
  show ?thesis
    unfolding r5 Poly_combinejac_data Poly_populatejacpoly_data [OF s5] Poly_setderivcoeffs_data
      Poly_update2y_data [OF s4] Poly_update2x_data [OF s3] d2 d1 ..
qed

lemma Poly_splitpars_append:
  assumes "length px = length py" and "1 \<le> length px"
  shows "Poly_splitpars (px @ py) = (px, py)"
  using assms by (simp add: Poly_splitpars_def)

lemma Poly_updatetransf_total:
  assumes d: "1 \<le> d" and ready: "Poly_ready d t"
    and lx: "length px = polylen d" and ly: "length py = polylen d"
  shows "\<exists>t'. Poly_updatetransf t (px @ py) = Returned t'"
proof -
  from ready have cx: "Polycoeffs_degree d (Poly_pars2x t)"
    and cy: "Polycoeffs_degree d (Poly_pars2y t)"
    and lr: "length (Poly_xr t) = length (Poly_yr t)"
    by (simp_all add: Poly_ready_def)
  have l1: "1 \<le> length px" using lx polylen_gt [of d] by simp
  have split: "Poly_splitpars (px @ py) = (px, py)"
    using l1 by (intro Poly_splitpars_append) (simp_all add: lx ly)
  let ?s1 = "t\<lparr>Poly_parsx := px, Poly_parsy := py\<rparr>"
  let ?cx = "(Poly_pars2x t)\<lparr>Polycoeffs_p := px,
                 Polycoeffs_p2d := Polycoeffs_p2d (state_of (Polycoeffs_init px))\<rparr>"
  let ?cy = "(Poly_pars2y t)\<lparr>Polycoeffs_p := py,
                 Polycoeffs_p2d := Polycoeffs_p2d (state_of (Polycoeffs_init py))\<rparr>"
  let ?s3 = "?s1\<lparr>Poly_pars2x := ?cx\<rparr>"
  let ?s4 = "?s3\<lparr>Poly_pars2y := ?cy\<rparr>"
  have deg: "\<not> Polycoeffs_deg (Poly_pars2x ?s1) < 0"
    using cx by (simp add: Polycoeffs_degree_def)
  have u1: "Poly_update2x ?s1 px = Returned ?s3"
    using updatecoeffs_valid(1) [OF d cx lx] by (simp add: Poly_update2x_def)
  have u2: "Poly_update2y ?s3 py = Returned ?s4"
    using updatecoeffs_valid(1) [OF d cy ly] by (simp add: Poly_update2y_def)
  let ?s4d = "Poly_setderivcoeffs ?s4"
  note f = Poly_setderivcoeffs_fields [of ?s4]
  have A: "triangular d (Polycoeffs_p2d (Poly_pars2x ?s4d))"
    using f updatecoeffs_valid(2) [OF d cx lx] by (simp add: Polycoeffs_degree_def)
  have B: "triangular d (Polycoeffs_p2d (Poly_pars2y ?s4d))"
    using f updatecoeffs_valid(2) [OF d cy ly] by (simp add: Polycoeffs_degree_def)
  have l: "length (Poly_xr ?s4d) = length (Poly_yr ?s4d)" using f lr by simp
  from Poly_populatejacpoly_total [OF d A B l] obtain s5
    where s5: "Poly_populatejacpoly ?s4d = Returned s5" ..
  have "Poly_updatetransf t (px @ py) = Returned (Poly_combinejac s5)"
  proof -
    from l1 have ne: "px \<noteq> []" by auto
    show ?thesis
      unfolding Poly_updatetransf_def split Let_def fst_conv snd_conv
      using ne deg by (simp add: u1 u2 s5)
  qed
  then show ?thesis ..
qed

lemma Poly_updatetransf_valid:
  assumes d: "1 \<le> d" and ready: "Poly_ready d t"
    and lx: "length px = polylen d" and ly: "length py = polylen d"
  shows "\<exists>t'. Poly_updatetransf t (px @ py) = Returned t' \<and> Poly_ready d t' \<and>
           Poly_data t' = Poly_data t \<and> Poly_parsx t' = px \<and> Poly_parsy t' = py \<and>
           Polycoeffs_p2d (Poly_pars2x t') = Polycoeffs_p2d (state_of (Polycoeffs_init px)) \<and>
           Polycoeffs_p2d (Poly_pars2y t') = Polycoeffs_p2d (state_of (Polycoeffs_init py))"
proof -
  from Poly_updatetransf_total [OF d ready lx ly] obtain t'
    where ret: "Poly_updatetransf t (px @ py) = Returned t'" ..
  from ready have cx: "Polycoeffs_degree d (Poly_pars2x t)"
    and cy: "Polycoeffs_degree d (Poly_pars2y t)"
    by (simp_all add: Poly_ready_def)
  have l2: "2 \<le> length (px @ py)" using lx ly polylen_gt [of d] by simp
  have hx: "take (length (px @ py) div 2) (px @ py) = px"
    and hy: "drop (length (px @ py) div 2) (px @ py) = py"
    by (simp_all add: lx ly)
  note r = Poly_updatetransf_Returned [OF l2 ret, unfolded hx hy]
  note dat = Poly_updatetransf_data [OF ret]
  from cx cy have dx: "1 \<le> Polycoeffs_deg (Poly_pars2x t)" and dy: "1 \<le> Polycoeffs_deg (Poly_pars2y t)"
    using d by (simp_all add: Polycoeffs_degree_def)
  from r have px: "Poly_parsx t' = px" and py: "Poly_parsy t' = py" by blast+
  from r dx have x2: "Poly_pars2x t' = (Poly_pars2x t)\<lparr>Polycoeffs_p := px,
               Polycoeffs_p2d := fill2d (Polycoeffs_p2d (Poly_pars2x t))
                 (Polycoeffs_i (Poly_pars2x t)) (Polycoeffs_j (Poly_pars2x t)) px\<rparr>"
    unfolding px by blast
  from r dx dy have y2: "Poly_pars2y t' = (Poly_pars2y t)\<lparr>Polycoeffs_p := py,
               Polycoeffs_p2d := fill2d (Polycoeffs_p2d (Poly_pars2y t))
                 (Polycoeffs_i (Poly_pars2y t)) (Polycoeffs_j (Poly_pars2y t)) py\<rparr>"
    unfolding py by simp
  note x3 = x2 [unfolded fill2d_init [OF d cx lx]]
  note y3 = y2 [unfolded fill2d_init [OF d cy ly]]
  have rx: "Polycoeffs_degree d (Poly_pars2x t')"
    unfolding x3 by (rule updatecoeffs_valid(2) [OF d cx lx])
  have ry: "Polycoeffs_degree d (Poly_pars2y t')"
    unfolding y3 by (rule updatecoeffs_valid(2) [OF d cy ly])
  have rd: "Poly_ready d t'"
    using ready rx ry unfolding Poly_ready_def Poly_data_fields [OF dat] by simp
  show ?thesis
    using ret rd dat px py by (auto simp: x3 y3)
qed

section \<open>The instance that Poly.__init__ leaves\<close>

lemma setlimit_keeps: "\<exists>v. setlimit cur dat False pick dflt other = Some v"
  by (cases cur; cases dat) (simp_all add: setlimit_def)

lemma Poly_setjacrescale_Returned:
  assumes "Poly_setjacrescale s = Returned s'"
  shows "Poly_data s' = Poly_data s" "Poly_pars2x s' = Poly_pars2x s"
    "Poly_pars2y s' = Poly_pars2y s" "Poly_parsx s' = Poly_parsx s" "Poly_parsy s' = Poly_parsy s"
  using assms
  by (auto simp: Poly_setjacrescale_def Poly_data_def split: option.splits)

lemma Poly_initjacpoly_fields:
  "Poly_data (Poly_initjacpoly s) = Poly_data s" "Poly_pars2x (Poly_initjacpoly s) = Poly_pars2x s"
  "Poly_pars2y (Poly_initjacpoly s) = Poly_pars2y s"
  by (simp_all add: Poly_initjacpoly_def Poly_data_def)

lemma Poly_getjacobian_Returned:
  assumes ret: "Poly_getjacobian s = Returned s'"
  shows "Poly_data s' = Poly_data s" "Poly_pars2x s' = Poly_pars2x s"
    "Poly_pars2y s' = Poly_pars2y s"
proof -
  from obind_Returned [OF ret [unfolded Poly_getjacobian_def]] obtain s1
    where s1: "Poly_setjacrescale s = Returned s1"
      and r1: "obind (Poly_populatejacpoly
              (if 4 * length (Poly_jacpoly s1) < 2 then Poly_initjacpoly s1 else s1)) (\<lambda>s2.
             Returned (Poly_combinejac s2)) = Returned s'" by blast
  let ?u = "if 4 * length (Poly_jacpoly s1) < 2 then Poly_initjacpoly s1 else s1"
  from obind_Returned [OF r1] obtain s2
    where s2: "Poly_populatejacpoly ?u = Returned s2" and s': "s' = Poly_combinejac s2" by auto
  have u: "Poly_data ?u = Poly_data s1" "Poly_pars2x ?u = Poly_pars2x s1"
    "Poly_pars2y ?u = Poly_pars2y s1"
    by (simp_all add: Poly_initjacpoly_fields)
  note a = Poly_setjacrescale_Returned [OF s1]
  note b = Poly_populatejacpoly_fields [OF s2] Poly_populatejacpoly_data [OF s2]
  note c = Poly_combinejac_fields [of s2] Poly_combinejac_data [of s2]
  show "Poly_data s' = Poly_data s" unfolding s' using a(1) b c u(1) by simp
  show "Poly_pars2x s' = Poly_pars2x s" unfolding s' using a(2) b c u(2) by simp
  show "Poly_pars2y s' = Poly_pars2y s" unfolding s' using a(3) b c u(3) by simp
qed

text \<open>
  \<^verbatim>\<open>Poly.__init__\<close> leaves an instance ready at degree \<open>d \<ge> 1\<close> when it is given as
  many \<open>x\<close> as \<open>y\<close> and \<open>(d+1)(d+2)/2\<close> coefficients for each polynomial, up to the
  width and height of the domain, which depend on the data.
\<close>

lemma Poly_init_ready:
  assumes ret: "Poly_init x y covxy parsx parsy xmin xmax ymin ymax = Returned t"
    and d: "1 \<le> d" and lx: "length parsx = polylen d" and ly: "length parsy = polylen d"
    and len: "length x = length y"
  shows "Polycoeffs_degree d (Poly_pars2x t)" "Polycoeffs_degree d (Poly_pars2y t)"
    "Poly_x t = x" "Poly_y t = y" "length (Poly_xr t) = length (Poly_yr t)"
    "\<exists>a b c e. Poly_xmin t = Some a \<and> Poly_xmax t = Some b \<and> Poly_ymin t = Some c \<and>
       Poly_ymax t = Some e"
proof -
  define s0 where "s0 = \<lparr>Poly_x = [], Poly_y = [], Poly_covxy = [], Poly_parsx = parsx,
                Poly_parsy = parsy, Poly_xmin = xmin, Poly_xmax = xmax, Poly_ymin = ymin,
                Poly_ymax = ymax, Poly_cxx = [], Poly_cxy = [], Poly_cyx = [], Poly_cyy = [],
                Poly_jacrescale = Mat2 1 0 0 1, Poly_inds1d_6term = [],
                Poly_pars2x = \<lparr>Polycoeffs_p = [], Polycoeffs_p2d = [], Polycoeffs_deg = - 1,
                   Polycoeffs_i = [], Polycoeffs_j = []\<rparr>,
                Poly_pars2y = \<lparr>Polycoeffs_p = [], Polycoeffs_p2d = [], Polycoeffs_deg = - 1,
                   Polycoeffs_i = [], Polycoeffs_j = []\<rparr>, Poly_jacpoly = [], Poly_jac = [],
                Poly_xr = [], Poly_yr = [], Poly_xtran = [], Poly_ytran = [],
                Poly_covtran = [], Poly_xytran = []\<rparr>"
  define s1 where "s1 = Poly_setdomain (Poly_updatedata s0 x y covxy) False"
  have ret': "obind (Poly_setjacrescale s1) (\<lambda>s2.
         obind (Poly_setuppars (Poly_setinds_6term s2)) (\<lambda>s3.
         Poly_updatejacobian s3)) = Returned t"
    using ret unfolding Poly_init_def Let_def s1_def s0_def .
  have x1: "Poly_x s1 = x" "Poly_y s1 = y" "Poly_parsx s1 = parsx" "Poly_parsy s1 = parsy"
    by (simp_all add: s1_def s0_def Poly_setdomain_def Poly_updatedata_def Let_def)
  have lim1: "\<exists>a b c e. Poly_xmin s1 = Some a \<and> Poly_xmax s1 = Some b \<and>
      Poly_ymin s1 = Some c \<and> Poly_ymax s1 = Some e"
    unfolding s1_def Poly_setdomain_def Let_def
    using setlimit_keeps by (simp add: setlimit_keeps)
  from obind_Returned [OF ret'] obtain s2 where
    s2: "Poly_setjacrescale s1 = Returned s2"
    and r2: "obind (Poly_setuppars (Poly_setinds_6term s2)) (\<lambda>s3. Poly_updatejacobian s3)
               = Returned t" by blast
  from obind_Returned [OF r2] obtain s3 where
    s3: "Poly_setuppars (Poly_setinds_6term s2) = Returned s3"
    and r3: "Poly_updatejacobian s3 = Returned t" by blast
  from obind_Returned [OF r3 [unfolded Poly_updatejacobian_def]] obtain s4 where
    s4: "Poly_rescalepos s3 = Returned s4"
    and r4: "obind (Poly_getjacobian s4) (\<lambda>s2. Returned (Poly_initxytran s2)) = Returned t"
    by blast
  from obind_Returned [OF r4] obtain s5 where
    s5: "Poly_getjacobian s4 = Returned s5" and t: "t = Poly_initxytran s5" by auto
  note a2 = Poly_setjacrescale_Returned [OF s2]
  have i2: "Poly_data (Poly_setinds_6term s2) = Poly_data s2"
    "Poly_parsx (Poly_setinds_6term s2) = Poly_parsx s2"
    "Poly_parsy (Poly_setinds_6term s2) = Poly_parsy s2"
    by (simp_all add: Poly_setinds_6term_def Poly_data_def)
  have px: "Poly_parsx (Poly_setinds_6term s2) = parsx" "Poly_parsy (Poly_setinds_6term s2) = parsy"
    using i2 a2 x1 by simp_all
  from s3 have p3: "Poly_pars2x s3 = state_of (Polycoeffs_init parsx)"
    "Poly_pars2y s3 = state_of (Polycoeffs_init parsy)"
    unfolding Poly_setuppars_def px by (auto split: outcome.splits)
  note d3 = Poly_setuppars_data [OF s3]
  from s4 obtain r where r: "Poly_rescalexy s3 (Poly_x s3) (Poly_y s3) = Inr r"
    and s4': "s4 = s3\<lparr>Poly_xr := fst r, Poly_yr := snd r\<rparr>"
    by (auto simp: Poly_rescalepos_def split: sum.splits)
  have d13: "Poly_data s3 = Poly_data s1" using d3 i2 a2 by simp
  note f13 = Poly_data_fields [OF d13]
  from r have lr: "length (fst r) = length x" "length (snd r) = length y"
    unfolding Poly_rescalexy_def f13 x1 by (auto split: option.splits)
  note g = Poly_getjacobian_Returned [OF s5]
  have dt: "Poly_data t = Poly_data s4" "Poly_pars2x t = Poly_pars2x s4"
    "Poly_pars2y t = Poly_pars2y s4"
    using g by (simp_all add: t Poly_initxytran_def Poly_data_def)
  note ft = Poly_data_fields [OF dt(1)]
  show "Polycoeffs_degree d (Poly_pars2x t)"
    unfolding dt s4' using p3 Polycoeffs_init_degree(1) [OF d lx] by simp
  show "Polycoeffs_degree d (Poly_pars2y t)"
    unfolding dt s4' using p3 Polycoeffs_init_degree(1) [OF d ly] by simp
  show "Poly_x t = x" unfolding ft s4' using f13 x1 by simp
  show "Poly_y t = y" unfolding ft s4' using f13 x1 by simp
  show "length (Poly_xr t) = length (Poly_yr t)"
    unfolding ft s4' using lr len by simp
  show "\<exists>a b c e. Poly_xmin t = Some a \<and> Poly_xmax t = Some b \<and> Poly_ymin t = Some c \<and>
       Poly_ymax t = Some e"
    unfolding ft s4' using f13 lim1 by simp
qed

section \<open>xy2equ.updatetransf\<close>

lemma Parvec_init_tangentpoint:
  assumes "2 \<le> length pars" and "Parvec_init pars = Returned pv"
  shows "Parvec_tangentpoint pv = take 2 pars"
  using assms
  by (auto simp: Parvec_init_def Parvec_ingestpars_def Let_def split: if_splits)

lemma on_xy2tp_Returned:
  assumes "on_xy2tp s f = Returned s'"
  shows "f (xy2equ_xy2tp s) = Returned (xy2equ_xy2tp s') \<and>
         xy2equ_tp2equ s' = xy2equ_tp2equ s \<and> xy2equ_tangentpoint s' = xy2equ_tangentpoint s"
  using assms by (auto simp: on_xy2tp_def split: outcome.splits)

lemma on_tp2equ_Returned:
  assumes "on_tp2equ s f = Returned s'"
  shows "f (xy2equ_tp2equ s) = Returned (xy2equ_tp2equ s') \<and>
         xy2equ_xy2tp s' = xy2equ_xy2tp s"
  using assms by (auto simp: on_tp2equ_def split: outcome.splits)

lemma xy2equ_updatepars_Returned:
  assumes "2 \<le> length pars" and "xy2equ_updatepars s pars = Returned s'"
  shows "xy2equ_tangentpoint s' = take 2 pars \<and> xy2equ_xy2tp s' = xy2equ_xy2tp s \<and>
         xy2equ_tp2equ s' = xy2equ_tp2equ s"
  using assms Parvec_init_tangentpoint [of pars]
  by (auto simp: xy2equ_updatepars_def split: outcome.splits)

lemma Poly_propxy_cong:
  assumes "Poly_xmin s = Poly_xmin t" "Poly_xmax s = Poly_xmax t" "Poly_ymin s = Poly_ymin t"
    "Poly_ymax s = Poly_ymax t" "Poly_pars2x s = Poly_pars2x t" "Poly_pars2y s = Poly_pars2y t"
  shows "Poly_propxy s x y = Poly_propxy t x y"
  unfolding Poly_propxy_def Poly_rescalexy_def assms ..

lemma Poly_tranpos_Returned:
  assumes "Poly_tranpos t = Returned t'"
  shows "Poly_propxy t' (Poly_x t') (Poly_y t') = Inr (Poly_xtran t', Poly_ytran t')"
proof -
  from assms obtain r where r: "Poly_propxy t (Poly_x t) (Poly_y t) = Inr r"
    and t': "t' = t\<lparr>Poly_xtran := fst r, Poly_ytran := snd r\<rparr>"
    by (auto simp: Poly_tranpos_def split: sum.splits)
  have "Poly_propxy t' (Poly_x t') (Poly_y t') = Poly_propxy t (Poly_x t) (Poly_y t)"
    unfolding t' by (simp add: Poly_propxy_cong [of "t\<lparr>Poly_xtran := fst r, Poly_ytran := snd r\<rparr>" t])
  with r show ?thesis by (simp add: t')
qed

lemma Tan2equ_evaluatejac_cong:
  assumes "Tan2equ_pars s = Tan2equ_pars t" "Tan2equ_conv2rad s = Tan2equ_conv2rad t"
  shows "Tan2equ_evaluatejac s x y = Tan2equ_evaluatejac t x y"
  unfolding Tan2equ_evaluatejac_def assms ..

lemma Tan2equ_updatetransf_Returned:
  assumes "length pars = 2" and "Tan2equ_updatetransf t pars = Returned t'"
  shows "Tan2equ_pars t' = pars \<and> Tan2equ_x t' = Tan2equ_x t \<and> Tan2equ_y t' = Tan2equ_y t \<and>
         Tan2equ_evaluatejac t' (Tan2equ_x t') (Tan2equ_y t') = Inr (Tan2equ_jac t')"
proof -
  let ?u = "t\<lparr>Tan2equ_pars := pars\<rparr>"
  from assms obtain J where J: "Tan2equ_evaluatejac ?u (Tan2equ_x t) (Tan2equ_y t) = Inr J"
    and t': "t' = ?u\<lparr>Tan2equ_jac := J\<rparr>"
    by (auto simp: Tan2equ_updatetransf_def Tan2equ_setjacobian_def split: sum.splits)
  have "Tan2equ_evaluatejac t' (Tan2equ_x t) (Tan2equ_y t)
      = Tan2equ_evaluatejac ?u (Tan2equ_x t) (Tan2equ_y t)"
    unfolding t' by (rule Tan2equ_evaluatejac_cong) simp_all
  with J show ?thesis by (simp add: t')
qed

text \<open>
  Whenever \<^verbatim>\<open>xy2equ.updatetransf\<close> returns from a vector that holds at least the tangent
  point, the positions of the gnomonic sub-transform are what the position map of the
  polynomial sub-transform, as the call leaves it, gives on its own data; its tangent
  point is the first two entries of the vector; and its jacobian is the one evaluated at
  those positions with that tangent point.
\<close>

lemma xy2equ_updatetransf_Returned:
  assumes len: "2 \<le> length pars" and ret: "xy2equ_updatetransf s pars = Returned s'"
  shows "Poly_propxy (xy2equ_xy2tp s') (Poly_x (xy2equ_xy2tp s')) (Poly_y (xy2equ_xy2tp s'))
           = Inr (Tan2equ_x (xy2equ_tp2equ s'), Tan2equ_y (xy2equ_tp2equ s')) \<and>
         Tan2equ_pars (xy2equ_tp2equ s') = take 2 pars \<and>
         Tan2equ_evaluatejac (xy2equ_tp2equ s')
             (Tan2equ_x (xy2equ_tp2equ s')) (Tan2equ_y (xy2equ_tp2equ s'))
           = Inr (Tan2equ_jac (xy2equ_tp2equ s'))"
proof -
  from len have "pars \<noteq> []" by auto
  with ret have ret': "obind (xy2equ_updatepars s pars) (\<lambda>s1.
        obind (on_xy2tp s1 (\<lambda>t. Poly_updatetransf t (xy2equ_parsx s1 @ xy2equ_parsy s1))) (\<lambda>s2.
        obind (on_xy2tp s2 Poly_tranpos) (\<lambda>s3.
        on_tp2equ
          (s3\<lparr>xy2equ_tp2equ := (xy2equ_tp2equ s3)
                 \<lparr>Tan2equ_x := Poly_xtran (xy2equ_xy2tp s3),
                  Tan2equ_y := Poly_ytran (xy2equ_xy2tp s3)\<rparr>\<rparr>)
          (\<lambda>t. Tan2equ_updatetransf t (xy2equ_tangentpoint s3))))) = Returned s'"
    by (simp add: xy2equ_updatetransf_def)
  from obind_Returned [OF ret'] obtain s1 where
    s1: "xy2equ_updatepars s pars = Returned s1"
    and r1: "obind (on_xy2tp s1 (\<lambda>t. Poly_updatetransf t (xy2equ_parsx s1 @ xy2equ_parsy s1))) (\<lambda>s2.
        obind (on_xy2tp s2 Poly_tranpos) (\<lambda>s3.
        on_tp2equ
          (s3\<lparr>xy2equ_tp2equ := (xy2equ_tp2equ s3)
                 \<lparr>Tan2equ_x := Poly_xtran (xy2equ_xy2tp s3),
                  Tan2equ_y := Poly_ytran (xy2equ_xy2tp s3)\<rparr>\<rparr>)
          (\<lambda>t. Tan2equ_updatetransf t (xy2equ_tangentpoint s3)))) = Returned s'" by blast
  from obind_Returned [OF r1] obtain s2 where
    s2: "on_xy2tp s1 (\<lambda>t. Poly_updatetransf t (xy2equ_parsx s1 @ xy2equ_parsy s1)) = Returned s2"
    and r2: "obind (on_xy2tp s2 Poly_tranpos) (\<lambda>s3.
        on_tp2equ
          (s3\<lparr>xy2equ_tp2equ := (xy2equ_tp2equ s3)
                 \<lparr>Tan2equ_x := Poly_xtran (xy2equ_xy2tp s3),
                  Tan2equ_y := Poly_ytran (xy2equ_xy2tp s3)\<rparr>\<rparr>)
          (\<lambda>t. Tan2equ_updatetransf t (xy2equ_tangentpoint s3))) = Returned s'" by blast
  from obind_Returned [OF r2] obtain s3 where
    s3: "on_xy2tp s2 Poly_tranpos = Returned s3"
    and r3: "on_tp2equ
          (s3\<lparr>xy2equ_tp2equ := (xy2equ_tp2equ s3)
                 \<lparr>Tan2equ_x := Poly_xtran (xy2equ_xy2tp s3),
                  Tan2equ_y := Poly_ytran (xy2equ_xy2tp s3)\<rparr>\<rparr>)
          (\<lambda>t. Tan2equ_updatetransf t (xy2equ_tangentpoint s3)) = Returned s'" by blast
  note f1 = xy2equ_updatepars_Returned [OF len s1]
  note f2 = on_xy2tp_Returned [OF s2]
  note f3 = on_xy2tp_Returned [OF s3]
  note f4 = on_tp2equ_Returned [OF r3]
  have tp: "xy2equ_tangentpoint s3 = take 2 pars" using f1 f2 f3 by simp
  then have l2: "length (xy2equ_tangentpoint s3) = 2" using len by simp
  from f3 have "Poly_tranpos (xy2equ_xy2tp s2) = Returned (xy2equ_xy2tp s3)" by simp
  note pos = Poly_tranpos_Returned [OF this]
  from f4 have "Tan2equ_updatetransf ((xy2equ_tp2equ s3)
                 \<lparr>Tan2equ_x := Poly_xtran (xy2equ_xy2tp s3),
                  Tan2equ_y := Poly_ytran (xy2equ_xy2tp s3)\<rparr>) (xy2equ_tangentpoint s3)
      = Returned (xy2equ_tp2equ s')" by simp
  note jac = Tan2equ_updatetransf_Returned [OF l2 this]
  from f4 have same: "xy2equ_xy2tp s' = xy2equ_xy2tp s3" by simp
  from jac have jx: "Tan2equ_x (xy2equ_tp2equ s') = Poly_xtran (xy2equ_xy2tp s3)"
    and jy: "Tan2equ_y (xy2equ_tp2equ s') = Poly_ytran (xy2equ_xy2tp s3)"
    and jp: "Tan2equ_pars (xy2equ_tp2equ s') = xy2equ_tangentpoint s3"
    by simp_all
  from jac have je: "Tan2equ_evaluatejac (xy2equ_tp2equ s')
             (Tan2equ_x (xy2equ_tp2equ s')) (Tan2equ_y (xy2equ_tp2equ s'))
           = Inr (Tan2equ_jac (xy2equ_tp2equ s'))"
    by blast
  from je have je': "Tan2equ_evaluatejac (xy2equ_tp2equ s')
             (Poly_xtran (xy2equ_xy2tp s3)) (Poly_ytran (xy2equ_xy2tp s3))
           = Inr (Tan2equ_jac (xy2equ_tp2equ s'))"
    unfolding jx jy .
  show ?thesis
    unfolding same pos jx jy jp tp je' by simp
qed


lemma Parvec_init_example:
  "Parvec_init [0, 0, 0, 0, 0, 1, 0, 1] =
     Returned \<lparr>Parvec_hasxy0 = True, Parvec_inds1d_6term = [0, 2, 3, 1, 5, 6],
               Parvec_parsx = [0, 0, 0], Parvec_parsy = [1, 0, 1],
               Parvec_tangentpoint = [0, 0]\<rparr>"
proof -
  have len: "3 \<le> length [0, 0, 0, 0, 0, 1, 0, 1 :: real]" by simp
  have ev: "(length [0, 0, 0, 0, 0, 1, 0, 1 :: real] - 2) mod 2 = 0" by simp
  show ?thesis
    unfolding Parvec_init_def
    by (simp add: ingestpars_even [OF len ev] is_polylen_def polylen_def)
qed

lemma Poly_updatetransf_example_chain:
  "Poly_updatetransf example_poly [0, 0, 0, 1, 0, 1] =
     Returned (example_poly
        \<lparr>Poly_parsx := [0, 0, 0], Poly_parsy := [1, 0, 1],
         Poly_cxx := [[0, 0], [0, 0]], Poly_cxy := [[0, 0], [0, 0]],
         Poly_cyx := [[0, 0], [0, 0]], Poly_cyy := [[1, 0], [0, 0]],
         Poly_pars2x := \<lparr>Polycoeffs_p = [0, 0, 0], Polycoeffs_p2d = [[0, 0], [0, 0]],
                         Polycoeffs_deg = 1, Polycoeffs_i = [0, 1, 0], Polycoeffs_j = [0, 0, 1]\<rparr>,
         Poly_pars2y := \<lparr>Polycoeffs_p = [1, 0, 1], Polycoeffs_p2d = [[1, 1], [0, 0]],
                         Polycoeffs_deg = 1, Polycoeffs_i = [0, 1, 0], Polycoeffs_j = [0, 0, 1]\<rparr>,
         Poly_jacpoly := [Mat2 0 0 0 1, Mat2 0 0 0 1],
         Poly_jac := [Mat2 0 0 0 1, Mat2 0 0 0 1]\<rparr>)"
  by (simp add: updatetransf_eval example_poly_def)

lemma xy2equ_updatetransf_example:
  "xy2equ_updatetransf example_chain [0, 0, 0, 0, 0, 1, 0, 1] = Returned example_chain_updated"
  by (simp add: xy2equ_updatetransf_def xy2equ_updatepars_def Parvec_init_example on_xy2tp_def
      on_tp2equ_def example_chain_def Poly_updatetransf_example_chain)
     (simp add: example_poly_def Poly_tranpos_def Poly_propxy_def Poly_rescalexy_def
        polyval2d_def polyval2d_pt_def polyval_Nil polyval_Cons Tan2equ_updatetransf_def
        Tan2equ_setjacobian_def Tan2equ_evaluatejac_def np_broadcast_def
        example_chain_updated_def)

lemma Poly_ready_limits:
  assumes "Poly_ready d t"
  obtains a b c e where "Poly_xmin t = Some a" "Poly_xmax t = Some b" "Poly_ymin t = Some c"
    "Poly_ymax t = Some e"
  using assms by (auto simp: Poly_ready_def split: option.splits)

lemma Poly_propxy_valid:
  assumes ready: "Poly_ready d t" and len: "length x = length y"
  shows "\<exists>r. Poly_propxy t x y = Inr r \<and> length (fst r) = length x \<and> length (snd r) = length x"
proof (cases "length x < 1 \<or> length y < 1")
  case True
  with len show ?thesis by (simp add: Poly_propxy_def)
next
  case False
  from ready have tx: "triangular d (Polycoeffs_p2d (Poly_pars2x t))"
    and ty: "triangular d (Polycoeffs_p2d (Poly_pars2y t))"
    by (simp_all add: Poly_ready_def Polycoeffs_degree_def)
  from Poly_ready_limits [OF ready] obtain a b c e where lim: "Poly_xmin t = Some a"
    "Poly_xmax t = Some b" "Poly_ymin t = Some c" "Poly_ymax t = Some e" .
  let ?xr = "map (\<lambda>v. (2 * v - (b + a)) / (b - a)) x"
  let ?yr = "map (\<lambda>v. (2 * v - (e + c)) / (e - c)) y"
  have resc: "Poly_rescalexy t x y = Inr (?xr, ?yr)"
    by (simp add: Poly_rescalexy_def lim)
  have l: "length ?xr = length ?yr" using len by simp
  show ?thesis
    unfolding Poly_propxy_def resc using False len
    by (simp add: polyval2d_triangular [OF tx l] polyval2d_triangular [OF ty l])
qed

lemma Poly_tranpos_valid:
  assumes ready: "Poly_ready d t"
  shows "\<exists>t'. Poly_tranpos t = Returned t' \<and> Poly_ready d t' \<and> Poly_data t' = Poly_data t \<and>
           Poly_pars2x t' = Poly_pars2x t \<and> Poly_pars2y t' = Poly_pars2y t \<and>
           length (Poly_xtran t') = length (Poly_ytran t') \<and>
           Poly_propxy t' (Poly_x t') (Poly_y t') = Inr (Poly_xtran t', Poly_ytran t')"
proof -
  from ready have len: "length (Poly_x t) = length (Poly_y t)" by (simp add: Poly_ready_def)
  from Poly_propxy_valid [OF ready len] obtain r
    where r: "Poly_propxy t (Poly_x t) (Poly_y t) = Inr r"
      and l: "length (fst r) = length (Poly_x t)" "length (snd r) = length (Poly_x t)" by blast
  let ?t' = "t\<lparr>Poly_xtran := fst r, Poly_ytran := snd r\<rparr>"
  have ret: "Poly_tranpos t = Returned ?t'" by (simp add: Poly_tranpos_def r)
  have dat: "Poly_data ?t' = Poly_data t" by (simp add: Poly_data_def)
  have rd: "Poly_ready d ?t'" using ready by (simp add: Poly_ready_def)
  from Poly_tranpos_Returned [OF ret] l ret dat rd show ?thesis by simp
qed

lemma Tan2equ_updatetransf_valid:
  assumes tp: "length tp = 2" and len: "length (Tan2equ_x u) = length (Tan2equ_y u)"
  shows "\<exists>u'. Tan2equ_updatetransf u tp = Returned u'"
proof -
  have "\<exists>J. Tan2equ_evaluatejac (u\<lparr>Tan2equ_pars := tp\<rparr>) (Tan2equ_x u) (Tan2equ_y u) = Inr J"
    using tp len by (simp add: Tan2equ_evaluatejac_def np_broadcast_def)
  then obtain J
    where "Tan2equ_evaluatejac (u\<lparr>Tan2equ_pars := tp\<rparr>) (Tan2equ_x u) (Tan2equ_y u) = Inr J" ..
  then show ?thesis
    using tp by (simp add: Tan2equ_updatetransf_def Tan2equ_setjacobian_def)
qed

lemma xy2equ_updatetransf_chain:
  assumes pv: "Parvec_init pars = Returned pv" and ne: "pars \<noteq> []"
    and tp: "length (Parvec_tangentpoint pv) = 2"
    and d: "1 \<le> d" and lx: "length (Parvec_parsx pv) = polylen d"
    and ly: "length (Parvec_parsy pv) = polylen d"
    and ready: "Poly_ready d (xy2equ_xy2tp s)"
  shows "\<exists>s'. xy2equ_updatetransf s pars = Returned s' \<and>
     xy2equ_parsx s' = Parvec_parsx pv \<and> xy2equ_parsy s' = Parvec_parsy pv \<and>
     xy2equ_tangentpoint s' = Parvec_tangentpoint pv \<and>
     Polycoeffs_p2d (Poly_pars2x (xy2equ_xy2tp s'))
       = Polycoeffs_p2d (state_of (Polycoeffs_init (Parvec_parsx pv))) \<and>
     Polycoeffs_p2d (Poly_pars2y (xy2equ_xy2tp s'))
       = Polycoeffs_p2d (state_of (Polycoeffs_init (Parvec_parsy pv))) \<and>
     Poly_data (xy2equ_xy2tp s') = Poly_data (xy2equ_xy2tp s) \<and>
     Poly_ready d (xy2equ_xy2tp s') \<and>
     Poly_propxy (xy2equ_xy2tp s') (Poly_x (xy2equ_xy2tp s')) (Poly_y (xy2equ_xy2tp s'))
       = Inr (Tan2equ_x (xy2equ_tp2equ s'), Tan2equ_y (xy2equ_tp2equ s')) \<and>
     Tan2equ_pars (xy2equ_tp2equ s') = Parvec_tangentpoint pv \<and>
     Tan2equ_evaluatejac (xy2equ_tp2equ s')
         (Tan2equ_x (xy2equ_tp2equ s')) (Tan2equ_y (xy2equ_tp2equ s'))
       = Inr (Tan2equ_jac (xy2equ_tp2equ s'))"
proof -
  let ?s1 = "s\<lparr>xy2equ_parsx := Parvec_parsx pv, xy2equ_parsy := Parvec_parsy pv,
                      xy2equ_tangentpoint := Parvec_tangentpoint pv,
                      xy2equ_polyhasxy0 := Parvec_hasxy0 pv,
                      xy2equ_inds1d_6term := Parvec_inds1d_6term pv\<rparr>"
  have s1: "xy2equ_updatepars s pars = Returned ?s1"
    by (simp add: xy2equ_updatepars_def pv)
  from Poly_updatetransf_valid [OF d ready lx ly] obtain t1
    where t1: "Poly_updatetransf (xy2equ_xy2tp s) (Parvec_parsx pv @ Parvec_parsy pv) = Returned t1"
      and r1: "Poly_ready d t1" and d1: "Poly_data t1 = Poly_data (xy2equ_xy2tp s)"
      and x1: "Polycoeffs_p2d (Poly_pars2x t1)
                 = Polycoeffs_p2d (state_of (Polycoeffs_init (Parvec_parsx pv)))"
      and y1: "Polycoeffs_p2d (Poly_pars2y t1)
                 = Polycoeffs_p2d (state_of (Polycoeffs_init (Parvec_parsy pv)))"
    by blast
  let ?s2 = "?s1\<lparr>xy2equ_xy2tp := t1\<rparr>"
  have s2: "on_xy2tp ?s1 (\<lambda>t. Poly_updatetransf t (xy2equ_parsx ?s1 @ xy2equ_parsy ?s1)) = Returned ?s2"
    by (simp add: on_xy2tp_def t1)
  from Poly_tranpos_valid [OF r1] obtain t2
    where t2: "Poly_tranpos t1 = Returned t2" and r2: "Poly_ready d t2"
      and d2: "Poly_data t2 = Poly_data t1"
      and x2: "Poly_pars2x t2 = Poly_pars2x t1" and y2: "Poly_pars2y t2 = Poly_pars2y t1"
      and l2: "length (Poly_xtran t2) = length (Poly_ytran t2)"
      and p2: "Poly_propxy t2 (Poly_x t2) (Poly_y t2) = Inr (Poly_xtran t2, Poly_ytran t2)"
    by blast
  let ?s3 = "?s2\<lparr>xy2equ_xy2tp := t2\<rparr>"
  have s3: "on_xy2tp ?s2 Poly_tranpos = Returned ?s3"
    by (simp add: on_xy2tp_def t2)
  let ?u = "(xy2equ_tp2equ s)\<lparr>Tan2equ_x := Poly_xtran t2, Tan2equ_y := Poly_ytran t2\<rparr>"
  have lu: "length (Tan2equ_x ?u) = length (Tan2equ_y ?u)" using l2 by simp
  from Tan2equ_updatetransf_valid [OF tp lu] obtain u'
    where u': "Tan2equ_updatetransf ?u (Parvec_tangentpoint pv) = Returned u'" ..
  note fu = Tan2equ_updatetransf_Returned [OF tp u']
  let ?s4 = "?s3\<lparr>xy2equ_tp2equ := ?u\<rparr>"
  let ?s5 = "?s4\<lparr>xy2equ_tp2equ := u'\<rparr>"
  have s4: "on_tp2equ (?s3\<lparr>xy2equ_tp2equ := (xy2equ_tp2equ ?s3)
                 \<lparr>Tan2equ_x := Poly_xtran (xy2equ_xy2tp ?s3),
                  Tan2equ_y := Poly_ytran (xy2equ_xy2tp ?s3)\<rparr>\<rparr>)
          (\<lambda>t. Tan2equ_updatetransf t (xy2equ_tangentpoint ?s3)) = Returned ?s5"
    by (simp add: on_tp2equ_def u')
  have ret: "xy2equ_updatetransf s pars = Returned ?s5"
    unfolding xy2equ_updatetransf_def using ne
    by (simp only: s1 s2 s3 s4 obind.simps length_greater_0_conv less_one length_0_conv if_False)
  from fu have ux: "Tan2equ_x u' = Poly_xtran t2" and uy: "Tan2equ_y u' = Poly_ytran t2"
    and up: "Tan2equ_pars u' = Parvec_tangentpoint pv"
    by simp_all
  from fu have uj: "Tan2equ_evaluatejac u' (Tan2equ_x u') (Tan2equ_y u') = Inr (Tan2equ_jac u')"
    by blast
  show ?thesis
  proof (intro exI conjI)
    show "xy2equ_updatetransf s pars = Returned ?s5" by (rule ret)
    show "xy2equ_parsx ?s5 = Parvec_parsx pv" "xy2equ_parsy ?s5 = Parvec_parsy pv"
      "xy2equ_tangentpoint ?s5 = Parvec_tangentpoint pv" by simp_all
    show "Polycoeffs_p2d (Poly_pars2x (xy2equ_xy2tp ?s5))
       = Polycoeffs_p2d (state_of (Polycoeffs_init (Parvec_parsx pv)))"
      using x1 x2 by simp
    show "Polycoeffs_p2d (Poly_pars2y (xy2equ_xy2tp ?s5))
       = Polycoeffs_p2d (state_of (Polycoeffs_init (Parvec_parsy pv)))"
      using y1 y2 by simp
    show "Poly_data (xy2equ_xy2tp ?s5) = Poly_data (xy2equ_xy2tp s)"
      using d1 d2 by simp
    show "Poly_ready d (xy2equ_xy2tp ?s5)" using r2 by simp
    show "Poly_propxy (xy2equ_xy2tp ?s5) (Poly_x (xy2equ_xy2tp ?s5)) (Poly_y (xy2equ_xy2tp ?s5))
       = Inr (Tan2equ_x (xy2equ_tp2equ ?s5), Tan2equ_y (xy2equ_tp2equ ?s5))"
      using p2 ux uy by simp
    show "Tan2equ_pars (xy2equ_tp2equ ?s5) = Parvec_tangentpoint pv" using up by simp
    show "Tan2equ_evaluatejac (xy2equ_tp2equ ?s5)
         (Tan2equ_x (xy2equ_tp2equ ?s5)) (Tan2equ_y (xy2equ_tp2equ ?s5))
       = Inr (Tan2equ_jac (xy2equ_tp2equ ?s5))"
      using uj by simp
  qed
qed

text \<open>
  Claim C9, as the code has it. The polynomial sub-transform keeps the degree it was built
  with: \<^verbatim>\<open>Polycoeffs.updatecoeffs\<close> writes the new coefficients into the array it finds
  and never derives the degree anew. For a chain whose polynomial sub-transform is ready
  at a degree \<open>d \<ge> 1\<close>, and a vector that holds the tangent point and, for \<open>x\<close> and for
  \<open>y\<close>, the \<open>(d+1)(d+2)/2\<close> coefficients of that degree (or one less each, the
  constant terms left out), \<^verbatim>\<open>xy2equ.updatetransf\<close> returns; the chain holds the tangent
  point and the two coefficient vectors of the vector; the coefficient arrays of the
  polynomial sub-transform are those that \<^verbatim>\<open>Polycoeffs\<close> builds from the new coefficient
  vectors; its data and domain are as before and it is ready for the next update; the
  positions of the gnomonic sub-transform are its position map on that data; and the
  gnomonic jacobian is the one evaluated at those positions with the new tangent point.
\<close>

theorem xy2equ_updatetransf_positions:
  assumes d: "1 \<le> d"
    and ready: "Poly_ready d (xy2equ_xy2tp s)"
    and valid: "length pars = 2 + 2 * polylen d \<or> length pars = 2 * polylen d"
  shows "case xy2equ_updatetransf s pars of
           Raised err s' \<Rightarrow> False
         | Returned s' \<Rightarrow>
             xy2equ_tangentpoint s' = take 2 pars \<and>
             (length pars = 2 + 2 * polylen d \<longrightarrow>
                xy2equ_parsx s' = take (polylen d) (drop 2 pars) \<and>
                xy2equ_parsy s' = drop (polylen d) (drop 2 pars)) \<and>
             (length pars = 2 * polylen d \<longrightarrow>
                xy2equ_parsx s' = 0 # take (polylen d - 1) (drop 2 pars) \<and>
                xy2equ_parsy s' = 0 # drop (polylen d - 1) (drop 2 pars)) \<and>
             Polycoeffs_p2d (Poly_pars2x (xy2equ_xy2tp s'))
               = Polycoeffs_p2d (state_of (Polycoeffs_init (xy2equ_parsx s'))) \<and>
             Polycoeffs_p2d (Poly_pars2y (xy2equ_xy2tp s'))
               = Polycoeffs_p2d (state_of (Polycoeffs_init (xy2equ_parsy s'))) \<and>
             Poly_data (xy2equ_xy2tp s') = Poly_data (xy2equ_xy2tp s) \<and>
             Poly_ready d (xy2equ_xy2tp s') \<and>
             Poly_propxy (xy2equ_xy2tp s') (Poly_x (xy2equ_xy2tp s')) (Poly_y (xy2equ_xy2tp s'))
               = Inr (Tan2equ_x (xy2equ_tp2equ s'), Tan2equ_y (xy2equ_tp2equ s')) \<and>
             Tan2equ_pars (xy2equ_tp2equ s') = take 2 pars \<and>
             Tan2equ_evaluatejac (xy2equ_tp2equ s')
                 (Tan2equ_x (xy2equ_tp2equ s')) (Tan2equ_y (xy2equ_tp2equ s'))
               = Inr (Tan2equ_jac (xy2equ_tp2equ s'))"
proof -
  note g = polylen_ge3 [OF d]
  from valid g have ne: "pars \<noteq> []" by auto
  from valid g have l2: "length (take 2 pars) = 2" by auto
  from valid show ?thesis
  proof
    assume len: "length pars = 2 + 2 * polylen d"
    let ?pv = "\<lparr>Parvec_hasxy0 = True,
               Parvec_inds1d_6term = [0, 2, 3, 1, polylen d + 2, polylen d + 3],
               Parvec_parsx = take (polylen d) (drop 2 pars),
               Parvec_parsy = drop (polylen d) (drop 2 pars),
               Parvec_tangentpoint = take 2 pars\<rparr>"
    note pv = Parvec_init_valid [OF d len]
    have tp: "length (Parvec_tangentpoint ?pv) = 2" using l2 by simp
    have lx: "length (Parvec_parsx ?pv) = polylen d" using len by simp
    have ly: "length (Parvec_parsy ?pv) = polylen d" using len by simp
    from xy2equ_updatetransf_chain [OF pv ne tp d lx ly ready] obtain s'
      where ret: "xy2equ_updatetransf s pars = Returned s'"
        and f: "xy2equ_parsx s' = Parvec_parsx ?pv" "xy2equ_parsy s' = Parvec_parsy ?pv"
          "xy2equ_tangentpoint s' = Parvec_tangentpoint ?pv"
          "Polycoeffs_p2d (Poly_pars2x (xy2equ_xy2tp s'))
             = Polycoeffs_p2d (state_of (Polycoeffs_init (Parvec_parsx ?pv)))"
          "Polycoeffs_p2d (Poly_pars2y (xy2equ_xy2tp s'))
             = Polycoeffs_p2d (state_of (Polycoeffs_init (Parvec_parsy ?pv)))"
          "Poly_data (xy2equ_xy2tp s') = Poly_data (xy2equ_xy2tp s)"
          "Poly_ready d (xy2equ_xy2tp s')"
          "Poly_propxy (xy2equ_xy2tp s') (Poly_x (xy2equ_xy2tp s')) (Poly_y (xy2equ_xy2tp s'))
             = Inr (Tan2equ_x (xy2equ_tp2equ s'), Tan2equ_y (xy2equ_tp2equ s'))"
          "Tan2equ_pars (xy2equ_tp2equ s') = Parvec_tangentpoint ?pv"
          "Tan2equ_evaluatejac (xy2equ_tp2equ s')
               (Tan2equ_x (xy2equ_tp2equ s')) (Tan2equ_y (xy2equ_tp2equ s'))
             = Inr (Tan2equ_jac (xy2equ_tp2equ s'))"
      by blast
    have other: "length pars \<noteq> 2 * polylen d" using len by simp
    show ?thesis
      unfolding ret outcome.case using f other len by simp
  next
    assume len: "length pars = 2 * polylen d"
    let ?pv = "\<lparr>Parvec_hasxy0 = False,
               Parvec_inds1d_6term = [0, 2, 3, 1, polylen d - 1 + 2, polylen d - 1 + 3],
               Parvec_parsx = 0 # take (polylen d - 1) (drop 2 pars),
               Parvec_parsy = 0 # drop (polylen d - 1) (drop 2 pars),
               Parvec_tangentpoint = take 2 pars\<rparr>"
    note pv = Parvec_init_valid_noconst [OF d len]
    have tp: "length (Parvec_tangentpoint ?pv) = 2" using l2 by simp
    have lx: "length (Parvec_parsx ?pv) = polylen d" using len g by simp
    have ly: "length (Parvec_parsy ?pv) = polylen d" using len g by simp
    from xy2equ_updatetransf_chain [OF pv ne tp d lx ly ready] obtain s'
      where ret: "xy2equ_updatetransf s pars = Returned s'"
        and f: "xy2equ_parsx s' = Parvec_parsx ?pv" "xy2equ_parsy s' = Parvec_parsy ?pv"
          "xy2equ_tangentpoint s' = Parvec_tangentpoint ?pv"
          "Polycoeffs_p2d (Poly_pars2x (xy2equ_xy2tp s'))
             = Polycoeffs_p2d (state_of (Polycoeffs_init (Parvec_parsx ?pv)))"
          "Polycoeffs_p2d (Poly_pars2y (xy2equ_xy2tp s'))
             = Polycoeffs_p2d (state_of (Polycoeffs_init (Parvec_parsy ?pv)))"
          "Poly_data (xy2equ_xy2tp s') = Poly_data (xy2equ_xy2tp s)"
          "Poly_ready d (xy2equ_xy2tp s')"
          "Poly_propxy (xy2equ_xy2tp s') (Poly_x (xy2equ_xy2tp s')) (Poly_y (xy2equ_xy2tp s'))
             = Inr (Tan2equ_x (xy2equ_tp2equ s'), Tan2equ_y (xy2equ_tp2equ s'))"
          "Tan2equ_pars (xy2equ_tp2equ s') = Parvec_tangentpoint ?pv"
          "Tan2equ_evaluatejac (xy2equ_tp2equ s')
               (Tan2equ_x (xy2equ_tp2equ s')) (Tan2equ_y (xy2equ_tp2equ s'))
             = Inr (Tan2equ_jac (xy2equ_tp2equ s'))"
      by blast
    have other: "length pars \<noteq> 2 + 2 * polylen d" using len by simp
    show ?thesis
      unfolding ret outcome.case using f other len by simp
  qed
qed

lemma Poly_ready_example: "Poly_ready 1 example_poly"
proof -
  have t: "triangular 1 [[1, 3], [2, 0]]" "triangular 1 [[4, 6], [5, 0]]"
    by (simp_all add: triangular_def upt_rec)
  show ?thesis
    unfolding Poly_ready_def Polycoeffs_degree_def
    using t by (simp add: example_poly_def ijfromdeg_1)
qed

theorem xy2equ_updatetransf_positions_witness:
  "(1::nat) \<le> 1 \<and> Poly_ready 1 (xy2equ_xy2tp example_chain) \<and>
   length [0, 0, 0, 0, 0, 1, 0, 1 :: real] = 2 + 2 * polylen 1 \<and>
   xy2equ_updatetransf example_chain [0, 0, 0, 0, 0, 1, 0, 1] = Returned example_chain_updated \<and>
   xy2equ_parsx example_chain_updated = [0, 0, 0] \<and>
   xy2equ_parsy example_chain_updated = [1, 0, 1] \<and>
   Polycoeffs_p2d (Poly_pars2x (xy2equ_xy2tp example_chain_updated))
     = Polycoeffs_p2d (state_of (Polycoeffs_init [0, 0, 0])) \<and>
   Polycoeffs_p2d (Poly_pars2y (xy2equ_xy2tp example_chain_updated))
     = Polycoeffs_p2d (state_of (Polycoeffs_init [1, 0, 1])) \<and>
   Poly_propxy (xy2equ_xy2tp example_chain_updated) [0, 1] [0, 2] = Inr ([0, 0], [0, 2]) \<and>
   Tan2equ_x (xy2equ_tp2equ example_chain_updated) = [0, 0] \<and>
   Tan2equ_y (xy2equ_tp2equ example_chain_updated) = [0, 2] \<and>
   Tan2equ_pars (xy2equ_tp2equ example_chain_updated) = [0, 0] \<and>
   Tan2equ_evaluatejac (xy2equ_tp2equ example_chain_updated) [0, 0] [0, 2]
     = Inr (Tan2equ_jac (xy2equ_tp2equ example_chain_updated))"
proof -
  have r: "Poly_ready 1 (xy2equ_xy2tp example_chain)"
    using Poly_ready_example by (simp add: example_chain_def)
  have l: "length [0, 0, 0, 0, 0, 1, 0, 1 :: real] = 2 + 2 * polylen 1"
    by (simp add: polylen_def)
  have v: "length [0, 0, 0, 0, 0, 1, 0, 1 :: real] = 2 + 2 * polylen 1
         \<or> length [0, 0, 0, 0, 0, 1, 0, 1 :: real] = 2 * polylen 1"
    using l by blast
  have p1: "polylen 1 = 3" by (simp add: polylen_def)
  have e: "xy2equ_parsx example_chain_updated = [0, 0, 0]"
    "xy2equ_parsy example_chain_updated = [1, 0, 1]"
    "Tan2equ_x (xy2equ_tp2equ example_chain_updated) = [0, 0]"
    "Tan2equ_y (xy2equ_tp2equ example_chain_updated) = [0, 2]"
    "Poly_x (xy2equ_xy2tp example_chain_updated) = [0, 1]"
    "Poly_y (xy2equ_xy2tp example_chain_updated) = [0, 2]"
    by (simp_all add: example_chain_updated_def example_poly_def)
  note t = xy2equ_updatetransf_positions [OF le_refl r v,
      unfolded xy2equ_updatetransf_example outcome.case e]
  from t have a: "Polycoeffs_p2d (Poly_pars2x (xy2equ_xy2tp example_chain_updated))
     = Polycoeffs_p2d (state_of (Polycoeffs_init [0, 0, 0]))"
    "Polycoeffs_p2d (Poly_pars2y (xy2equ_xy2tp example_chain_updated))
     = Polycoeffs_p2d (state_of (Polycoeffs_init [1, 0, 1]))"
    "Poly_propxy (xy2equ_xy2tp example_chain_updated) [0, 1] [0, 2] = Inr ([0, 0], [0, 2])"
    "Tan2equ_pars (xy2equ_tp2equ example_chain_updated) = [0, 0]"
    "Tan2equ_evaluatejac (xy2equ_tp2equ example_chain_updated) [0, 0] [0, 2]
     = Inr (Tan2equ_jac (xy2equ_tp2equ example_chain_updated))"
    by simp_all
  show ?thesis
    using r l e a xy2equ_updatetransf_example by simp
qed

lemma Parvec_init_stale:
  "Parvec_init [0, 0, 9, 9] =
     Returned \<lparr>Parvec_hasxy0 = True, Parvec_inds1d_6term = [0, 2, 3, 1, 3, 4],
               Parvec_parsx = [9], Parvec_parsy = [9], Parvec_tangentpoint = [0, 0]\<rparr>"
proof -
  have len: "3 \<le> length [0, 0, 9, 9 :: real]" by simp
  have ev: "(length [0, 0, 9, 9 :: real] - 2) mod 2 = 0" by simp
  show ?thesis
    unfolding Parvec_init_def
    by (simp add: ingestpars_even [OF len ev] is_polylen_def polylen_def)
qed

lemma Poly_updatetransf_stale:
  "Poly_updatetransf example_poly [9, 9] =
     Returned (example_poly
        \<lparr>Poly_parsx := [9], Poly_parsy := [9],
         Poly_pars2x := \<lparr>Polycoeffs_p = [9], Polycoeffs_p2d = [[9, 3], [2, 0]],
                         Polycoeffs_deg = 1, Polycoeffs_i = [0, 1, 0], Polycoeffs_j = [0, 0, 1]\<rparr>,
         Poly_pars2y := \<lparr>Polycoeffs_p = [9], Polycoeffs_p2d = [[9, 6], [5, 0]],
                         Polycoeffs_deg = 1, Polycoeffs_i = [0, 1, 0], Polycoeffs_j = [0, 0, 1]\<rparr>\<rparr>)"
  by (simp add: updatetransf_eval example_poly_def)

lemma xy2equ_updatetransf_stale:
  "xy2equ_updatetransf example_chain [0, 0, 9, 9] = Returned example_chain_stale"
  by (simp add: xy2equ_updatetransf_def xy2equ_updatepars_def Parvec_init_stale on_xy2tp_def
      on_tp2equ_def example_chain_def Poly_updatetransf_stale)
     (simp add: example_poly_def Poly_tranpos_def Poly_propxy_def Poly_rescalexy_def
        polyval2d_def polyval2d_pt_def polyval_Nil polyval_Cons Tan2equ_updatetransf_def
        Tan2equ_setjacobian_def Tan2equ_evaluatejac_def np_broadcast_def
        example_chain_stale_def)

lemma Parvec_init_quadratic:
  "Parvec_init [0, 0, 1, 2, 3, 4, 5, 6, 1, 2, 3, 4, 5, 6] =
     Returned \<lparr>Parvec_hasxy0 = True, Parvec_inds1d_6term = [0, 2, 3, 1, 8, 9],
               Parvec_parsx = [1, 2, 3, 4, 5, 6], Parvec_parsy = [1, 2, 3, 4, 5, 6],
               Parvec_tangentpoint = [0, 0]\<rparr>"
proof -
  have p: "polylen 2 = 6" by (simp add: polylen_def)
  have len: "length [0, 0, 1, 2, 3, 4, 5, 6, 1, 2, 3, 4, 5, 6 :: real] = 2 + 2 * polylen 2"
    by (simp add: p)
  have d: "(1::nat) \<le> 2" by simp
  show ?thesis
    by (simp add: Parvec_init_valid [OF d len] p)
qed

lemma Poly_updatetransf_quadratic:
  "Poly_updatetransf example_poly [1, 2, 3, 4, 5, 6, 1, 2, 3, 4, 5, 6] =
     Raised IndexError (example_poly
        \<lparr>Poly_parsx := [1, 2, 3, 4, 5, 6], Poly_parsy := [1, 2, 3, 4, 5, 6],
         Poly_pars2x := \<lparr>Polycoeffs_p = [1, 2, 3, 4, 5, 6], Polycoeffs_p2d = [[1, 3], [2, 0]],
                         Polycoeffs_deg = 1, Polycoeffs_i = [0, 1, 0], Polycoeffs_j = [0, 0, 1]\<rparr>\<rparr>)"
  by (simp add: Poly_updatetransf_def Poly_splitpars_def Poly_update2x_def updatecoeffs_def
      updatecoeffs2d_def fill2d_ok_def example_poly_def Let_def)

lemma xy2equ_updatetransf_quadratic:
  "xy2equ_updatetransf example_chain [0, 0, 1, 2, 3, 4, 5, 6, 1, 2, 3, 4, 5, 6]
     = Raised IndexError
         (state_of (xy2equ_updatetransf example_chain [0, 0, 1, 2, 3, 4, 5, 6, 1, 2, 3, 4, 5, 6]))"
  "xy2equ_tp2equ
     (state_of (xy2equ_updatetransf example_chain [0, 0, 1, 2, 3, 4, 5, 6, 1, 2, 3, 4, 5, 6]))
     = xy2equ_tp2equ example_chain"
  "xy2equ_parsx
     (state_of (xy2equ_updatetransf example_chain [0, 0, 1, 2, 3, 4, 5, 6, 1, 2, 3, 4, 5, 6]))
     = [1, 2, 3, 4, 5, 6]"
  by (simp_all add: xy2equ_updatetransf_def xy2equ_updatepars_def Parvec_init_quadratic
      on_xy2tp_def example_chain_def Poly_updatetransf_quadratic)

text \<open>
  Claim C9 as stated fails for vectors that are valid for another degree. On
  \<open>example_chain\<close>, of degree 1, the vector \<open>[0, 0, 9, 9]\<close> carries the constant
  polynomials \<open>9\<close> and \<open>9\<close>, whose value at the rescaled data \<open>(-1,-1), (1,1)\<close> is
  \<open>[9, 9]\<close>; the call returns with the arrays \<open>[[9, 3], [2, 0]]\<close> and
  \<open>[[9, 6], [5, 0]]\<close>, new in the first entry only, and the gnomonic sub-transform works
  at \<open>[4, 14], [-2, 20]\<close>. A vector with the twelve coefficients of degree 2 raises an
  \<^verbatim>\<open>IndexError\<close> in \<^verbatim>\<open>Poly.updatetransf\<close>: the chain has the new coefficient vectors and
  the gnomonic sub-transform is as it was.
\<close>

theorem xy2equ_updatetransf_positions_counterexample:
  "\<not> invalid_counts [0, 0, 9, 9] \<and>
   xy2equ_updatetransf example_chain [0, 0, 9, 9] = Returned example_chain_stale \<and>
   xy2equ_parsx example_chain_stale = [9] \<and> xy2equ_parsy example_chain_stale = [9] \<and>
   Polycoeffs_p2d (Poly_pars2x (xy2equ_xy2tp example_chain_stale)) = [[9, 3], [2, 0]] \<and>
   Polycoeffs_p2d (Poly_pars2y (xy2equ_xy2tp example_chain_stale)) = [[9, 6], [5, 0]] \<and>
   Tan2equ_x (xy2equ_tp2equ example_chain_stale) = [4, 14] \<and>
   Tan2equ_y (xy2equ_tp2equ example_chain_stale) = [- 2, 20] \<and>
   polyval2d [- 1, 1] [- 1, 1] [[9]] = Inr [9, 9] \<and>
   \<not> invalid_counts [0, 0, 1, 2, 3, 4, 5, 6, 1, 2, 3, 4, 5, 6] \<and>
   xy2equ_updatetransf example_chain [0, 0, 1, 2, 3, 4, 5, 6, 1, 2, 3, 4, 5, 6]
     = Raised IndexError
         (state_of (xy2equ_updatetransf example_chain [0, 0, 1, 2, 3, 4, 5, 6, 1, 2, 3, 4, 5, 6])) \<and>
   xy2equ_parsx
     (state_of (xy2equ_updatetransf example_chain [0, 0, 1, 2, 3, 4, 5, 6, 1, 2, 3, 4, 5, 6]))
     = [1, 2, 3, 4, 5, 6] \<and>
   xy2equ_tp2equ
     (state_of (xy2equ_updatetransf example_chain [0, 0, 1, 2, 3, 4, 5, 6, 1, 2, 3, 4, 5, 6]))
     = xy2equ_tp2equ example_chain"
proof -
  have a: "\<not> invalid_counts [0, 0, 9, 9]"
    "\<not> invalid_counts [0, 0, 1, 2, 3, 4, 5, 6, 1, 2, 3, 4, 5, 6]"
    by (simp_all add: invalid_counts_def is_polylen_def polylen_def)
  have b: "xy2equ_parsx example_chain_stale = [9]" "xy2equ_parsy example_chain_stale = [9]"
    "Polycoeffs_p2d (Poly_pars2x (xy2equ_xy2tp example_chain_stale)) = [[9, 3], [2, 0]]"
    "Polycoeffs_p2d (Poly_pars2y (xy2equ_xy2tp example_chain_stale)) = [[9, 6], [5, 0]]"
    "Tan2equ_x (xy2equ_tp2equ example_chain_stale) = [4, 14]"
    "Tan2equ_y (xy2equ_tp2equ example_chain_stale) = [- 2, 20]"
    by (simp_all add: example_chain_stale_def)
  have c: "polyval2d [- 1, 1] [- 1, 1] [[9]] = Inr [9, 9]"
    by (simp add: polyval2d_def polyval2d_pt_def polyval_Nil polyval_Cons)
  show ?thesis
    using a b c xy2equ_updatetransf_stale xy2equ_updatetransf_quadratic by blast
qed


section \<open>The gnomonic round trip\<close>

lemma sum_squares_scaled:
  fixes sa ca cd den :: real
  shows "(cd * sa / den)\<^sup>2 + (ca * cd / den)\<^sup>2 = (cd / den)\<^sup>2 * (sa\<^sup>2 + ca\<^sup>2)"
  by (simp add: power_divide algebra_simps add_divide_distrib)

lemma gnomonic_roundtrip_pt:
  assumes c: "c \<noteq> 0" and r: "roundtrip_range c p0 p1 (a, d)"
  shows "Tan2equ_propxy_pt c p0 p1 (Equ2tan_propxy_pt c p0 p1 (a, d)) = (a, d)"
proof -
  define A where "A = a * c - p0 * c"
  define D where "D = d * c"
  define D0 where "D0 = p1 * c"
  define den where "den = cos A * cos D * cos D0 + sin D * sin D0"
  define xi where "xi = cos D * sin A / den"
  define eta where "eta = (cos D0 * sin D - cos A * cos D * sin D0) / den"
  from r have den: "0 < den" and A: "\<bar>A\<bar> < pi / 2" and Dr: "\<bar>D\<bar> < pi / 2"
    by (simp_all add: roundtrip_range_def gnomonic_range_def den_def A_def D_def D0_def)
  have cA: "0 < cos A" using A by (intro cos_gt_zero_pi) auto
  have cD: "0 < cos D" using Dr by (intro cos_gt_zero_pi) auto
  have E: "Equ2tan_propxy_pt c p0 p1 (a, d) = (xi / c, eta / c)"
    by (simp add: Equ2tan_propxy_pt_def Let_def xi_def eta_def den_def A_def D_def D0_def)
  have one: "(cos D0)\<^sup>2 + (sin D0)\<^sup>2 = 1" "(sin A)\<^sup>2 + (cos A)\<^sup>2 = 1"
    by simp_all
  have k1: "cos D0 * den - (cos D0 * sin D - cos A * cos D * sin D0) * sin D0
      = cos A * cos D * ((cos D0)\<^sup>2 + (sin D0)\<^sup>2)"
    unfolding den_def power2_eq_square by (simp only: algebra_simps)
  have "cos D0 - eta * sin D0
      = (cos D0 * den - (cos D0 * sin D - cos A * cos D * sin D0) * sin D0) / den"
    unfolding eta_def using den by (simp add: field_simps)
  then have gamma: "cos D0 - eta * sin D0 = cos A * cos D / den"
    by (simp only: k1 one mult_1_right)
  have k2: "(cos D0 * sin D - cos A * cos D * sin D0) * cos D0 + sin D0 * den
      = sin D * ((cos D0)\<^sup>2 + (sin D0)\<^sup>2)"
    unfolding den_def power2_eq_square by (simp only: algebra_simps)
  have "eta * cos D0 + sin D0
      = ((cos D0 * sin D - cos A * cos D * sin D0) * cos D0 + sin D0 * den) / den"
    unfolding eta_def using den by (simp add: field_simps)
  then have num: "eta * cos D0 + sin D0 = sin D / den"
    by (simp only: k2 one mult_1_right)
  have "xi\<^sup>2 + (cos A * cos D / den)\<^sup>2 = (cos D / den)\<^sup>2 * ((sin A)\<^sup>2 + (cos A)\<^sup>2)"
    unfolding xi_def by (rule sum_squares_scaled)
  then have sq: "xi\<^sup>2 + (cos A * cos D / den)\<^sup>2 = (cos D / den)\<^sup>2"
    by (simp only: one mult_1_right)
  have pos: "0 < cos D / den" using cD den by simp
  have root: "sqrt (xi\<^sup>2 + (cos A * cos D / den)\<^sup>2) = cos D / den"
    unfolding sq using cD den by simp
  have t1: "xi / (cos A * cos D / den) = tan A"
    unfolding xi_def tan_def using cA cD den by (simp add: field_simps)
  have t2: "(sin D / den) / (cos D / den) = tan D"
    unfolding tan_def using cD den by (simp add: field_simps)
  have a1: "arctan (tan A) = A" using A by (intro arctan_tan) auto
  have a2: "arctan (tan D) = D" using Dr by (intro arctan_tan) auto
  have xc: "xi / c * c = xi" "eta / c * c = eta" using c by simp_all
  have "Tan2equ_propxy_pt c p0 p1 (xi / c, eta / c) = ((p0 * c + A) / c, D / c)"
    unfolding Tan2equ_propxy_pt_def Let_def fst_conv snd_conv xc D0_def [symmetric]
      gamma num root t1 t2 a1 a2 ..
  also have "\<dots> = (a, d)"
    using c by (simp add: A_def D_def field_simps)
  finally show ?thesis by (simp only: E)
qed


text \<open>
  Over the reals the round trip is exact on the whole open range: two transforms with one
  tangent point and one unit convention, samples in the hemisphere of the projection whose
  longitude is less than a quarter turn from that of the tangent point and whose latitude
  is strictly between the poles.
\<close>

lemma gnomonic_roundtrip_exact:
  assumes pars: "Equ2tan_pars e = [p0, p1]" "Tan2equ_pars t = [p0, p1]"
    and conv: "Equ2tan_conv2rad e = c" "Tan2equ_conv2rad t = c" "c \<noteq> 0"
    and len: "length x = length y"
    and rng: "\<forall>pt\<in>set (zip x y). roundtrip_range c p0 p1 pt"
  shows "case Equ2tan_propxy e x y of
           Inl err \<Rightarrow> False
         | Inr r \<Rightarrow> length (fst r) = length x \<and> length (snd r) = length x \<and>
                    Tan2equ_propxy t (fst r) (snd r) = Inr (x, y)"
proof (cases "x = []")
  case True
  with len show ?thesis
    by (simp add: Equ2tan_propxy_def Tan2equ_propxy_def)
next
  case False
  with len have ne: "\<not> (length x < 1 \<or> length y < 1)" by (cases x; cases y) auto
  let ?out = "map (Equ2tan_propxy_pt c p0 p1) (zip x y)"
  have E: "Equ2tan_propxy e x y = Inr (map fst ?out, map snd ?out)"
    using ne len by (simp add: Equ2tan_propxy_def pars conv np_broadcast_def Let_def)
  have z: "zip (map fst ?out) (map snd ?out) = ?out"
    by (rule zip_map_fst_snd)
  have undo: "map (Tan2equ_propxy_pt c p0 p1) ?out = zip x y"
  proof -
    have "map (Tan2equ_propxy_pt c p0 p1) ?out
        = map (\<lambda>pt. Tan2equ_propxy_pt c p0 p1 (Equ2tan_propxy_pt c p0 p1 pt)) (zip x y)"
      by simp
    also have "\<dots> = map (\<lambda>pt. pt) (zip x y)"
    proof (rule map_cong [OF refl])
      fix pt assume "pt \<in> set (zip x y)"
      with rng have "roundtrip_range c p0 p1 (fst pt, snd pt)" by simp
      from gnomonic_roundtrip_pt [OF conv(3) this]
      show "Tan2equ_propxy_pt c p0 p1 (Equ2tan_propxy_pt c p0 p1 pt) = pt" by simp
    qed
    finally show ?thesis by simp
  qed
  have T: "Tan2equ_propxy t (map fst ?out) (map snd ?out) = Inr (x, y)"
    using ne len
    by (simp add: Tan2equ_propxy_def pars conv np_broadcast_def Let_def z undo del: map_map)
  show ?thesis
    unfolding E using T len by simp
qed

lemma arcmin_bounds: "0 < arcmin" "arcmin < 1 / 2" "0 < sin arcmin" "sin arcmin < 1 / 2"
proof -
  show p: "0 < arcmin" by (simp add: arcmin_def)
  have "pi / 10800 < 4 / 10800" using pi_less_4 by simp
  then show l: "arcmin < 1 / 2" by (simp add: arcmin_def)
  have "arcmin < pi" using l pi_ge_two by simp
  with p show "0 < sin arcmin" by (rule sin_gt_zero)
  have "sin arcmin \<le> arcmin" using p by (intro sin_x_le_x) simp
  with l show "sin arcmin < 1 / 2" by simp
qed

lemma roundtrip_margin_range:
  assumes "roundtrip_margin c p0 p1 pt"
  shows "roundtrip_range c p0 p1 pt"
  using assms arcmin_bounds(1) arcmin_bounds(3)
  by (simp add: roundtrip_margin_def roundtrip_range_def gnomonic_range_def)

lemma setconversion_nonzero: "setconversion dg \<noteq> 0"
  by (simp add: setconversion_def)

text \<open>
  Claim C3, as the code has it. For two transforms with one tangent point, within one turn
  in longitude and between the poles, and one unit convention (degrees or radians), and
  samples at least one arc minute inside the hemisphere of the projection, with a
  longitude at least one arc minute inside a quarter turn from that of the tangent point
  and a latitude at least one arc minute from the poles, \<^verbatim>\<open>Tan2equ.propxy\<close> after
  \<^verbatim>\<open>Equ2tan.propxy\<close> returns the samples: exactly over the reals, which is what is
  proved here, and so within any tolerance.
\<close>

theorem gnomonic_roundtrip:
  assumes pars: "Equ2tan_pars e = [p0, p1]" "Tan2equ_pars t = [p0, p1]"
    and conv: "Equ2tan_conv2rad e = setconversion dg" "Tan2equ_conv2rad t = setconversion dg"
    and len: "length x = length y"
    and rng: "\<forall>pt\<in>set (zip x y). roundtrip_margin (setconversion dg) p0 p1 pt"
  shows "case Equ2tan_propxy e x y of
           Inl err \<Rightarrow> False
         | Inr r \<Rightarrow> length (fst r) = length x \<and> length (snd r) = length x \<and>
                    Tan2equ_propxy t (fst r) (snd r) = Inr (x, y)"
proof -
  from rng have "\<forall>pt\<in>set (zip x y). roundtrip_range (setconversion dg) p0 p1 pt"
    by (blast intro: roundtrip_margin_range)
  from gnomonic_roundtrip_exact [OF pars conv setconversion_nonzero len this]
  show ?thesis .
qed

lemma Equ2tan_propxy_example:
  "Equ2tan_propxy example_equ2tan [0, pi / 4] [0, 0] = Inr ([0, 1], [0, 0])"
  by (simp add: Equ2tan_propxy_def example_equ2tan_def np_broadcast_def Equ2tan_propxy_pt_def
      Let_def cos_45 sin_45)

lemma Tan2equ_propxy_example:
  "Tan2equ_propxy example_tan2equ [0, 1] [0, 0] = Inr ([0, pi / 4], [0, 0])"
  by (simp add: Tan2equ_propxy_def example_tan2equ_def np_broadcast_def Tan2equ_propxy_pt_def
      Let_def arctan_one)

lemma roundtrip_margin_example:
  "roundtrip_margin 1 0 0 (0, 0)" "roundtrip_margin 1 0 0 (pi / 4, 0)"
proof -
  have a: "arcmin \<le> pi / 4" using arcmin_bounds(2) pi_ge_two by simp
  have sq: "1 \<le> sqrt 2" by simp
  have s: "sin arcmin \<le> sqrt 2 / 2" using arcmin_bounds(4) sq by linarith
  have h: "arcmin \<le> pi / 2" using a pi_ge_two by simp
  show "roundtrip_margin 1 0 0 (0, 0)"
    using arcmin_bounds(4) h by (simp add: roundtrip_margin_def)
  show "roundtrip_margin 1 0 0 (pi / 4, 0)"
    using s a h by (simp add: roundtrip_margin_def cos_45)
qed

theorem gnomonic_roundtrip_witness:
  "list_all (roundtrip_margin (setconversion False) 0 0) (zip [0, pi / 4] [0, 0]) \<and>
   Equ2tan_conv2rad example_equ2tan = setconversion False \<and>
   Tan2equ_conv2rad example_tan2equ = setconversion False \<and>
   Equ2tan_propxy example_equ2tan [0, pi / 4] [0, 0] = Inr ([0, 1], [0, 0]) \<and>
   Tan2equ_propxy example_tan2equ [0, 1] [0, 0] = Inr ([0, pi / 4], [0, 0])"
proof -
  have c: "setconversion False = 1" by (simp add: setconversion_def)
  have r: "\<forall>pt\<in>set (zip [0, pi / 4] [0, 0 :: real]).
      roundtrip_margin (setconversion False) 0 0 pt"
    using roundtrip_margin_example by (simp add: c)
  have e: "Equ2tan_pars example_equ2tan = [0, 0]" "Tan2equ_pars example_tan2equ = [0, 0]"
    "Equ2tan_conv2rad example_equ2tan = setconversion False"
    "Tan2equ_conv2rad example_tan2equ = setconversion False"
    by (simp_all add: example_equ2tan_def example_tan2equ_def c)
  from gnomonic_roundtrip [of example_equ2tan 0 0 example_tan2equ False "[0, pi / 4]" "[0, 0]",
      OF e _ r]
  have "Tan2equ_propxy example_tan2equ [0, 1] [0, 0] = Inr ([0, pi / 4], [0, 0])"
    by (simp add: Equ2tan_propxy_example)
  with r e show ?thesis
    by (simp add: Equ2tan_propxy_example)
qed

text \<open>
  Claim C3 as stated fails in the range of the projection. With the tangent point at the
  pole, \<open>(0, 90)\<close> degrees, the sample \<open>(180, 45)\<close> degrees is 45 degrees away from it;
  it maps to \<open>(\<xi>, \<eta>) = (0, 1)\<close> radian, and the inverse, whose longitude is
  \<open>\<alpha>0 + arctan(\<xi>/\<gamma>)\<close>, returns \<open>(0, 45)\<close>: half a turn off.
\<close>

theorem gnomonic_roundtrip_counterexample:
  "gnomonic_range (pi / 180) 0 90 (180, 45) \<and>
   Equ2tan_propxy example_equ2tan_pole [180] [45] = Inr ([0], [180 / pi]) \<and>
   Tan2equ_propxy example_tan2equ_pole [0] [180 / pi] = Inr ([0], [45]) \<and>
   1 / 10 ^ 9 < \<bar>180 * (pi / 180) - 0 * (pi / 180)\<bar>"
proof -
  have "1 / 10 ^ 9 < \<bar>180 * (pi / 180) - 0 * (pi / 180)\<bar>"
    using pi_ge_two by simp
  then show ?thesis
    by (simp add: gnomonic_range_def Equ2tan_propxy_def Tan2equ_propxy_def
      example_equ2tan_pole_def example_tan2equ_pole_def np_broadcast_def Equ2tan_propxy_pt_def
      Tan2equ_propxy_pt_def Let_def cos_45 sin_45 arctan_one)
qed

section \<open>The pattern matrix against Poly.propxy\<close>

subsection \<open>A polynomial as the sum of its terms\<close>

lemma foldr_horner:
  "foldr (\<lambda>a acc. a + acc * x) c z = polyval x c + z * x ^ length c"
  by (induction c) (simp_all add: polyval_def algebra_simps)

lemma polyval_snoc: "polyval x (c @ [a]) = polyval x c + a * x ^ length c"
proof -
  have "polyval x (c @ [a]) = foldr (\<lambda>a acc. a + acc * x) c (a + 0 * x)"
    by (simp add: polyval_def)
  also have "\<dots> = polyval x c + (a + 0 * x) * x ^ length c"
    by (rule foldr_horner)
  finally show ?thesis by simp
qed

lemma polyval_sum_list:
  "polyval x c = sum_list (map (\<lambda>k. c ! k * x ^ k) [0..<length c])"
proof (induction c rule: rev_induct)
  case Nil
  show ?case by (simp add: polyval_Nil)
next
  case (snoc a c)
  have eq: "map (\<lambda>k. (c @ [a]) ! k * x ^ k) [0..<length c] = map (\<lambda>k. c ! k * x ^ k) [0..<length c]"
  proof (rule map_cong [OF refl])
    fix k assume "k \<in> set [0..<length c]"
    then show "(c @ [a]) ! k * x ^ k = c ! k * x ^ k" by (simp add: nth_append)
  qed
  have "sum_list (map (\<lambda>k. (c @ [a]) ! k * x ^ k) [0..<length (c @ [a])])
      = sum_list (map (\<lambda>k. (c @ [a]) ! k * x ^ k) [0..<length c]) + a * x ^ length c"
    by simp
  then show ?case
    unfolding eq polyval_snoc snoc.IH by simp
qed

lemma map_product:
  "map f (List.product xs ys) = concat (map (\<lambda>i. map (\<lambda>j. f (i, j)) ys) xs)"
  by (induction xs) (simp_all add: comp_def)

lemma sum_list_product:
  fixes h :: "'a \<times> 'b \<Rightarrow> real"
  shows "sum_list (map h (List.product xs ys))
     = sum_list (map (\<lambda>i. sum_list (map (\<lambda>j. h (i, j)) ys)) xs)"
  by (induction xs) (simp_all add: comp_def)

lemma sum_list_filter_zero:
  fixes h :: "'a \<Rightarrow> real"
  assumes "\<And>p. p \<in> set ps \<Longrightarrow> \<not> P p \<Longrightarrow> h p = 0"
  shows "sum_list (map h (filter P ps)) = sum_list (map h ps)"
  using assms by (induction ps) auto

lemma sum_list_scale:
  fixes g :: "'a \<Rightarrow> real"
  shows "sum_list (map (\<lambda>j. g j * c) ys) = sum_list (map g ys) * c"
  by (induction ys) (simp_all add: algebra_simps)

lemma polyval2d_pt_sum:
  assumes rows: "length A = n" and cols: "\<And>i. i < n \<Longrightarrow> length (A ! i) = m"
  shows "polyval2d_pt A pt
     = sum_list (map (\<lambda>p. A ! fst p ! snd p * fst pt ^ fst p * snd pt ^ snd p)
                     (List.product [0..<n] [0..<m]))"
proof -
  have "polyval2d_pt A pt
      = sum_list (map (\<lambda>i. polyval (snd pt) (A ! i) * fst pt ^ i) [0..<n])"
    unfolding polyval2d_pt_def polyval_sum_list [of "fst pt"] using rows
    by (intro arg_cong [of _ _ sum_list] map_cong) simp_all
  also have "\<dots> = sum_list (map (\<lambda>i. sum_list (map (\<lambda>j. A ! i ! j * fst pt ^ i * snd pt ^ j) [0..<m])) [0..<n])"
  proof (intro arg_cong [of _ _ sum_list] map_cong refl)
    fix i assume "i \<in> set [0..<n]"
    then have "length (A ! i) = m" using cols by simp
    then have "polyval (snd pt) (A ! i) = sum_list (map (\<lambda>j. A ! i ! j * snd pt ^ j) [0..<m])"
      by (simp add: polyval_sum_list [of "snd pt"])
    then show "polyval (snd pt) (A ! i) * fst pt ^ i
        = sum_list (map (\<lambda>j. A ! i ! j * fst pt ^ i * snd pt ^ j) [0..<m])"
      by (simp add: algebra_simps sum_list_const_mult)
  qed
  finally show ?thesis
    by (simp add: sum_list_product)
qed

subsection \<open>The columns that Patternmatrix selects\<close>

lemma mask_map: "mask (map g ps) bs = map g (mask ps bs)"
proof -
  have "zip (map g ps) bs = map (\<lambda>q. (g (fst q), snd q)) (zip ps bs)"
    by (induction ps arbitrary: bs) (auto simp: zip_Cons1 split: list.splits)
  then show ?thesis
    by (simp add: mask_def filter_map comp_def)
qed

lemma mask_self: "mask ps (map P ps) = filter P ps"
  by (induction ps) (simp_all add: mask_def)

lemma mask_nth:
  "map (\<lambda>l. v ! l) (mask [0..<length v] bs) = mask v bs"
proof -
  have "map (\<lambda>l. v ! l) (mask [0..<length v] bs) = mask (map (\<lambda>l. v ! l) [0..<length v]) bs"
    by (simp add: mask_map)
  then show ?thesis by (simp add: map_nth)
qed

lemma zip_repeat_tile:
  "zip (concat (map (replicate (length ys)) xs)) (concat (replicate (length xs) ys))
     = List.product xs ys"
proof (induction xs)
  case Nil
  show ?case by simp
next
  case (Cons a xs)
  have "zip (replicate (length ys) a) ys = map (Pair a) ys"
    by (simp add: zip_replicate1)
  with Cons show ?case by simp
qed

lemma powers_of_init:
  assumes t: "Patternmatrix_selectpowers (Patternmatrix_buildpowers s) = t"
    and d: "Patternmatrix_deg s = d"
  shows "Patternmatrix_isel t = map fst (selected_powers d) \<and>
   Patternmatrix_jsel t = map snd (selected_powers d) \<and>
   Patternmatrix_lvander t = mask [0..<(d + 1) * (d + 1)]
       (map (\<lambda>p. fst p + snd p \<le> d) (List.product [0..<d + 1] [0..<d + 1])) \<and>
   Patternmatrix_xr t = Patternmatrix_xr s \<and> Patternmatrix_yr t = Patternmatrix_yr s \<and>
   Patternmatrix_deg t = d \<and> Patternmatrix_vander t = Patternmatrix_vander s \<and>
   Patternmatrix_xmin t = Patternmatrix_xmin s \<and> Patternmatrix_xmax t = Patternmatrix_xmax s \<and>
   Patternmatrix_ymin t = Patternmatrix_ymin s \<and> Patternmatrix_ymax t = Patternmatrix_ymax s"
proof -
  define n where "n = d + 1"
  define v where "v = [0..<n]"
  define ip where "ip = concat (map (replicate n) v)"
  define jp where "jp = concat (replicate n v)"
  define P where "P = (\<lambda>p :: nat \<times> nat. fst p + snd p \<le> d)"
  have lv: "length v = n" by (simp add: v_def)
  have z: "zip ip jp = List.product v v"
    using zip_repeat_tile [of v v] by (simp add: ip_def jp_def lv)
  have li: "length ip = n * n"
    by (simp add: ip_def length_concat comp_def sum_list_triv lv)
  have lj: "length jp = n * n"
    by (simp add: jp_def length_concat comp_def sum_list_replicate lv)
  have ip: "ip = map fst (List.product v v)"
    using arg_cong [OF z, of "map fst"] li lj by simp
  have jp: "jp = map snd (List.product v v)"
    using arg_cong [OF z, of "map snd"] li lj by simp
  have b: "map2 (\<lambda>i j. i + j \<le> d) ip jp = map P (List.product v v)"
    unfolding z by (simp add: case_prod_beta P_def)
  have sel: "selected_powers d = filter P (List.product v v)"
    by (simp add: selected_powers_def P_def v_def n_def)
  have i1: "mask ip (map P (List.product v v)) = map fst (selected_powers d)"
    unfolding sel by (subst ip) (simp add: mask_map mask_self)
  have j1: "mask jp (map P (List.product v v)) = map snd (selected_powers d)"
    unfolding sel by (subst jp) (simp add: mask_map mask_self)
  have t': "t = (s\<lparr>Patternmatrix_ipow := ip, Patternmatrix_jpow := jp\<rparr>)
      \<lparr>Patternmatrix_bpow := map2 (\<lambda>i j. i + j \<le> d) ip jp,
       Patternmatrix_isel := mask ip (map2 (\<lambda>i j. i + j \<le> d) ip jp),
       Patternmatrix_jsel := mask jp (map2 (\<lambda>i j. i + j \<le> d) ip jp),
       Patternmatrix_lvander := mask [0..<length ip] (map2 (\<lambda>i j. i + j \<le> d) ip jp)\<rparr>"
    unfolding t [symmetric] Patternmatrix_selectpowers_def Patternmatrix_buildpowers_def Let_def
      ip_def jp_def v_def n_def d [symmetric]
    by simp
  show ?thesis
    unfolding t' b i1 j1 li using d by (simp add: P_def v_def n_def)
qed

lemma vander_row_selected:
  "map (\<lambda>l. concat (map (\<lambda>i. map (\<lambda>j. fst pt ^ i * snd pt ^ j) [0..<d + 1]) [0..<d + 1]) ! l)
       (mask [0..<(d + 1) * (d + 1)]
          (map (\<lambda>p. fst p + snd p \<le> d) (List.product [0..<d + 1] [0..<d + 1])))
     = map (basis pt) (selected_powers d)"
proof -
  define prod where "prod = List.product [0..<d + 1] [0..<d + 1]"
  define v where "v = map (basis pt) prod"
  have v: "concat (map (\<lambda>i. map (\<lambda>j. fst pt ^ i * snd pt ^ j) [0..<d + 1]) [0..<d + 1]) = v"
    unfolding v_def prod_def map_product basis_def by simp
  have lv: "length v = (d + 1) * (d + 1)"
    by (simp add: v_def prod_def)
  have "map (\<lambda>l. v ! l) (mask [0..<length v] (map (\<lambda>p. fst p + snd p \<le> d) prod))
      = mask v (map (\<lambda>p. fst p + snd p \<le> d) prod)"
    by (rule mask_nth)
  also have "\<dots> = map (basis pt) (filter (\<lambda>p. fst p + snd p \<le> d) prod)"
    unfolding v_def by (simp add: mask_map mask_self)
  finally show ?thesis
    unfolding v lv prod_def [symmetric] selected_powers_def .
qed

lemma Patternmatrix_init_Inr:
  assumes init: "Patternmatrix_init d x y nr = Inr pm"
  shows "length x = length y \<and> x \<noteq> [] \<and>
     Patternmatrix_xr pm = map (\<lambda>v. (2 * v - (Patternmatrix_xmax pm + Patternmatrix_xmin pm))
                                    / (Patternmatrix_xmax pm - Patternmatrix_xmin pm)) x \<and>
     Patternmatrix_yr pm = map (\<lambda>v. (2 * v - (Patternmatrix_ymax pm + Patternmatrix_ymin pm))
                                    / (Patternmatrix_ymax pm - Patternmatrix_ymin pm)) y \<and>
     Patternmatrix_isel pm = map fst (selected_powers d) \<and>
     Patternmatrix_jsel pm = map snd (selected_powers d) \<and>
     Patternmatrix_pattern pm =
       map (\<lambda>pt. [map (basis pt) (selected_powers d) @ replicate (length (selected_powers d)) 0,
                  replicate (length (selected_powers d)) 0 @ map (basis pt) (selected_powers d)])
           (zip (Patternmatrix_xr pm) (Patternmatrix_yr pm))"
proof -
  let ?s0 = "\<lparr>Patternmatrix_deg = d, Patternmatrix_x = x, Patternmatrix_y = y,
              Patternmatrix_norescale = nr, Patternmatrix_xmin = - 1,
              Patternmatrix_xmax = 1, Patternmatrix_ymin = - 1, Patternmatrix_ymax = 1,
              Patternmatrix_xr = [], Patternmatrix_yr = [], Patternmatrix_ipow = [],
              Patternmatrix_jpow = [], Patternmatrix_bpow = [], Patternmatrix_isel = [],
              Patternmatrix_jsel = [], Patternmatrix_lvander = [], Patternmatrix_vander = [],
              Patternmatrix_pattern = []\<rparr>"
  from init obtain s1 where s1: "Patternmatrix_setlims ?s0 = Inr s1"
    by (auto simp: Patternmatrix_init_def split: sum.splits)
  have f1: "Patternmatrix_x s1 = x \<and> Patternmatrix_y s1 = y \<and> Patternmatrix_deg s1 = d \<and>
      Patternmatrix_vander s1 = []"
    using s1 by (auto simp: Patternmatrix_setlims_def split: if_splits sum.splits)
  define s2 where "s2 = Patternmatrix_rescalexy s1"
  have f2: "Patternmatrix_deg s2 = d \<and> Patternmatrix_vander s2 = [] \<and>
      Patternmatrix_xr s2 = map (\<lambda>v. (2 * v - (Patternmatrix_xmax s2 + Patternmatrix_xmin s2))
                                    / (Patternmatrix_xmax s2 - Patternmatrix_xmin s2)) x \<and>
      Patternmatrix_yr s2 = map (\<lambda>v. (2 * v - (Patternmatrix_ymax s2 + Patternmatrix_ymin s2))
                                    / (Patternmatrix_ymax s2 - Patternmatrix_ymin s2)) y"
    using f1 by (simp add: s2_def Patternmatrix_rescalexy_def)
  define t where "t = Patternmatrix_selectpowers (Patternmatrix_buildpowers s2)"
  from f2 have d2: "Patternmatrix_deg s2 = d" by simp
  note ft = powers_of_init [OF t_def [symmetric] d2]
  from init s1 obtain s3 where s3: "Patternmatrix_buildvander t = Inr s3"
    and pm: "Patternmatrix_buildpattern s3 = Inr pm"
    by (auto simp: Patternmatrix_init_def t_def s2_def split: sum.splits)
  from pm have vne: "Patternmatrix_vander s3 \<noteq> []"
    and pat: "pm = s3\<lparr>Patternmatrix_pattern :=
                map (\<lambda>v. [map (\<lambda>l. v ! l) (Patternmatrix_lvander s3)
                             @ replicate (length (Patternmatrix_lvander s3)) 0,
                          replicate (length (Patternmatrix_lvander s3)) 0
                             @ map (\<lambda>l. v ! l) (Patternmatrix_lvander s3)])
                    (Patternmatrix_vander s3)\<rparr>"
    by (auto simp: Patternmatrix_buildpattern_def Let_def split: if_splits)
  have tv: "Patternmatrix_vander t = []" using ft f2 by simp
  from s3 vne tv obtain vd where
    vd: "polyvander2d (Patternmatrix_xr t) (Patternmatrix_yr t) d = Inr vd"
    and s3eq: "s3 = t\<lparr>Patternmatrix_vander := vd\<rparr>"
    and xne: "\<not> length (Patternmatrix_xr t) < 1"
    using ft by (auto simp: Patternmatrix_buildvander_def split: if_splits sum.splits)
  from vd have leq: "length (Patternmatrix_xr t) = length (Patternmatrix_yr t)"
    and vdeq: "vd = map (\<lambda>pt. concat (map (\<lambda>i. map (\<lambda>j. fst pt ^ i * snd pt ^ j) [0..<d + 1])
                                       [0..<d + 1]))
                    (zip (Patternmatrix_xr t) (Patternmatrix_yr t))"
    by (auto simp: polyvander2d_def split: if_splits)
  have xr: "Patternmatrix_xr t = Patternmatrix_xr s2" "Patternmatrix_yr t = Patternmatrix_yr s2"
    using ft by simp_all
  have lens: "length x = length y \<and> x \<noteq> []"
    using leq xne f2 unfolding xr by auto
  have lsel: "length (Patternmatrix_lvander t) = length (selected_powers d)"
  proof -
    have "length (map (\<lambda>l. concat (map (\<lambda>i. map (\<lambda>j. fst (0, 0) ^ i * snd (0 :: real, 0 :: real) ^ j)
             [0..<d + 1]) [0..<d + 1]) ! l) (Patternmatrix_lvander t))
        = length (map (basis (0, 0)) (selected_powers d))"
      using ft vander_row_selected [of "(0, 0)" d] by simp
    then show ?thesis by simp
  qed
  have rows: "map (\<lambda>v. [map (\<lambda>l. v ! l) (Patternmatrix_lvander t)
                             @ replicate (length (Patternmatrix_lvander t)) 0,
                          replicate (length (Patternmatrix_lvander t)) 0
                             @ map (\<lambda>l. v ! l) (Patternmatrix_lvander t)]) vd
      = map (\<lambda>pt. [map (basis pt) (selected_powers d) @ replicate (length (selected_powers d)) 0,
                  replicate (length (selected_powers d)) 0 @ map (basis pt) (selected_powers d)])
           (zip (Patternmatrix_xr t) (Patternmatrix_yr t))"
    unfolding vdeq lsel using ft vander_row_selected [of _ d]
    by (simp add: comp_def)
  show ?thesis
    using lens ft f2 rows xr unfolding pat s3eq by simp
qed

subsection \<open>Rows of the pattern times the coefficients\<close>

lemma readback_selected:
  "readback A (map fst sel, map snd sel) = map (\<lambda>p. A ! fst p ! snd p) sel"
  unfolding readback_def fst_conv snd_conv
  by (rule nth_equalityI) simp_all

lemma np_dot_map:
  "np_dot (map f ps) (map g ps) = sum_list (map (\<lambda>p. f p * g p) ps)"
  by (induction ps) (simp_all add: np_dot_def)

lemma np_dot_zero: "np_dot (replicate n 0) v = 0"
proof (induction n arbitrary: v)
  case 0
  show ?case by (simp add: np_dot_def)
next
  case (Suc n)
  then show ?case by (cases v) (simp_all add: np_dot_def)
qed

lemma np_dot_append:
  "length u = length a \<Longrightarrow> np_dot (u @ w) (a @ b) = np_dot u a + np_dot w b"
  by (simp add: np_dot_def)

lemma triangular_dot:
  assumes tri: "triangular d A"
  shows "np_dot (map (basis pt) (selected_powers d))
           (readback A (map fst (selected_powers d), map snd (selected_powers d)))
         = polyval2d_pt A pt"
proof -
  let ?prod = "List.product [0..<d + 1] [0..<d + 1]"
  let ?h = "\<lambda>p. A ! fst p ! snd p * fst pt ^ fst p * snd pt ^ snd p"
  from tri have rows: "length A = d + 1"
    and cols: "\<And>i. i < d + 1 \<Longrightarrow> length (A ! i) = d + 1"
    and zero: "\<And>p. p \<in> set ?prod \<Longrightarrow> \<not> fst p + snd p \<le> d \<Longrightarrow> A ! fst p ! snd p = 0"
    by (auto simp: triangular_def list_all_iff)
  have "np_dot (map (basis pt) (selected_powers d))
           (readback A (map fst (selected_powers d), map snd (selected_powers d)))
      = sum_list (map ?h (selected_powers d))"
    unfolding readback_selected np_dot_map
    by (intro arg_cong [of _ _ sum_list] map_cong refl) (simp add: basis_def)
  also have "\<dots> = sum_list (map ?h ?prod)"
    unfolding selected_powers_def
    by (rule sum_list_filter_zero) (simp add: zero)
  also have "\<dots> = polyval2d_pt A pt"
    using polyval2d_pt_sum [of A "d + 1" "d + 1" pt] rows cols by simp
  finally show ?thesis .
qed

lemma map2_map_map: "map2 f (map g xs) (map h xs) = map (\<lambda>v. f (g v) (h v)) xs"
  by (induction xs) simp_all

text \<open>
  The pattern times the coefficients of two triangular arrays, read at the pattern's own
  pairs \<open>(isel, jsel)\<close>, is the output of \<^verbatim>\<open>Poly.propxy\<close> for those arrays on the same
  domain.
\<close>

lemma pattern_times_readback:
  assumes pm: "Patternmatrix_init d x y nr = Inr pm"
    and dom: "Poly_xmin s = Some (Patternmatrix_xmin pm)" "Poly_xmax s = Some (Patternmatrix_xmax pm)"
      "Poly_ymin s = Some (Patternmatrix_ymin pm)" "Poly_ymax s = Some (Patternmatrix_ymax pm)"
    and tri: "triangular d (Polycoeffs_p2d (Poly_pars2x s))"
      "triangular d (Polycoeffs_p2d (Poly_pars2y s))"
    and cx: "cx = readback (Polycoeffs_p2d (Poly_pars2x s))
                    (Patternmatrix_isel pm, Patternmatrix_jsel pm)"
    and cy: "cy = readback (Polycoeffs_p2d (Poly_pars2y s))
                    (Patternmatrix_isel pm, Patternmatrix_jsel pm)"
  shows "case Poly_propxy s x y of
           Inl err \<Rightarrow> False
         | Inr r \<Rightarrow> length (fst r) = length x \<and> length (snd r) = length x \<and>
             matmul_pattern (Patternmatrix_pattern pm) (cx @ cy)
               = Inr (map2 (\<lambda>a b. [a, b]) (fst r) (snd r))"
proof -
  let ?Ax = "Polycoeffs_p2d (Poly_pars2x s)" and ?Ay = "Polycoeffs_p2d (Poly_pars2y s)"
  let ?sel = "selected_powers d"
  let ?pts = "zip (Patternmatrix_xr pm) (Patternmatrix_yr pm)"
  note st = Patternmatrix_init_Inr [OF pm]
  from st have len: "length x = length y" and ne: "x \<noteq> []" by simp_all
  from st have isel: "Patternmatrix_isel pm = map fst ?sel"
    and jsel: "Patternmatrix_jsel pm = map snd ?sel" by simp_all
  from st have pat: "Patternmatrix_pattern pm =
       map (\<lambda>pt. [map (basis pt) ?sel @ replicate (length ?sel) 0,
                  replicate (length ?sel) 0 @ map (basis pt) ?sel]) ?pts" by simp
  from st have xr: "Patternmatrix_xr pm
        = map (\<lambda>v. (2 * v - (Patternmatrix_xmax pm + Patternmatrix_xmin pm))
                                    / (Patternmatrix_xmax pm - Patternmatrix_xmin pm)) x"
    and yr: "Patternmatrix_yr pm
        = map (\<lambda>v. (2 * v - (Patternmatrix_ymax pm + Patternmatrix_ymin pm))
                                    / (Patternmatrix_ymax pm - Patternmatrix_ymin pm)) y"
    by simp_all
  have lcx: "length cx = length ?sel" and lcy: "length cy = length ?sel"
    by (simp_all add: cx cy isel jsel readback_selected)
  have resc: "Poly_rescalexy s x y = Inr (Patternmatrix_xr pm, Patternmatrix_yr pm)"
    unfolding Poly_rescalexy_def dom by (simp add: xr [symmetric] yr [symmetric])
  have okx: "\<not> (?Ax = [] \<or> list_ex (\<lambda>row. row = []) ?Ax)"
    using tri(1) by (auto simp: triangular_def list_all_iff list_ex_iff)
  have oky: "\<not> (?Ay = [] \<or> list_ex (\<lambda>row. row = []) ?Ay)"
    using tri(2) by (auto simp: triangular_def list_all_iff list_ex_iff)
  have lr: "length (Patternmatrix_xr pm) = length (Patternmatrix_yr pm)"
    "length (Patternmatrix_xr pm) = length x"
    using len by (simp_all add: xr yr)
  have P: "Poly_propxy s x y = Inr (map (polyval2d_pt ?Ax) ?pts, map (polyval2d_pt ?Ay) ?pts)"
  proof -
    from ne len have g: "\<not> (length x < 1 \<or> length y < 1)" by (cases x; cases y) auto
    have vx: "polyval2d (Patternmatrix_xr pm) (Patternmatrix_yr pm) ?Ax
        = Inr (map (polyval2d_pt ?Ax) ?pts)"
      unfolding polyval2d_def using okx lr by simp
    have vy: "polyval2d (Patternmatrix_xr pm) (Patternmatrix_yr pm) ?Ay
        = Inr (map (polyval2d_pt ?Ay) ?pts)"
      unfolding polyval2d_def using oky lr by simp
    show ?thesis
      unfolding Poly_propxy_def resc using g by (simp add: vx vy)
  qed
  have dotx: "np_dot (map (basis pt) ?sel @ replicate (length ?sel) 0) (cx @ cy)
      = polyval2d_pt ?Ax pt" for pt
  proof -
    have "np_dot (map (basis pt) ?sel @ replicate (length ?sel) 0) (cx @ cy)
        = np_dot (map (basis pt) ?sel) cx + np_dot (replicate (length ?sel) 0) cy"
      by (rule np_dot_append) (simp add: lcx)
    also have "\<dots> = np_dot (map (basis pt) ?sel) cx"
      by (simp add: np_dot_zero)
    also have "\<dots> = polyval2d_pt ?Ax pt"
      unfolding cx isel jsel by (rule triangular_dot [OF tri(1)])
    finally show ?thesis .
  qed
  have doty: "np_dot (replicate (length ?sel) 0 @ map (basis pt) ?sel) (cx @ cy)
      = polyval2d_pt ?Ay pt" for pt
  proof -
    have "np_dot (replicate (length ?sel) 0 @ map (basis pt) ?sel) (cx @ cy)
        = np_dot (replicate (length ?sel) 0) cx + np_dot (map (basis pt) ?sel) cy"
      by (rule np_dot_append) (simp add: lcx)
    also have "\<dots> = np_dot (map (basis pt) ?sel) cy"
      by (simp add: np_dot_zero)
    also have "\<dots> = polyval2d_pt ?Ay pt"
      unfolding cy isel jsel by (rule triangular_dot [OF tri(2)])
    finally show ?thesis .
  qed
  have noerr: "\<not> list_ex (list_ex (\<lambda>row. length row \<noteq> length (cx @ cy))) (Patternmatrix_pattern pm)"
    unfolding pat by (simp add: list_ex_iff lcx lcy)
  have M: "matmul_pattern (Patternmatrix_pattern pm) (cx @ cy)
      = Inr (map (\<lambda>pt. [polyval2d_pt ?Ax pt, polyval2d_pt ?Ay pt]) ?pts)"
    unfolding matmul_pattern_def using noerr
    by (simp add: pat dotx doty comp_def)
  have Z: "map2 (\<lambda>a b. [a, b]) (map (polyval2d_pt ?Ax) ?pts) (map (polyval2d_pt ?Ay) ?pts)
      = map (\<lambda>pt. [polyval2d_pt ?Ax pt, polyval2d_pt ?Ay pt]) ?pts"
    by (rule map2_map_map)
  show ?thesis
    unfolding P using M Z lr by simp
qed

text \<open>
  Claim C2 fails on the code as it is stated. The columns of the pattern follow the
  convention of numpy's Vandermonde arrays, the powers \<open>(i, j)\<close> by \<open>i\<close> and then by
  \<open>j\<close> (\<^verbatim>\<open>isel\<close>, \<^verbatim>\<open>jsel\<close>), while the flat vectors \<^verbatim>\<open>parsx\<close>, \<^verbatim>\<open>parsy\<close> of \<^verbatim>\<open>Poly\<close>
  are ordered by total degree (\<^verbatim>\<open>Polycoeffs.ijfromdeg\<close>). What holds, for every degree
  \<open>d \<ge> 1\<close>, every pair \<^verbatim>\<open>parsx\<close>, \<^verbatim>\<open>parsy\<close> of \<open>(d+1)(d+2)/2\<close> coefficients, every
  point set on which the pattern can be built, with a domain of non-zero width and height,
  and every \<^verbatim>\<open>Poly\<close> with that domain whose coefficient arrays are those that
  \<^verbatim>\<open>Polycoeffs\<close> builds from \<^verbatim>\<open>parsx\<close> and \<^verbatim>\<open>parsy\<close>: these arrays hold \<^verbatim>\<open>parsx\<close> and
  \<^verbatim>\<open>parsy\<close> at the pairs of \<^verbatim>\<open>ijfromdeg\<close>, and the pattern times the flat vector that
  lists the same coefficients at the pattern's own pairs \<open>(isel, jsel)\<close> is the output
  of \<^verbatim>\<open>Poly.propxy\<close> at the points, as \<open>(x, y)\<close> pairs; \<^verbatim>\<open>propxy\<close> raises nothing
  there.
\<close>

theorem pattern_times_flat:
  assumes d: "1 \<le> d"
    and lx: "length parsx = polylen d" and ly: "length parsy = polylen d"
    and px: "Polycoeffs_p2d (Poly_pars2x s) = Polycoeffs_p2d (state_of (Polycoeffs_init parsx))"
    and py: "Polycoeffs_p2d (Poly_pars2y s) = Polycoeffs_p2d (state_of (Polycoeffs_init parsy))"
    and pm: "Patternmatrix_init d x y nr = Inr pm"
    and dom: "Poly_xmin s = Some (Patternmatrix_xmin pm)" "Poly_xmax s = Some (Patternmatrix_xmax pm)"
      "Poly_ymin s = Some (Patternmatrix_ymin pm)" "Poly_ymax s = Some (Patternmatrix_ymax pm)"
    and wide: "Patternmatrix_xmin pm \<noteq> Patternmatrix_xmax pm"
      "Patternmatrix_ymin pm \<noteq> Patternmatrix_ymax pm"
    and cx: "cx = readback (Polycoeffs_p2d (state_of (Polycoeffs_init parsx)))
                    (Patternmatrix_isel pm, Patternmatrix_jsel pm)"
    and cy: "cy = readback (Polycoeffs_p2d (state_of (Polycoeffs_init parsy)))
                    (Patternmatrix_isel pm, Patternmatrix_jsel pm)"
  shows "readback (Polycoeffs_p2d (state_of (Polycoeffs_init parsx))) (ijfromdeg (int d)) = parsx \<and>
         readback (Polycoeffs_p2d (state_of (Polycoeffs_init parsy))) (ijfromdeg (int d)) = parsy \<and>
         (case Poly_propxy s x y of
           Inl err \<Rightarrow> False
         | Inr r \<Rightarrow> length (fst r) = length x \<and> length (snd r) = length x \<and>
             matmul_pattern (Patternmatrix_pattern pm) (cx @ cy)
               = Inr (map2 (\<lambda>a b. [a, b]) (fst r) (snd r)))"
proof -
  have tx: "triangular d (Polycoeffs_p2d (Poly_pars2x s))"
    unfolding px using Polycoeffs_init_degree(1) [OF d lx] by (simp add: Polycoeffs_degree_def)
  have ty: "triangular d (Polycoeffs_p2d (Poly_pars2y s))"
    unfolding py using Polycoeffs_init_degree(1) [OF d ly] by (simp add: Polycoeffs_degree_def)
  note main = pattern_times_readback [OF pm dom tx ty cx [folded px] cy [folded py]]
  from Polycoeffs_init_degree(2) [OF d lx] Polycoeffs_init_degree(2) [OF d ly] main
  show ?thesis by blast
qed

subsection \<open>A worked instance\<close>

lemma Patternmatrix_init_example:
  "Patternmatrix_init 1 [0, 1, 1] [0, 2, 0] False = Inr example_pattern"
  by (simp add: Patternmatrix_init_def Patternmatrix_setlims_def np_min_def np_max_def
      Patternmatrix_rescalexy_def Patternmatrix_buildpowers_def Patternmatrix_selectpowers_def
      Patternmatrix_buildvander_def polyvander2d_def Patternmatrix_buildpattern_def mask_def
      example_pattern_def Let_def upt_rec)

lemma Poly_propxy_example:
  "Poly_propxy example_poly [0, 1, 1] [0, 2, 0] = Inr ([- 4, 6, 0], [- 7, 15, 3])"
  by (simp add: Poly_propxy_def Poly_rescalexy_def example_poly_def
      polyval2d_def polyval2d_pt_def polyval_Nil polyval_Cons)

lemma Polycoeffs_init_p2d_example:
  "Polycoeffs_p2d (state_of (Polycoeffs_init [1, 2, 3])) = [[1, 3], [2, 0]]"
  "Polycoeffs_p2d (state_of (Polycoeffs_init [4, 5, 6])) = [[4, 6], [5, 0]]"
  by (simp_all add: Polycoeffs_init_linear)

lemma readback_example:
  "readback (Polycoeffs_p2d (state_of (Polycoeffs_init [1, 2, 3])))
     (Patternmatrix_isel example_pattern, Patternmatrix_jsel example_pattern) = [1, 3, 2]"
  "readback (Polycoeffs_p2d (state_of (Polycoeffs_init [4, 5, 6])))
     (Patternmatrix_isel example_pattern, Patternmatrix_jsel example_pattern) = [4, 6, 5]"
  unfolding Polycoeffs_init_p2d_example
  by (simp_all add: readback_def example_pattern_def upt_rec)

text \<open>
  The theorem at degree 1 on the points \<open>(0,0), (1,2), (1,0)\<close>, whose domain is that of
  \<open>example_poly\<close>: the coefficients \<open>[1, 2, 3]\<close> of \<open>1 + 2 xr + 3 yr\<close> are listed
  as \<open>[1, 3, 2]\<close> in the order of the pattern.
\<close>

theorem pattern_times_flat_witness:
  "(1::nat) \<le> 1 \<and> length [1, 2, 3 :: real] = polylen 1 \<and> length [4, 5, 6 :: real] = polylen 1 \<and>
   Polycoeffs_p2d (Poly_pars2x example_poly) = Polycoeffs_p2d (state_of (Polycoeffs_init [1, 2, 3])) \<and>
   Polycoeffs_p2d (Poly_pars2y example_poly) = Polycoeffs_p2d (state_of (Polycoeffs_init [4, 5, 6])) \<and>
   Patternmatrix_init 1 [0, 1, 1] [0, 2, 0] False = Inr example_pattern \<and>
   Poly_xmin example_poly = Some (Patternmatrix_xmin example_pattern) \<and>
   Poly_xmax example_poly = Some (Patternmatrix_xmax example_pattern) \<and>
   Poly_ymin example_poly = Some (Patternmatrix_ymin example_pattern) \<and>
   Poly_ymax example_poly = Some (Patternmatrix_ymax example_pattern) \<and>
   Patternmatrix_xmin example_pattern \<noteq> Patternmatrix_xmax example_pattern \<and>
   Patternmatrix_ymin example_pattern \<noteq> Patternmatrix_ymax example_pattern \<and>
   readback (Polycoeffs_p2d (state_of (Polycoeffs_init [1, 2, 3])))
     (Patternmatrix_isel example_pattern, Patternmatrix_jsel example_pattern) = [1, 3, 2] \<and>
   readback (Polycoeffs_p2d (state_of (Polycoeffs_init [4, 5, 6])))
     (Patternmatrix_isel example_pattern, Patternmatrix_jsel example_pattern) = [4, 6, 5] \<and>
   readback (Polycoeffs_p2d (state_of (Polycoeffs_init [1, 2, 3]))) (ijfromdeg 1) = [1, 2, 3] \<and>
   readback (Polycoeffs_p2d (state_of (Polycoeffs_init [4, 5, 6]))) (ijfromdeg 1) = [4, 5, 6] \<and>
   Poly_propxy example_poly [0, 1, 1] [0, 2, 0] = Inr ([- 4, 6, 0], [- 7, 15, 3]) \<and>
   matmul_pattern (Patternmatrix_pattern example_pattern) ([1, 3, 2] @ [4, 6, 5])
     = Inr [[- 4, - 7], [6, 15], [0, 3]]"
proof -
  have l: "length [1, 2, 3 :: real] = polylen 1" "length [4, 5, 6 :: real] = polylen 1"
    by (simp_all add: polylen_def)
  have p: "Polycoeffs_p2d (Poly_pars2x example_poly)
        = Polycoeffs_p2d (state_of (Polycoeffs_init [1, 2, 3]))"
    "Polycoeffs_p2d (Poly_pars2y example_poly)
        = Polycoeffs_p2d (state_of (Polycoeffs_init [4, 5, 6]))"
    unfolding Polycoeffs_init_p2d_example by (simp_all add: example_poly_def)
  have dom: "Poly_xmin example_poly = Some (Patternmatrix_xmin example_pattern)"
    "Poly_xmax example_poly = Some (Patternmatrix_xmax example_pattern)"
    "Poly_ymin example_poly = Some (Patternmatrix_ymin example_pattern)"
    "Poly_ymax example_poly = Some (Patternmatrix_ymax example_pattern)"
    by (simp_all add: example_poly_def example_pattern_def)
  have wide: "Patternmatrix_xmin example_pattern \<noteq> Patternmatrix_xmax example_pattern"
    "Patternmatrix_ymin example_pattern \<noteq> Patternmatrix_ymax example_pattern"
    by (simp_all add: example_pattern_def)
  note t = pattern_times_flat [OF le_refl l p Patternmatrix_init_example dom wide
      readback_example(1) [symmetric] readback_example(2) [symmetric]]
  from t have r: "readback (Polycoeffs_p2d (state_of (Polycoeffs_init [1, 2, 3]))) (ijfromdeg 1)
        = [1, 2, 3]"
    "readback (Polycoeffs_p2d (state_of (Polycoeffs_init [4, 5, 6]))) (ijfromdeg 1) = [4, 5, 6]"
    by simp_all
  from t have m: "matmul_pattern (Patternmatrix_pattern example_pattern) ([1, 3, 2] @ [4, 6, 5])
      = Inr [[- 4, - 7], [6, 15], [0, 3]]"
    unfolding Poly_propxy_example by simp
  show ?thesis
    using l p dom wide r m Patternmatrix_init_example readback_example Poly_propxy_example
    by blast
qed

text \<open>
  With the flat vectors of \<open>example_poly\<close> themselves, \<^verbatim>\<open>parsx = [1, 2, 3]\<close> and
  \<^verbatim>\<open>parsy = [4, 5, 6]\<close>, the product differs from \<^verbatim>\<open>Poly.propxy\<close> at the point
  \<open>(1, 0)\<close>: \<open>(2, 5)\<close> against \<open>(0, 3)\<close>.
\<close>

theorem pattern_times_flat_counterexample:
  "Patternmatrix_init 1 [0, 1, 1] [0, 2, 0] False = Inr example_pattern \<and>
   Poly_xmin example_poly = Some (Patternmatrix_xmin example_pattern) \<and>
   Poly_xmax example_poly = Some (Patternmatrix_xmax example_pattern) \<and>
   Poly_ymin example_poly = Some (Patternmatrix_ymin example_pattern) \<and>
   Poly_ymax example_poly = Some (Patternmatrix_ymax example_pattern) \<and>
   Polycoeffs_deg (Poly_pars2x example_poly) = 1 \<and>
   Polycoeffs_deg (Poly_pars2y example_poly) = 1 \<and>
   Poly_parsx example_poly = [1, 2, 3] \<and> Poly_parsy example_poly = [4, 5, 6] \<and>
   Poly_propxy example_poly [0, 1, 1] [0, 2, 0] = Inr ([- 4, 6, 0], [- 7, 15, 3]) \<and>
   matmul_pattern (Patternmatrix_pattern example_pattern) ([1, 2, 3] @ [4, 5, 6])
     = Inr [[- 4, - 7], [6, 15], [2, 5]]"
proof -
  have "matmul_pattern (Patternmatrix_pattern example_pattern) ([1, 2, 3] @ [4, 5, 6])
      = Inr [[- 4, - 7], [6, 15], [2, 5]]"
    by (simp add: matmul_pattern_def np_dot_def example_pattern_def)
  moreover have "Poly_xmin example_poly = Some (Patternmatrix_xmin example_pattern)"
    "Poly_xmax example_poly = Some (Patternmatrix_xmax example_pattern)"
    "Poly_ymin example_poly = Some (Patternmatrix_ymin example_pattern)"
    "Poly_ymax example_poly = Some (Patternmatrix_ymax example_pattern)"
    "Polycoeffs_deg (Poly_pars2x example_poly) = 1"
    "Polycoeffs_deg (Poly_pars2y example_poly) = 1"
    "Poly_parsx example_poly = [1, 2, 3]" "Poly_parsy example_poly = [4, 5, 6]"
    by (simp_all add: example_poly_def example_pattern_def)
  ultimately show ?thesis
    using Patternmatrix_init_example Poly_propxy_example by blast
qed

end
